theory Spec2Isabelle
  imports Main
begin

section \<open>Values exchanged with the outside world\<close>

text \<open>
  The servers answer with JSON documents.  A JavaScript object is an association list in
  insertion order; a key whose value is \<^verbatim>\<open>undefined\<close> is not serialised, so it is simply not
  in the list.  Identifiers (memory counters, SQLite row ids, Mongo object ids) and
  timestamps are natural numbers.  Strings are lists of code units below 256.
\<close>

datatype json =
    JNull
  | JBool bool
  | JNum nat
  | JStr string
  | JArr "json list"
  | JObj "(string \<times> json) list"

record response =
  status :: nat
  body :: json

definition reply :: "nat \<Rightarrow> (string \<times> json) list \<Rightarrow> response" where
  "reply code kvs = \<lparr>status = code, body = JObj kvs\<rparr>"

text \<open>The shape \<^verbatim>\<open>res.status(code).json({ success: false, error: msg })\<close>.\<close>

definition failure :: "nat \<Rightarrow> string \<Rightarrow> response" where
  "failure code msg = reply code [(''success'', JBool False), (''error'', JStr msg)]"

text \<open>\<^verbatim>\<open>delete obj.key\<close> and the rest pattern \<^verbatim>\<open>const { key: _, ...rest } = obj\<close>.\<close>

definition js_delete :: "string \<Rightarrow> (string \<times> json) list \<Rightarrow> (string \<times> json) list" where
  "js_delete k obj = filter (\<lambda>kv. fst kv \<noteq> k) obj"

text \<open>An optional property: present with a value, or absent.\<close>

definition opt_field :: "string \<Rightarrow> ('a \<Rightarrow> json) \<Rightarrow> 'a option \<Rightarrow> (string \<times> json) list" where
  "opt_field k f v = (case v of None \<Rightarrow> [] | Some x \<Rightarrow> [(k, f x)])"

text \<open>A nullable SQL column read back into a row object.\<close>

definition nullable :: "('a \<Rightarrow> json) \<Rightarrow> 'a option \<Rightarrow> json" where
  "nullable f v = (case v of None \<Rightarrow> JNull | Some x \<Rightarrow> f x)"

text \<open>
  JavaScript truthiness of a string-valued body field: \<^verbatim>\<open>!x\<close> holds when the field is
  missing or the empty string.
\<close>

definition falsy :: "string option \<Rightarrow> bool" where
  "falsy v = (case v of None \<Rightarrow> True | Some s \<Rightarrow> s = [])"

subsection \<open>String helpers of the JavaScript runtime\<close>

definition ws_chars :: "char list" where
  "ws_chars = [CHR 0x09, CHR 0x0A, CHR 0x0B, CHR 0x0C, CHR 0x0D, CHR 0x20, CHR 0xA0]"

definition is_ws :: "char \<Rightarrow> bool" where
  "is_ws c = (c \<in> set ws_chars)"

text \<open>\<^verbatim>\<open>String.prototype.trim\<close>: white space is removed from both ends.\<close>

definition trim :: "string \<Rightarrow> string" where
  "trim s = rev (dropWhile is_ws (rev (dropWhile is_ws s)))"

definition lower_char :: "char \<Rightarrow> char" where
  "lower_char c =
     (let n = (of_char c :: nat)
      in if (65 \<le> n \<and> n \<le> 90) \<or> (192 \<le> n \<and> n \<le> 222 \<and> n \<noteq> 215)
         then char_of (n + 32) else c)"

definition toLowerCase :: "string \<Rightarrow> string" where
  "toLowerCase s = map lower_char s"

text \<open>
  The regular expression \<^verbatim>\<open>/^\S+@\S+\.\S+$/\<close>: no white space anywhere, and an
  \<^verbatim>\<open>@\<close> at some position \<open>i \<ge> 1\<close> followed, at least one character later, by a dot
  at a position \<open>j\<close> that is not the last one.
\<close>

definition isValidEmail :: "string \<Rightarrow> bool" where
  "isValidEmail s =
     ((\<forall>c \<in> set s. \<not> is_ws c) \<and>
      (\<exists>i \<in> {1 ..< length s}. s ! i = CHR ''@'' \<and>
         (\<exists>j \<in> {i + 2 ..< length s - 1}. s ! j = CHR ''.'')))"

subsection \<open>Library calls taken as parameters\<close>

text \<open>
  \<^verbatim>\<open>jwt.verify\<close> either returns the payload, of which the code reads \<^verbatim>\<open>id\<close>, or throws
  an error whose \<^verbatim>\<open>name\<close> the middleware inspects.  Further down, \<^verbatim>\<open>todo_query\<close> stands
  for the filtering, sorting and pagination that \<^verbatim>\<open>GET /api/todos\<close> hands to the database,
  applied to the todos of the requester, \<^verbatim>\<open>todo_count\<close> for \<^verbatim>\<open>countDocuments\<close> with the same
  filter, and \<^verbatim>\<open>to_date\<close> for \<^verbatim>\<open>new Date(string)\<close>.
\<close>

record js_error =
  err_name :: string
  err_message :: string
  err_stack :: string

datatype verify_result = Decoded nat | Thrown js_error

section \<open>The data model\<close>

record user =
  uid :: nat
  name :: string
  email :: string
  password :: string
  role :: string
  isActive :: bool
  createdAt :: nat
  lastLogin :: "nat option"

record todo =
  tid :: nat
  task :: string
  description :: "string option"
  completed :: bool
  priority :: string
  dueDate :: "string option"
  owner :: "nat option"
  tags :: "string list"
  t_createdAt :: "nat option"
  updatedAt :: "nat option"

text \<open>
  One backend: its users, its todos and the two id generators (\<^verbatim>\<open>nextMemoryUserId\<close> and
  \<^verbatim>\<open>nextMemoryId\<close> of the in-process lists, the AUTOINCREMENT sequences of SQLite, the
  object-id source of MongoDB).  The counters hold the next id to hand out.
\<close>

record db =
  users :: "user list"
  todos :: "todo list"
  next_uid :: nat
  next_tid :: nat

text \<open>
  A request: the Authorization header, the \<^verbatim>\<open>:id\<close> route parameter, the JSON body (a
  field is \<open>None\<close> when the body does not carry it) and the clock reading
  \<^verbatim>\<open>new Date()\<close> of the moment it is served.
\<close>

record request =
  authorization :: "string option"
  param_id :: nat
  b_name :: "string option"
  b_email :: "string option"
  b_password :: "string option"
  b_confirmPassword :: "string option"
  b_task :: "string option"
  b_description :: "string option"
  b_completed :: "bool option"
  b_priority :: "string option"
  b_dueDate :: "string option"
  b_tags :: "string list option"
  q_page :: nat
  q_limit :: nat
  now :: nat

text \<open>The library calls and process settings a handler depends on.\<close>

record env =
  jwt_verify :: "string \<Rightarrow> verify_result"
  jwt_sign :: "nat \<Rightarrow> string"
  bcrypt_compare :: "string \<Rightarrow> string \<Rightarrow> bool"
  bcrypt_hash :: "string \<Rightarrow> string"
  jwt_expire :: string
  to_date :: "string \<Rightarrow> string"
  isProduction :: bool
  todo_query :: "todo list \<Rightarrow> todo list"
  todo_count :: "todo list \<Rightarrow> nat"

subsection \<open>Generic list operations of the backends\<close>

text \<open>Mutating the first element that satisfies a predicate (\<^verbatim>\<open>find\<close>, then assignment).\<close>

fun update_first :: "('a \<Rightarrow> bool) \<Rightarrow> ('a \<Rightarrow> 'a) \<Rightarrow> 'a list \<Rightarrow> 'a list" where
  "update_first P f [] = []"
| "update_first P f (x # xs) = (if P x then f x # xs else x # update_first P f xs)"

text \<open>\<^verbatim>\<open>UPDATE ... WHERE\<close>: every matching row is rewritten.\<close>

definition update_where :: "('a \<Rightarrow> bool) \<Rightarrow> ('a \<Rightarrow> 'a) \<Rightarrow> 'a list \<Rightarrow> 'a list" where
  "update_where P f xs = map (\<lambda>x. if P x then f x else x) xs"

text \<open>\<^verbatim>\<open>findIndex\<close> followed by \<^verbatim>\<open>splice(index, 1)\<close>.\<close>

fun remove_first :: "('a \<Rightarrow> bool) \<Rightarrow> 'a list \<Rightarrow> 'a list" where
  "remove_first P [] = []"
| "remove_first P (x # xs) = (if P x then xs else x # remove_first P xs)"

subsection \<open>Serialisation of user records\<close>

text \<open>The own properties of an element of \<^verbatim>\<open>memoryUsers\<close> (server.js, register).\<close>

definition memory_user_obj :: "user \<Rightarrow> (string \<times> json) list" where
  "memory_user_obj u =
     [(''id'', JNum (uid u)), (''name'', JStr (name u)), (''email'', JStr (email u)),
      (''password'', JStr (password u)), (''role'', JStr (role u)),
      (''createdAt'', JNum (createdAt u))] @ opt_field ''lastLogin'' JNum (lastLogin u)"

text \<open>A row of \<^verbatim>\<open>SELECT * FROM users\<close> (sqlite-db.js, findUserByEmail).\<close>

definition sqlite_user_row :: "user \<Rightarrow> (string \<times> json) list" where
  "sqlite_user_row u =
     [(''id'', JNum (uid u)), (''name'', JStr (name u)), (''email'', JStr (email u)),
      (''password'', JStr (password u)), (''role'', JStr (role u)),
      (''isActive'', JNum (if isActive u then 1 else 0)),
      (''createdAt'', JNum (createdAt u)), (''lastLogin'', nullable JNum (lastLogin u))]"

text \<open>
  A row of \<^verbatim>\<open>SELECT id, name, email, role, isActive, createdAt, lastLogin FROM users\<close>
  (sqlite-db.js, findUserById and getAllUsers).
\<close>

definition sqlite_user_public_row :: "user \<Rightarrow> (string \<times> json) list" where
  "sqlite_user_public_row u =
     [(''id'', JNum (uid u)), (''name'', JStr (name u)), (''email'', JStr (email u)),
      (''role'', JStr (role u)), (''isActive'', JNum (if isActive u then 1 else 0)),
      (''createdAt'', JNum (createdAt u)), (''lastLogin'', nullable JNum (lastLogin u))]"

text \<open>
  A Mongoose user document turned into a plain object.  \<open>with_password\<close> tells whether
  the password path was loaded: the schema declares it \<^verbatim>\<open>select: false\<close>, so a query
  loads it only under \<^verbatim>\<open>.select('+password')\<close>, while a document just created holds it.
  \<open>day7\<close> tells whether the schema has the \<^verbatim>\<open>isActive\<close> path.
\<close>

definition mongo_user_obj :: "bool \<Rightarrow> bool \<Rightarrow> user \<Rightarrow> (string \<times> json) list" where
  "mongo_user_obj day7 with_password u =
     [(''_id'', JNum (uid u)), (''name'', JStr (name u)), (''email'', JStr (email u))]
     @ (if with_password then [(''password'', JStr (password u))] else [])
     @ [(''role'', JStr (role u))]
     @ (if day7 then [(''isActive'', JBool (isActive u))] else [])
     @ [(''createdAt'', JNum (createdAt u))] @ opt_field ''lastLogin'' JNum (lastLogin u)"

text \<open>\<^verbatim>\<open>userSchema.methods.toJSON\<close>: the object without its password.\<close>

definition user_toJSON :: "bool \<Rightarrow> bool \<Rightarrow> user \<Rightarrow> (string \<times> json) list" where
  "user_toJSON day7 with_password u = js_delete ''password'' (mongo_user_obj day7 with_password u)"

section \<open>Queries\<close>

text \<open>\<^verbatim>\<open>memoryUsers.find(u => u.email === email)\<close>.\<close>

definition memory_findUserByEmail :: "string \<Rightarrow> db \<Rightarrow> user option" where
  "memory_findUserByEmail e d = find (\<lambda>u. email u = e) (users d)"

text \<open>\<^verbatim>\<open>memoryUsers.find(u => u.id.toString() === decoded.id)\<close>.\<close>

definition memory_findUserById :: "nat \<Rightarrow> db \<Rightarrow> user option" where
  "memory_findUserById i d = find (\<lambda>u. uid u = i) (users d)"

text \<open>\<^verbatim>\<open>SELECT * FROM users WHERE email = ? AND isActive = 1\<close>.\<close>

definition sqlite_findUserByEmail :: "string \<Rightarrow> db \<Rightarrow> user option" where
  "sqlite_findUserByEmail e d = find (\<lambda>u. email u = e \<and> isActive u) (users d)"

text \<open>\<^verbatim>\<open>SELECT ... FROM users WHERE id = ? AND isActive = 1\<close>.\<close>

definition sqlite_findUserById :: "nat \<Rightarrow> db \<Rightarrow> user option" where
  "sqlite_findUserById i d = find (\<lambda>u. uid u = i \<and> isActive u) (users d)"

text \<open>\<^verbatim>\<open>UPDATE users SET lastLogin = CURRENT_TIMESTAMP WHERE id = ?\<close>.\<close>

definition sqlite_updateUserLastLogin :: "nat \<Rightarrow> nat \<Rightarrow> db \<Rightarrow> db" where
  "sqlite_updateUserLastLogin i t d =
     d\<lparr>users := update_where (\<lambda>u. uid u = i) (\<lambda>u. u\<lparr>lastLogin := Some t\<rparr>) (users d)\<rparr>"

text \<open>
  The email path of the Mongoose schema is declared \<^verbatim>\<open>lowercase: true, trim: true\<close>
  (from Day 5 on; before that \<^verbatim>\<open>lowercase: true\<close> only): the setter runs on stored values
  and on query conditions.
\<close>

definition mongo_email :: "string \<Rightarrow> string" where
  "mongo_email e = toLowerCase (trim e)"

definition mongo_email_setter :: "bool \<Rightarrow> string \<Rightarrow> string" where
  "mongo_email_setter auth_schema e = (if auth_schema then mongo_email e else toLowerCase e)"

text \<open>\<^verbatim>\<open>User.findOne({ email })\<close> and \<^verbatim>\<open>User.findById(id)\<close>.\<close>

definition mongo_findUserByEmail :: "string \<Rightarrow> db \<Rightarrow> user option" where
  "mongo_findUserByEmail e d = find (\<lambda>u. email u = mongo_email e) (users d)"

definition mongo_findUserById :: "nat \<Rightarrow> db \<Rightarrow> user option" where
  "mongo_findUserById i d = find (\<lambda>u. uid u = i) (users d)"

text \<open>Writing \<^verbatim>\<open>lastLogin\<close> of the document with the given id.\<close>

definition mongo_setLastLogin :: "nat \<Rightarrow> nat \<Rightarrow> db \<Rightarrow> db" where
  "mongo_setLastLogin i t d =
     d\<lparr>users := update_where (\<lambda>u. uid u = i) (\<lambda>u. u\<lparr>lastLogin := Some t\<rparr>) (users d)\<rparr>"

section \<open>Server states\<close>

text \<open>
  The Day 6 server (server.js): the Mongoose connection, with the collections behind it,
  and the in-process lists.  \<^verbatim>\<open>canUseDB\<close> is \<^verbatim>\<open>mongoose.connection.readyState === 1\<close>.
\<close>

record state6 =
  mongo_ready6 :: bool
  mongo6 :: db
  memory :: db

definition canUseDB6 :: "state6 \<Rightarrow> bool" where
  "canUseDB6 st = mongo_ready6 st"

text \<open>
  The Day 7 server: the Mongoose connection and the SQLite instance, which is \<^verbatim>\<open>null\<close>
  until \<^verbatim>\<open>connectDB\<close> falls back to it.
\<close>

record state7 =
  mongo_ready7 :: bool
  mongo7 :: db
  sqliteDB :: "db option"

datatype db_type = Mongodb | Sqlite | NoDb

definition canUseDB7 :: "state7 \<Rightarrow> db_type \<times> bool" where
  "canUseDB7 st =
     (if mongo_ready7 st then (Mongodb, True)
      else if sqliteDB st \<noteq> None then (Sqlite, True)
      else (NoDb, False))"

section \<open>Login\<close>

text \<open>The success body shared by the login and registration handlers.\<close>

definition auth_data :: "env \<Rightarrow> (string \<times> json) list \<Rightarrow> string \<Rightarrow> json" where
  "auth_data e u token =
     JObj [(''user'', JObj u), (''token'', JStr token), (''expiresIn'', JStr (jwt_expire e))]"

text \<open>\<^verbatim>\<open>POST /api/login\<close> of the Day 6 server (server.js, lines 1057 to 1146).\<close>

definition login6 :: "env \<Rightarrow> request \<Rightarrow> state6 \<Rightarrow> response \<times> state6" where
  "login6 e rq st =
     (if falsy (b_email rq) \<or> falsy (b_password rq)
      then (failure 400 ''Email and password are required'', st)
      else
        let em = the (b_email rq); pw = the (b_password rq) in
        if canUseDB6 st then
          (case mongo_findUserByEmail em (mongo6 st) of
             None \<Rightarrow> (failure 401 ''Invalid credentials'', st)
           | Some u \<Rightarrow>
               if \<not> bcrypt_compare e pw (password u)
               then (failure 401 ''Invalid credentials'', st)
               else
                 (reply 200
                    [(''success'', JBool True),
                     (''message'', JStr ''Login successful (MongoDB)''),
                     (''data'', auth_data e
                        [(''id'', JNum (uid u)), (''name'', JStr (name u)),
                         (''email'', JStr (email u)), (''role'', JStr (role u)),
                         (''lastLogin'', JNum (now rq))]
                        (jwt_sign e (uid u)))],
                  st\<lparr>mongo6 := mongo_setLastLogin (uid u) (now rq) (mongo6 st)\<rparr>))
        else
          (case memory_findUserByEmail em (memory st) of
             None \<Rightarrow> (failure 401 ''Invalid credentials'', st)
           | Some u \<Rightarrow>
               if \<not> bcrypt_compare e pw (password u)
               then (failure 401 ''Invalid credentials'', st)
               else
                 let u' = u\<lparr>lastLogin := Some (now rq)\<rparr> in
                 (reply 200
                    [(''success'', JBool True),
                     (''message'', JStr ''Login successful (in-memory)''),
                     (''data'', auth_data e (js_delete ''password'' (memory_user_obj u'))
                        (jwt_sign e (uid u)))],
                  st\<lparr>memory := (memory st)\<lparr>users :=
                        update_first (\<lambda>v. email v = em) (\<lambda>v. v\<lparr>lastLogin := Some (now rq)\<rparr>)
                          (users (memory st))\<rparr>\<rparr>)))"

text \<open>
  \<^verbatim>\<open>POST /api/auth/login\<close> of the Day 7 server.  The user object of the answer is the one
  read before \<^verbatim>\<open>lastLogin\<close> is written.
\<close>

definition login7 :: "env \<Rightarrow> request \<Rightarrow> state7 \<Rightarrow> response \<times> state7" where
  "login7 e rq st =
     (if falsy (b_email rq) \<or> falsy (b_password rq)
      then (failure 400 ''Email and password are required.'', st)
      else
        let em = the (b_email rq); pw = the (b_password rq); dbStatus = canUseDB7 st in
        if \<not> snd dbStatus then (failure 503 ''Database service unavailable.'', st)
        else
          (case (if fst dbStatus = Mongodb then mongo_findUserByEmail em (mongo7 st)
                 else sqlite_findUserByEmail em (the (sqliteDB st))) of
             None \<Rightarrow> (failure 401 ''Invalid credentials.'', st)
           | Some u \<Rightarrow>
               if \<not> bcrypt_compare e pw (password u)
               then (failure 401 ''Invalid credentials.'', st)
               else if fst dbStatus = Mongodb then
                 (reply 200
                    [(''success'', JBool True), (''message'', JStr ''Login successful.''),
                     (''data'', auth_data e
                        (js_delete ''_id'' (js_delete ''password'' (mongo_user_obj True True u))
                           @ [(''id'', JNum (uid u))])
                        (jwt_sign e (uid u)))],
                  st\<lparr>mongo7 := mongo_setLastLogin (uid u) (now rq) (mongo7 st)\<rparr>)
               else
                 (reply 200
                    [(''success'', JBool True), (''message'', JStr ''Login successful.''),
                     (''data'', auth_data e (js_delete ''password'' (sqlite_user_row u))
                        (jwt_sign e (uid u)))],
                  st\<lparr>sqliteDB :=
                        Some (sqlite_updateUserLastLogin (uid u) (now rq) (the (sqliteDB st)))\<rparr>)))"

section \<open>Middleware\<close>

text \<open>\<^verbatim>\<open>String.prototype.split\<close> on a one-character separator.\<close>

fun split_on :: "char \<Rightarrow> string \<Rightarrow> string list" where
  "split_on c [] = [[]]"
| "split_on c (x # xs) =
     (if x = c then [] # split_on c xs
      else (case split_on c xs of [] \<Rightarrow> [[x]] | w # ws \<Rightarrow> (x # w) # ws))"

text \<open>The element at index 1 of an array, \<^verbatim>\<open>undefined\<close> when the array is shorter.\<close>

fun second :: "'a list \<Rightarrow> 'a option" where
  "second (x # y # ys) = Some y"
| "second ys = None"

text \<open>\<^verbatim>\<open>req.headers.authorization?.split(' ')[1]\<close> (server.js, protect).\<close>

definition header_token6 :: "request \<Rightarrow> string option" where
  "header_token6 rq =
     (case authorization rq of None \<Rightarrow> None | Some h \<Rightarrow> second (split_on (CHR '' '') h))"

text \<open>
  The Day 7 variant reads the token only when the header is non-empty and starts with
  \<^verbatim>\<open>Bearer\<close>.
\<close>

definition header_token7 :: "request \<Rightarrow> string option" where
  "header_token7 rq =
     (case authorization rq of
        None \<Rightarrow> None
      | Some h \<Rightarrow> if h \<noteq> [] \<and> take 6 h = ''Bearer'' then second (split_on (CHR '' '') h) else None)"

text \<open>
  What a middleware does with a request: it answers itself, or it calls \<^verbatim>\<open>next()\<close>
  after attaching the user (and, on Day 7, the database type) to the request.
\<close>

datatype guard = Refused response | Granted user db_type

text \<open>The global error handler of the Day 7 server, reached through \<^verbatim>\<open>next(error)\<close>.\<close>

definition errorHandler :: "env \<Rightarrow> js_error \<Rightarrow> response" where
  "errorHandler e err =
     reply 500
       ([(''success'', JBool False),
         (''error'', JStr (if isProduction e then ''Internal server error'' else err_message err))]
        @ (if \<not> isProduction e then [(''stack'', JStr (err_stack err))] else []))"

text \<open>\<^verbatim>\<open>protect\<close> of the Day 6 server (server.js, lines 1227 to 1280).\<close>

definition protect6 :: "env \<Rightarrow> request \<Rightarrow> state6 \<Rightarrow> guard" where
  "protect6 e rq st =
     (if falsy (header_token6 rq)
      then Refused (failure 401 ''Not authorized, no token provided'')
      else
        (case jwt_verify e (the (header_token6 rq)) of
           Decoded i \<Rightarrow>
             (case (if canUseDB6 st then mongo_findUserById i (mongo6 st)
                    else memory_findUserById i (memory st)) of
                None \<Rightarrow> Refused (failure 401 ''User not found or token invalid'')
              | Some u \<Rightarrow> Granted u (if canUseDB6 st then Mongodb else NoDb))
         | Thrown err \<Rightarrow>
             if err_name err = ''JsonWebTokenError'' then Refused (failure 401 ''Invalid token'')
             else if err_name err = ''TokenExpiredError'' then Refused (failure 401 ''Token expired'')
             else Refused (failure 401 ''Not authorized'')))"

text \<open>\<^verbatim>\<open>protect\<close> of the Day 7 server.\<close>

definition protect7 :: "env \<Rightarrow> request \<Rightarrow> state7 \<Rightarrow> guard" where
  "protect7 e rq st =
     (if falsy (header_token7 rq)
      then Refused (failure 401 ''Not authorized. Please provide a token.'')
      else
        (case jwt_verify e (the (header_token7 rq)) of
           Decoded i \<Rightarrow>
             let dbStatus = canUseDB7 st in
             if fst dbStatus = NoDb then Refused (failure 500 ''Database not available.'')
             else
               (case (if fst dbStatus = Mongodb then mongo_findUserById i (mongo7 st)
                      else sqlite_findUserById i (the (sqliteDB st))) of
                  None \<Rightarrow> Refused (failure 401 ''User not found or token is invalid.'')
                | Some u \<Rightarrow>
                    if \<not> isActive u then Refused (failure 401 ''User account is deactivated.'')
                    else Granted u (fst dbStatus))
         | Thrown err \<Rightarrow>
             if err_name err = ''JsonWebTokenError'' then Refused (failure 401 ''Invalid token.'')
             else if err_name err = ''TokenExpiredError''
             then Refused (failure 401 ''Token expired. Please login again.'')
             else Refused (errorHandler e err)))"

text \<open>
  A route registered as \<^verbatim>\<open>app.METHOD(path, protect, handler)\<close>: the handler runs only when
  the middleware calls \<^verbatim>\<open>next()\<close>, and then with the attached user.
\<close>

definition protected6 ::
  "env \<Rightarrow> (user \<Rightarrow> request \<Rightarrow> state6 \<Rightarrow> response \<times> state6) \<Rightarrow> request \<Rightarrow> state6 \<Rightarrow> response \<times> state6"
where
  "protected6 e handler rq st =
     (case protect6 e rq st of Refused r \<Rightarrow> (r, st) | Granted u t \<Rightarrow> handler u rq st)"

definition protected7 ::
  "env \<Rightarrow> (user \<Rightarrow> db_type \<Rightarrow> request \<Rightarrow> state7 \<Rightarrow> response \<times> state7) \<Rightarrow> request \<Rightarrow> state7
     \<Rightarrow> response \<times> state7"
where
  "protected7 e handler rq st =
     (case protect7 e rq st of Refused r \<Rightarrow> (r, st) | Granted u t \<Rightarrow> handler u t rq st)"

text \<open>\<^verbatim>\<open>authorize(...roles)\<close> placed after \<^verbatim>\<open>protect\<close> on the admin routes.\<close>

definition authorize ::
  "string list \<Rightarrow> (user \<Rightarrow> db_type \<Rightarrow> request \<Rightarrow> state7 \<Rightarrow> response \<times> state7)
     \<Rightarrow> user \<Rightarrow> db_type \<Rightarrow> request \<Rightarrow> state7 \<Rightarrow> response \<times> state7"
where
  "authorize roles handler u t rq st =
     (if role u \<notin> set roles
      then (failure 403 (''Role '' @ role u @ '' is not authorized to access this resource.''), st)
      else handler u t rq st)"

section \<open>Todos: serialisation and database operations\<close>

text \<open>
  An element of \<^verbatim>\<open>memoryTodos\<close>.  On Day 4 the objects have no \<^verbatim>\<open>userId\<close> property; from
  Day 6 on they have one, \<^verbatim>\<open>null\<close> for the three seeded entries.
\<close>

definition memory_todo_obj :: "bool \<Rightarrow> todo \<Rightarrow> (string \<times> json) list" where
  "memory_todo_obj with_user t =
     [(''id'', JNum (tid t)), (''task'', JStr (task t)), (''completed'', JBool (completed t)),
      (''priority'', JStr (priority t))]
     @ (if with_user then [(''userId'', nullable JNum (owner t))] else [])
     @ opt_field ''createdAt'' JNum (t_createdAt t) @ opt_field ''updatedAt'' JNum (updatedAt t)"

text \<open>A Mongoose todo document; \<open>day7\<close> tells whether the schema has the \<^verbatim>\<open>tags\<close> path.\<close>

definition mongo_todo_obj :: "bool \<Rightarrow> todo \<Rightarrow> (string \<times> json) list" where
  "mongo_todo_obj day7 t =
     [(''_id'', JNum (tid t)), (''task'', JStr (task t))]
     @ opt_field ''description'' JStr (description t)
     @ [(''completed'', JBool (completed t)), (''priority'', JStr (priority t))]
     @ opt_field ''dueDate'' JStr (dueDate t) @ opt_field ''user'' JNum (owner t)
     @ (if day7 then [(''tags'', JArr (map JStr (tags t)))] else [])
     @ opt_field ''createdAt'' JNum (t_createdAt t) @ opt_field ''updatedAt'' JNum (updatedAt t)"

text \<open>
  A row of \<^verbatim>\<open>SELECT * FROM todos\<close> after the tags are parsed and \<^verbatim>\<open>completed\<close> is turned
  into a boolean (sqlite-db.js, getTodosByUser and getTodoById).
\<close>

definition sqlite_todo_row :: "todo \<Rightarrow> (string \<times> json) list" where
  "sqlite_todo_row t =
     [(''id'', JNum (tid t)), (''task'', JStr (task t)),
      (''description'', nullable JStr (description t)), (''completed'', JBool (completed t)),
      (''priority'', JStr (priority t)), (''dueDate'', nullable JStr (dueDate t)),
      (''userId'', nullable JNum (owner t)), (''tags'', JArr (map JStr (tags t))),
      (''createdAt'', nullable JNum (t_createdAt t)), (''updatedAt'', nullable JNum (updatedAt t))]"

text \<open>The errors the database layers raise; the texts abbreviate the libraries' messages.\<close>

definition validation_error :: js_error where
  "validation_error =
     \<lparr>err_name = ''ValidationError'', err_message = ''Validation failed'',
      err_stack = ''ValidationError: Validation failed''\<rparr>"

definition duplicate_key_error :: js_error where
  "duplicate_key_error =
     \<lparr>err_name = ''MongoServerError'', err_message = ''E11000 duplicate key error'',
      err_stack = ''MongoServerError: E11000 duplicate key error''\<rparr>"

definition sqlite_duplicate_error :: js_error where
  "sqlite_duplicate_error =
     \<lparr>err_name = ''Error'', err_message = ''User with this email already exists.'',
      err_stack = ''Error: User with this email already exists.''\<rparr>"

definition buffering_error :: js_error where
  "buffering_error =
     \<lparr>err_name = ''MongooseError'', err_message = ''Operation buffering timed out'',
      err_stack = ''MongooseError: Operation buffering timed out''\<rparr>"

definition priorities :: "string list" where
  "priorities = [''low'', ''medium'', ''high'']"

text \<open>
  The validators of \<^verbatim>\<open>todoSchema\<close>: task at least 3 characters and priority in the
  enumeration; on Day 7 also task at most 500, description at most 1000 characters and
  a required owner.
\<close>

definition todo_valid :: "bool \<Rightarrow> todo \<Rightarrow> bool" where
  "todo_valid day7 t =
     (3 \<le> length (task t) \<and> priority t \<in> set priorities \<and>
      (day7 \<longrightarrow> length (task t) \<le> 500 \<and>
         (case description t of None \<Rightarrow> True | Some d \<Rightarrow> length d \<le> 1000) \<and> owner t \<noteq> None))"

text \<open>
  \<^verbatim>\<open>Todo.create(doc)\<close>: the setters trim the strings, the validators run, the document
  gets a fresh id and both timestamps.
\<close>

definition mongo_createTodo :: "bool \<Rightarrow> todo \<Rightarrow> nat \<Rightarrow> db \<Rightarrow> js_error + (todo \<times> db)" where
  "mongo_createTodo day7 doc t d =
     (let doc' = doc\<lparr>tid := next_tid d, task := trim (task doc),
                      description := map_option trim (description doc),
                      tags := map trim (tags doc),
                      t_createdAt := Some t, updatedAt := Some t\<rparr>
      in if \<not> todo_valid day7 doc' then Inl validation_error
         else Inr (doc', d\<lparr>todos := todos d @ [doc'], next_tid := Suc (next_tid d)\<rparr>))"

text \<open>
  The changes an update request asks for: one optional new value per column.  \<^verbatim>\<open>dueDate\<close>
  can be set to \<^verbatim>\<open>null\<close>, hence the nested option.
\<close>

record todo_updates =
  u_task :: "string option"
  u_description :: "string option"
  u_completed :: "bool option"
  u_priority :: "string option"
  u_dueDate :: "string option option"
  u_tags :: "string list option"

definition apply_updates :: "todo_updates \<Rightarrow> nat \<Rightarrow> todo \<Rightarrow> todo" where
  "apply_updates up t x =
     x\<lparr>task := (case u_task up of None \<Rightarrow> task x | Some v \<Rightarrow> v),
       description := (case u_description up of None \<Rightarrow> description x | Some v \<Rightarrow> Some v),
       completed := (case u_completed up of None \<Rightarrow> completed x | Some v \<Rightarrow> v),
       priority := (case u_priority up of None \<Rightarrow> priority x | Some v \<Rightarrow> v),
       dueDate := (case u_dueDate up of None \<Rightarrow> dueDate x | Some v \<Rightarrow> v),
       tags := (case u_tags up of None \<Rightarrow> tags x | Some v \<Rightarrow> v),
       updatedAt := Some t\<rparr>"

text \<open>
  The update validators (\<^verbatim>\<open>runValidators: true\<close>) look at the paths being set only.
\<close>

definition updates_valid :: "bool \<Rightarrow> todo_updates \<Rightarrow> bool" where
  "updates_valid day7 up =
     ((case u_task up of None \<Rightarrow> True
       | Some v \<Rightarrow> 3 \<le> length (trim v) \<and> (day7 \<longrightarrow> length (trim v) \<le> 500)) \<and>
      (case u_priority up of None \<Rightarrow> True | Some v \<Rightarrow> v \<in> set priorities) \<and>
      (case u_description up of None \<Rightarrow> True
       | Some v \<Rightarrow> day7 \<longrightarrow> length (trim v) \<le> 1000))"

text \<open>
  \<^verbatim>\<open>Todo.findOneAndUpdate({ _id: id, user: userId }, updates, { new: true,
  runValidators: true })\<close>: the first matching document is rewritten and returned.
\<close>

definition mongo_findOneAndUpdate ::
  "bool \<Rightarrow> nat \<Rightarrow> nat \<Rightarrow> todo_updates \<Rightarrow> nat \<Rightarrow> db \<Rightarrow> js_error + (todo option \<times> db)"
where
  "mongo_findOneAndUpdate day7 i userId up t d =
     (if \<not> updates_valid day7 up then Inl validation_error
      else
        (case find (\<lambda>x. tid x = i \<and> owner x = Some userId) (todos d) of
           None \<Rightarrow> Inr (None, d)
         | Some x \<Rightarrow>
             Inr (Some (apply_updates up t x),
                  d\<lparr>todos := update_first (\<lambda>x. tid x = i \<and> owner x = Some userId)
                                 (apply_updates up t) (todos d)\<rparr>)))"

text \<open>\<^verbatim>\<open>Todo.findOneAndDelete({ _id: id, user: userId })\<close>.\<close>

definition mongo_findOneAndDelete :: "nat \<Rightarrow> nat \<Rightarrow> db \<Rightarrow> todo option \<times> db" where
  "mongo_findOneAndDelete i userId d =
     (find (\<lambda>x. tid x = i \<and> owner x = Some userId) (todos d),
      d\<lparr>todos := remove_first (\<lambda>x. tid x = i \<and> owner x = Some userId) (todos d)\<rparr>)"

text \<open>
  \<^verbatim>\<open>SQLiteDB.createTodo\<close>: the INSERT statement with its defaults; the row id comes from
  the AUTOINCREMENT sequence.
\<close>

definition sqlite_createTodo :: "todo \<Rightarrow> nat \<Rightarrow> db \<Rightarrow> todo \<times> db" where
  "sqlite_createTodo todoData t d =
     (let row = todoData\<lparr>tid := next_tid d,
                   description := (case description todoData of None \<Rightarrow> None
                                   | Some v \<Rightarrow> if v = [] then None else Some v),
                   priority := (if priority todoData = [] then ''medium'' else priority todoData),
                   completed := False, t_createdAt := Some t, updatedAt := Some t\<rparr>
      in (row, d\<lparr>todos := todos d @ [row], next_tid := Suc (next_tid d)\<rparr>))"

text \<open>
  \<^verbatim>\<open>SQLiteDB.updateTodo\<close>.  The statement
  \<^verbatim>\<open>UPDATE todos SET ... , updatedAt = CURRENT_TIMESTAMP WHERE id = ? AND userId = ?\<close> runs
  first.  With no row changed the promise resolves to \<^verbatim>\<open>null\<close>.  Otherwise the callback
  goes on to \<^verbatim>\<open>this.db.get(...)\<close>; inside a callback of \<^verbatim>\<open>run\<close> the receiver is the
  statement (the one whose \<^verbatim>\<open>changes\<close> and \<^verbatim>\<open>lastID\<close> the class reads), which has no
  \<^verbatim>\<open>db\<close>, so the callback throws and the promise never settles: \<open>Pending\<close>.
\<close>

datatype 'a promise = Resolved 'a | Pending

definition sqlite_updateTodo ::
  "nat \<Rightarrow> nat \<Rightarrow> todo_updates \<Rightarrow> nat \<Rightarrow> db \<Rightarrow> todo option promise \<times> db"
where
  "sqlite_updateTodo i userId up t d =
     (let hit = (\<lambda>x. tid x = i \<and> owner x = Some userId);
          d' = d\<lparr>todos := update_where hit (apply_updates up t) (todos d)\<rparr>
      in if \<not> (\<exists>x \<in> set (todos d). hit x) then (Resolved None, d') else (Pending, d'))"

text \<open>\<^verbatim>\<open>DELETE FROM todos WHERE id = ? AND userId = ?\<close>, answering \<^verbatim>\<open>changes > 0\<close>.\<close>

definition sqlite_deleteTodo :: "nat \<Rightarrow> nat \<Rightarrow> db \<Rightarrow> bool \<times> db" where
  "sqlite_deleteTodo i userId d =
     ((\<exists>x \<in> set (todos d). tid x = i \<and> owner x = Some userId),
      d\<lparr>todos := filter (\<lambda>x. \<not> (tid x = i \<and> owner x = Some userId)) (todos d)\<rparr>)"

text \<open>\<^verbatim>\<open>SELECT * FROM todos WHERE id = ? AND userId = ?\<close>.\<close>

definition sqlite_getTodoById :: "nat \<Rightarrow> nat \<Rightarrow> db \<Rightarrow> todo option" where
  "sqlite_getTodoById i userId d = find (\<lambda>x. tid x = i \<and> owner x = Some userId) (todos d)"

section \<open>Todo routes of the Day 4 and Day 6 servers\<close>

text \<open>The default \<^verbatim>\<open>priority = 'medium'\<close> of the destructuring applies to a missing field.\<close>

definition priority_or_medium :: "request \<Rightarrow> string" where
  "priority_or_medium rq = (case b_priority rq of None \<Rightarrow> ''medium'' | Some p \<Rightarrow> p)"

text \<open>The validation \<^verbatim>\<open>!task || task.trim().length < 3\<close>.\<close>

definition task_rejected :: "request \<Rightarrow> bool" where
  "task_rejected rq = (falsy (b_task rq) \<or> length (trim (the (b_task rq))) < 3)"

definition new_todo :: "nat \<Rightarrow> string \<Rightarrow> string \<Rightarrow> nat option \<Rightarrow> nat \<Rightarrow> todo" where
  "new_todo i tsk prio own t =
     \<lparr>tid = i, task = tsk, description = None, completed = False, priority = prio,
      dueDate = None, owner = own, tags = [], t_createdAt = Some t, updatedAt = Some t\<rparr>"

text \<open>
  \<^verbatim>\<open>POST /api/todos\<close> of the Day 4 server (server.js, lines 249 to 298): no
  authentication, no owner.
\<close>

definition create_todo4 :: "request \<Rightarrow> state6 \<Rightarrow> response \<times> state6" where
  "create_todo4 rq st =
     (if task_rejected rq
      then (failure 400 ''Task is required and must be at least 3 characters'', st)
      else if canUseDB6 st then
        (case mongo_createTodo False
                (new_todo 0 (trim (the (b_task rq))) (priority_or_medium rq) None (now rq))
                (now rq) (mongo6 st) of
           Inl err \<Rightarrow> (failure 500 (err_message err), st)
         | Inr (t, d) \<Rightarrow>
             (reply 201
                [(''success'', JBool True), (''message'', JStr ''Todo created successfully''),
                 (''source'', JStr ''mongodb''), (''data'', JObj (mongo_todo_obj False t))],
              st\<lparr>mongo6 := d\<rparr>))
      else
        let newTodo = new_todo (next_tid (memory st)) (trim (the (b_task rq)))
                        (priority_or_medium rq) None (now rq)
        in (reply 201
              [(''success'', JBool True), (''message'', JStr ''Todo created (in memory)''),
               (''source'', JStr ''memory''), (''data'', JObj (memory_todo_obj False newTodo))],
            st\<lparr>memory := (memory st)\<lparr>todos := todos (memory st) @ [newTodo],
                                         next_tid := Suc (next_tid (memory st))\<rparr>\<rparr>))"

definition requester_obj :: "user \<Rightarrow> json" where
  "requester_obj u =
     JObj [(''id'', JNum (uid u)), (''name'', JStr (name u)), (''email'', JStr (email u))]"

text \<open>\<^verbatim>\<open>POST /api/todos\<close> of the Day 6 server, behind \<^verbatim>\<open>protect\<close>.\<close>

definition create_todo6 :: "user \<Rightarrow> request \<Rightarrow> state6 \<Rightarrow> response \<times> state6" where
  "create_todo6 u rq st =
     (if task_rejected rq
      then (failure 400 ''Task is required and must be at least 3 characters'', st)
      else if canUseDB6 st then
        (case mongo_createTodo False
                (new_todo 0 (trim (the (b_task rq))) (priority_or_medium rq) (Some (uid u)) (now rq))
                (now rq) (mongo6 st) of
           Inl err \<Rightarrow> (failure 500 (err_message err), st)
         | Inr (t, d) \<Rightarrow>
             (reply 201
                [(''success'', JBool True), (''message'', JStr ''Todo created successfully''),
                 (''source'', JStr ''mongodb''), (''user'', requester_obj u),
                 (''data'', JObj (mongo_todo_obj False t))],
              st\<lparr>mongo6 := d\<rparr>))
      else
        let newTodo = new_todo (next_tid (memory st)) (trim (the (b_task rq)))
                        (priority_or_medium rq) (Some (uid u)) (now rq)
        in (reply 201
              [(''success'', JBool True), (''message'', JStr ''Todo created (in memory)''),
               (''source'', JStr ''memory''), (''user'', requester_obj u),
               (''data'', JObj (memory_todo_obj True newTodo))],
            st\<lparr>memory := (memory st)\<lparr>todos := todos (memory st) @ [newTodo],
                                         next_tid := Suc (next_tid (memory st))\<rparr>\<rparr>))"

text \<open>The fields the Day 6 update handler reads from the body.\<close>

definition updates6 :: "request \<Rightarrow> todo_updates" where
  "updates6 rq =
     \<lparr>u_task = map_option trim (b_task rq), u_description = None,
      u_completed = b_completed rq, u_priority = b_priority rq,
      u_dueDate = None, u_tags = None\<rparr>"

text \<open>\<^verbatim>\<open>PUT /api/todos/:id\<close> of the Day 6 server (server.js, lines 1420 to 1483).\<close>

definition update_todo6 :: "user \<Rightarrow> request \<Rightarrow> state6 \<Rightarrow> response \<times> state6" where
  "update_todo6 u rq st =
     (if canUseDB6 st then
        (case mongo_findOneAndUpdate False (param_id rq) (uid u) (updates6 rq) (now rq) (mongo6 st) of
           Inl err \<Rightarrow> (failure 500 (err_message err), st)
         | Inr (None, d) \<Rightarrow> (failure 404 ''Todo not found or not authorized to update'', st)
         | Inr (Some t, d) \<Rightarrow>
             (reply 200
                [(''success'', JBool True), (''message'', JStr ''Todo updated''),
                 (''source'', JStr ''mongodb''), (''data'', JObj (mongo_todo_obj False t))],
              st\<lparr>mongo6 := d\<rparr>))
      else
        (case find (\<lambda>t. tid t = param_id rq \<and> owner t = Some (uid u)) (todos (memory st)) of
           None \<Rightarrow> (failure 404 ''Todo not found or not authorized to update'', st)
         | Some t \<Rightarrow>
             (reply 200
                [(''success'', JBool True), (''message'', JStr ''Todo updated (in memory)''),
                 (''source'', JStr ''memory''),
                 (''data'', JObj (memory_todo_obj True (apply_updates (updates6 rq) (now rq) t)))],
              st\<lparr>memory := (memory st)\<lparr>todos :=
                    update_first (\<lambda>t. tid t = param_id rq \<and> owner t = Some (uid u))
                      (apply_updates (updates6 rq) (now rq)) (todos (memory st))\<rparr>\<rparr>)))"

text \<open>\<^verbatim>\<open>DELETE /api/todos/:id\<close> of the Day 6 server.\<close>

definition delete_todo6 :: "user \<Rightarrow> request \<Rightarrow> state6 \<Rightarrow> response \<times> state6" where
  "delete_todo6 u rq st =
     (if canUseDB6 st then
        (case mongo_findOneAndDelete (param_id rq) (uid u) (mongo6 st) of
           (None, d) \<Rightarrow> (failure 404 ''Todo not found or not authorized to delete'', st)
         | (Some t, d) \<Rightarrow>
             (reply 200
                [(''success'', JBool True), (''message'', JStr ''Todo deleted''),
                 (''source'', JStr ''mongodb''), (''data'', JObj (mongo_todo_obj False t))],
              st\<lparr>mongo6 := d\<rparr>))
      else
        (case find (\<lambda>t. tid t = param_id rq \<and> owner t = Some (uid u)) (todos (memory st)) of
           None \<Rightarrow> (failure 404 ''Todo not found or not authorized to delete'', st)
         | Some t \<Rightarrow>
             (reply 200
                [(''success'', JBool True), (''message'', JStr ''Todo deleted (from memory)''),
                 (''source'', JStr ''memory''), (''data'', JObj (memory_todo_obj True t))],
              st\<lparr>memory := (memory st)\<lparr>todos :=
                    remove_first (\<lambda>t. tid t = param_id rq \<and> owner t = Some (uid u))
                      (todos (memory st))\<rparr>\<rparr>)))"

text \<open>
  \<^verbatim>\<open>Todo.find(...).sort({ createdAt: -1 })\<close>: newest first.
\<close>

definition newest_first :: "todo list \<Rightarrow> todo list" where
  "newest_first ts = rev (sort_key (\<lambda>t. case t_createdAt t of None \<Rightarrow> 0 | Some c \<Rightarrow> c) ts)"

text \<open>\<^verbatim>\<open>GET /api/my-todos\<close> of the Day 6 server.\<close>

definition my_todos6 :: "user \<Rightarrow> request \<Rightarrow> state6 \<Rightarrow> response \<times> state6" where
  "my_todos6 u rq st =
     (if canUseDB6 st then
        let ts = newest_first (filter (\<lambda>t. owner t = Some (uid u)) (todos (mongo6 st)))
        in (reply 200
              [(''success'', JBool True), (''source'', JStr ''mongodb''),
               (''count'', JNum (length ts)), (''user'', requester_obj u),
               (''data'', JArr (map (\<lambda>t. JObj (mongo_todo_obj False t)) ts))], st)
      else
        let ts = filter (\<lambda>t. owner t = Some (uid u)) (todos (memory st))
        in (reply 200
              [(''success'', JBool True), (''source'', JStr ''memory''),
               (''count'', JNum (length ts)), (''user'', requester_obj u),
               (''data'', JArr (map (\<lambda>t. JObj (memory_todo_obj True t)) ts))], st))"

text \<open>The public \<^verbatim>\<open>GET /api/todos\<close> and \<^verbatim>\<open>GET /api/todos/:id\<close> of the Day 6 server.\<close>

definition list_todos6 :: "request \<Rightarrow> state6 \<Rightarrow> response \<times> state6" where
  "list_todos6 rq st =
     (if canUseDB6 st then
        let ts = newest_first (todos (mongo6 st))
        in (reply 200
              [(''success'', JBool True), (''source'', JStr ''mongodb''),
               (''count'', JNum (length ts)),
               (''data'', JArr (map (\<lambda>t. JObj (mongo_todo_obj False t)) ts))], st)
      else
        (reply 200
           [(''success'', JBool True), (''source'', JStr ''memory''),
            (''count'', JNum (length (todos (memory st)))),
            (''data'', JArr (map (\<lambda>t. JObj (memory_todo_obj True t)) (todos (memory st))))], st))"

definition get_todo6 :: "request \<Rightarrow> state6 \<Rightarrow> response \<times> state6" where
  "get_todo6 rq st =
     (if canUseDB6 st then
        (case find (\<lambda>t. tid t = param_id rq) (todos (mongo6 st)) of
           None \<Rightarrow> (failure 404 ''Todo not found'', st)
         | Some t \<Rightarrow>
             (reply 200
                [(''success'', JBool True), (''source'', JStr ''mongodb''),
                 (''data'', JObj (mongo_todo_obj False t))], st))
      else
        (case find (\<lambda>t. tid t = param_id rq) (todos (memory st)) of
           None \<Rightarrow> (failure 404 ''Todo not found'', st)
         | Some t \<Rightarrow>
             (reply 200
                [(''success'', JBool True), (''source'', JStr ''memory''),
                 (''data'', JObj (memory_todo_obj True t))], st)))"

text \<open>\<^verbatim>\<open>GET /api/health\<close> of the Day 3 to Day 6 servers; \<open>uptime\<close> is read from the process.\<close>

definition health6 :: "nat \<Rightarrow> state6 \<Rightarrow> response" where
  "health6 up st =
     reply 200
       [(''status'', JStr ''online''),
        (''database'', JStr (if mongo_ready6 st then ''connected'' else ''disconnected'')),
        (''uptime'', JNum up)]"

text \<open>\<^verbatim>\<open>GET /api/public-todos\<close>: the first five todos, without authentication.\<close>

definition public_todos6 :: "request \<Rightarrow> state6 \<Rightarrow> response \<times> state6" where
  "public_todos6 rq st =
     (let rows = (if canUseDB6 st
                  then map (\<lambda>t. JObj (mongo_todo_obj False t)) (take 5 (newest_first (todos (mongo6 st))))
                  else map (\<lambda>t. JObj (memory_todo_obj True t)) (take 5 (todos (memory st))))
      in (reply 200
            [(''success'', JBool True),
             (''source'', JStr (if canUseDB6 st then ''mongodb'' else ''memory'')),
             (''message'', JStr ''Public todos (first 5)''),
             (''count'', JNum (length rows)), (''data'', JArr rows)], st))"

section \<open>Todo routes of the Day 7 server\<close>

text \<open>The document the Day 7 creation handler hands to either database.\<close>

definition todo_of_request :: "env \<Rightarrow> user \<Rightarrow> request \<Rightarrow> todo" where
  "todo_of_request e u rq =
     \<lparr>tid = 0, task = trim (the (b_task rq)),
      description = (if falsy (b_description rq) then None
                     else Some (trim (the (b_description rq)))),
      completed = False,
      priority = (if falsy (b_priority rq) then ''medium'' else the (b_priority rq)),
      dueDate = (if falsy (b_dueDate rq) then None else Some (to_date e (the (b_dueDate rq)))),
      owner = Some (uid u),
      tags = (case b_tags rq of None \<Rightarrow> [] | Some ts \<Rightarrow> map trim ts),
      t_createdAt = None, updatedAt = None\<rparr>"

text \<open>
  The object \<^verbatim>\<open>SQLiteDB.createTodo\<close> resolves to:
  \<^verbatim>\<open>{ id, ...todoData, completed: false, createdAt, updatedAt }\<close>.
\<close>

definition sqlite_created_obj :: "todo \<Rightarrow> todo \<Rightarrow> (string \<times> json) list" where
  "sqlite_created_obj todoData row =
     [(''id'', JNum (tid row)), (''task'', JStr (task todoData))]
     @ opt_field ''description'' JStr (description todoData)
     @ [(''priority'', JStr (priority todoData))]
     @ opt_field ''dueDate'' JStr (dueDate todoData)
     @ [(''userId'', nullable JNum (owner todoData)), (''tags'', JArr (map JStr (tags todoData))),
        (''completed'', JBool False)]
     @ opt_field ''createdAt'' JNum (t_createdAt row) @ opt_field ''updatedAt'' JNum (updatedAt row)"

text \<open>\<^verbatim>\<open>POST /api/todos\<close> of the Day 7 server, behind \<^verbatim>\<open>protect\<close>.\<close>

definition create_todo7 :: "env \<Rightarrow> user \<Rightarrow> db_type \<Rightarrow> request \<Rightarrow> state7 \<Rightarrow> response \<times> state7" where
  "create_todo7 e u dbType rq st =
     (if task_rejected rq
      then (failure 400 ''Task is required and must be at least 3 characters.'', st)
      else if dbType = Mongodb then
        (case mongo_createTodo True (todo_of_request e u rq) (now rq) (mongo7 st) of
           Inl err \<Rightarrow> (errorHandler e err, st)
         | Inr (t, d) \<Rightarrow>
             (reply 201
                [(''success'', JBool True), (''message'', JStr ''Todo created successfully.''),
                 (''data'', JObj (mongo_todo_obj True t))],
              st\<lparr>mongo7 := d\<rparr>))
      else
        (case sqlite_createTodo (todo_of_request e u rq) (now rq) (the (sqliteDB st)) of
           (row, d) \<Rightarrow>
             (reply 201
                [(''success'', JBool True), (''message'', JStr ''Todo created successfully.''),
                 (''data'', JObj (sqlite_created_obj (todo_of_request e u rq) row))],
              st\<lparr>sqliteDB := Some d\<rparr>)))"

text \<open>
  The update objects of the Day 7 handler: the Mongo branch converts the due date and
  trims the tags, the SQLite branch passes both on as they are.
\<close>

definition updates7_mongo :: "env \<Rightarrow> request \<Rightarrow> todo_updates" where
  "updates7_mongo e rq =
     \<lparr>u_task = map_option trim (b_task rq), u_description = map_option trim (b_description rq),
      u_completed = b_completed rq, u_priority = b_priority rq,
      u_dueDate = map_option (\<lambda>d. if d = [] then None else Some (to_date e d)) (b_dueDate rq),
      u_tags = map_option (map trim) (b_tags rq)\<rparr>"

definition updates7_sqlite :: "request \<Rightarrow> todo_updates" where
  "updates7_sqlite rq =
     \<lparr>u_task = map_option trim (b_task rq), u_description = map_option trim (b_description rq),
      u_completed = b_completed rq, u_priority = b_priority rq,
      u_dueDate = map_option Some (b_dueDate rq), u_tags = b_tags rq\<rparr>"

text \<open>The validation \<^verbatim>\<open>task && task.trim().length < 3\<close> of the update handler.\<close>

definition update_rejected :: "request \<Rightarrow> bool" where
  "update_rejected rq = (\<not> falsy (b_task rq) \<and> length (trim (the (b_task rq))) < 3)"

text \<open>
  \<^verbatim>\<open>PUT /api/todos/:id\<close> of the Day 7 server.  The answer is \<open>None\<close> when the handler
  never sends one, which is what happens when the promise of \<^verbatim>\<open>updateTodo\<close> stays
  pending.
\<close>

definition update_todo7 ::
  "env \<Rightarrow> user \<Rightarrow> db_type \<Rightarrow> request \<Rightarrow> state7 \<Rightarrow> response option \<times> state7"
where
  "update_todo7 e u dbType rq st =
     (if update_rejected rq
      then (Some (failure 400 ''Task must be at least 3 characters.''), st)
      else if dbType = Mongodb then
        (case mongo_findOneAndUpdate True (param_id rq) (uid u) (updates7_mongo e rq) (now rq)
                (mongo7 st) of
           Inl err \<Rightarrow> (Some (errorHandler e err), st)
         | Inr (None, d) \<Rightarrow>
             (Some (failure 404 ''Todo not found or you do not have permission to update it.''), st)
         | Inr (Some t, d) \<Rightarrow>
             (Some (reply 200
                [(''success'', JBool True), (''message'', JStr ''Todo updated successfully.''),
                 (''data'', JObj (mongo_todo_obj True t))]),
              st\<lparr>mongo7 := d\<rparr>))
      else
        (case sqlite_updateTodo (param_id rq) (uid u) (updates7_sqlite rq) (now rq)
                (the (sqliteDB st)) of
           (Resolved None, d) \<Rightarrow>
             (Some (failure 404 ''Todo not found or you do not have permission to update it.''),
              st\<lparr>sqliteDB := Some d\<rparr>)
         | (Resolved (Some t), d) \<Rightarrow>
             (Some (reply 200
                [(''success'', JBool True), (''message'', JStr ''Todo updated successfully.''),
                 (''data'', JObj (sqlite_todo_row t))]),
              st\<lparr>sqliteDB := Some d\<rparr>)
         | (Pending, d) \<Rightarrow> (None, st\<lparr>sqliteDB := Some d\<rparr>)))"

text \<open>\<^verbatim>\<open>DELETE /api/todos/:id\<close> of the Day 7 server.\<close>

definition delete_todo7 :: "env \<Rightarrow> user \<Rightarrow> db_type \<Rightarrow> request \<Rightarrow> state7 \<Rightarrow> response \<times> state7" where
  "delete_todo7 e u dbType rq st =
     (case (if dbType = Mongodb
            then (case mongo_findOneAndDelete (param_id rq) (uid u) (mongo7 st) of
                    (found, d) \<Rightarrow> (found \<noteq> None, st\<lparr>mongo7 := d\<rparr>))
            else (case sqlite_deleteTodo (param_id rq) (uid u) (the (sqliteDB st)) of
                    (deleted, d) \<Rightarrow> (deleted, st\<lparr>sqliteDB := Some d\<rparr>))) of
        (deleted, st') \<Rightarrow>
          if \<not> deleted
          then (failure 404 ''Todo not found or you do not have permission to delete it.'', st')
          else (reply 200
                  [(''success'', JBool True), (''message'', JStr ''Todo deleted successfully.'')],
                st'))"

text \<open>\<^verbatim>\<open>GET /api/todos/:id\<close> of the Day 7 server.\<close>

definition get_todo7 :: "env \<Rightarrow> user \<Rightarrow> db_type \<Rightarrow> request \<Rightarrow> state7 \<Rightarrow> response \<times> state7" where
  "get_todo7 e u dbType rq st =
     (case (if dbType = Mongodb
            then map_option (mongo_todo_obj True)
                   (find (\<lambda>x. tid x = param_id rq \<and> owner x = Some (uid u)) (todos (mongo7 st)))
            else map_option sqlite_todo_row
                   (sqlite_getTodoById (param_id rq) (uid u) (the (sqliteDB st)))) of
        None \<Rightarrow> (failure 404 ''Todo not found or you do not have permission to view it.'', st)
      | Some obj \<Rightarrow> (reply 200 [(''success'', JBool True), (''data'', JObj obj)], st))"

text \<open>
  \<^verbatim>\<open>GET /api/todos\<close> of the Day 7 server.  For the total the SQLite branch runs the
  listing again with default filters, that is with \<^verbatim>\<open>LIMIT 10\<close>.
\<close>

definition list_todos7 :: "env \<Rightarrow> user \<Rightarrow> db_type \<Rightarrow> request \<Rightarrow> state7 \<Rightarrow> response \<times> state7" where
  "list_todos7 e u dbType rq st =
     (let mine = (\<lambda>d. filter (\<lambda>x. owner x = Some (uid u)) (todos d));
          (rows, total) =
            (if dbType = Mongodb
             then (map (\<lambda>t. JObj (mongo_todo_obj True t)) (todo_query e (mine (mongo7 st))),
                   todo_count e (mine (mongo7 st)))
             else (map (\<lambda>t. JObj (sqlite_todo_row t)) (todo_query e (mine (the (sqliteDB st)))),
                   min 10 (length (mine (the (sqliteDB st))))))
      in (reply 200
            [(''success'', JBool True), (''data'', JArr rows),
             (''pagination'',
                JObj [(''page'', JNum (q_page rq)), (''limit'', JNum (q_limit rq)),
                      (''total'', JNum total),
                      (''pages'', if q_limit rq = 0 then JNull
                                  else JNum ((total + q_limit rq - 1) div q_limit rq))])],
          st))"

text \<open>\<^verbatim>\<open>GET /api/todos/stats\<close>: the six counters over the todos of the requester.\<close>

definition stats7 :: "env \<Rightarrow> user \<Rightarrow> db_type \<Rightarrow> request \<Rightarrow> state7 \<Rightarrow> response \<times> state7" where
  "stats7 e u dbType rq st =
     (let mine = filter (\<lambda>x. owner x = Some (uid u))
                   (todos (if dbType = Mongodb then mongo7 st else the (sqliteDB st)));
          n = (\<lambda>P. JNum (length (filter P mine)))
      in (reply 200
            [(''success'', JBool True),
             (''data'',
                JObj ((if dbType = Mongodb \<and> mine \<noteq> [] then [(''_id'', JNull)] else [])
                      @ [(''total'', JNum (length mine)), (''completed'', n completed),
                         (''pending'', n (\<lambda>x. \<not> completed x)),
                         (''highPriority'', n (\<lambda>x. priority x = ''high'')),
                         (''mediumPriority'', n (\<lambda>x. priority x = ''medium'')),
                         (''lowPriority'', n (\<lambda>x. priority x = ''low''))]))],
          st))"

section \<open>Registration and user routes\<close>

text \<open>
  \<^verbatim>\<open>User.create\<close>: the setters trim the name and put the email in lower case, the
  validators of the schema run (on Day 7 the name is also limited to 50 characters), and
  the unique index on \<^verbatim>\<open>email\<close> rejects a second document with the same value.
  \<open>hash\<close> is \<open>None\<close> for the Day 3 route, which sets no password; \<open>auth_schema\<close>
  tells whether the schema is the one of Day 5 and later, with a required password, a
  name of at least 2 characters and a trimmed email.
\<close>

definition mongo_createUser ::
  "bool \<Rightarrow> bool \<Rightarrow> string option \<Rightarrow> string \<Rightarrow> string option \<Rightarrow> nat \<Rightarrow> db \<Rightarrow> js_error + (user \<times> db)"
where
  "mongo_createUser day7 auth_schema nm em hash t d =
     (let nm' = trim (case nm of None \<Rightarrow> [] | Some n \<Rightarrow> n);
          em' = mongo_email_setter auth_schema em in
      if nm' = [] \<or> (auth_schema \<and> length nm' < 2) \<or> (day7 \<and> 50 < length nm')
         \<or> \<not> isValidEmail em'
         \<or> (auth_schema \<and> (case hash of None \<Rightarrow> True | Some h \<Rightarrow> length h < 6))
      then Inl validation_error
      else if \<exists>u \<in> set (users d). email u = em' then Inl duplicate_key_error
      else
        let u = \<lparr>uid = next_uid d, name = nm', email = em',
                 password = (case hash of None \<Rightarrow> [] | Some h \<Rightarrow> h), role = ''user'',
                 isActive = True, createdAt = t, lastLogin = None\<rparr>
        in Inr (u, d\<lparr>users := users d @ [u], next_uid := Suc (next_uid d)\<rparr>))"

text \<open>
  \<^verbatim>\<open>SQLiteDB.createUser\<close>: the INSERT statement; \<^verbatim>\<open>email TEXT UNIQUE\<close> makes it fail on
  an email that some row, active or not, already has.
\<close>

definition sqlite_createUser :: "string \<Rightarrow> string \<Rightarrow> string \<Rightarrow> nat \<Rightarrow> db \<Rightarrow> js_error + (user \<times> db)" where
  "sqlite_createUser nm em hash t d =
     (if \<exists>u \<in> set (users d). email u = em then Inl sqlite_duplicate_error
      else
        let u = \<lparr>uid = next_uid d, name = nm, email = em, password = hash, role = ''user'',
                 isActive = True, createdAt = t, lastLogin = None\<rparr>
        in Inr (u, d\<lparr>users := users d @ [u], next_uid := Suc (next_uid d)\<rparr>))"

text \<open>\<^verbatim>\<open>UPDATE users SET name = ? WHERE id = ?\<close>.\<close>

definition sqlite_updateUserName :: "nat \<Rightarrow> string \<Rightarrow> db \<Rightarrow> db" where
  "sqlite_updateUserName i nm d =
     d\<lparr>users := update_where (\<lambda>u. uid u = i) (\<lambda>u. u\<lparr>name := nm\<rparr>) (users d)\<rparr>"

text \<open>The checks both registration handlers make before they touch a database.\<close>

definition register_invalid :: "string \<Rightarrow> string \<Rightarrow> string \<Rightarrow> string \<Rightarrow> request \<Rightarrow> string option" where
  "register_invalid m1 m2 m3 m4 rq =
     (if falsy (b_name rq) \<or> falsy (b_email rq) \<or> falsy (b_password rq)
         \<or> falsy (b_confirmPassword rq) then Some m1
      else if b_password rq \<noteq> b_confirmPassword rq then Some m2
      else if length (the (b_password rq)) < 6 then Some m3
      else if \<not> isValidEmail (the (b_email rq)) then Some m4
      else None)"

text \<open>\<^verbatim>\<open>POST /api/register\<close> of the Day 6 server (server.js, lines 935 to 1054).\<close>

definition register6 :: "env \<Rightarrow> request \<Rightarrow> state6 \<Rightarrow> response \<times> state6" where
  "register6 e rq st =
     (case register_invalid ''All fields are required'' ''Passwords do not match''
             ''Password must be at least 6 characters'' ''Please enter a valid email address'' rq of
        Some msg \<Rightarrow> (failure 400 msg, st)
      | None \<Rightarrow>
          let nm = the (b_name rq); em = the (b_email rq); pw = the (b_password rq) in
          if canUseDB6 st then
            (if mongo_findUserByEmail em (mongo6 st) \<noteq> None
             then (failure 409 ''User with this email already exists'', st)
             else
               (case mongo_createUser False True (Some nm) em (Some (bcrypt_hash e pw)) (now rq)
                       (mongo6 st) of
                  Inl err \<Rightarrow>
                    (reply 500
                       [(''success'', JBool False), (''error'', JStr (err_message err)),
                        (''note'', JStr ''Check if bcrypt is installed: npm install bcrypt'')], st)
                | Inr (u, d) \<Rightarrow>
                    (reply 201
                       [(''success'', JBool True),
                        (''message'', JStr ''User registered successfully (MongoDB)''),
                        (''data'', auth_data e
                           [(''id'', JNum (uid u)), (''name'', JStr (name u)),
                            (''email'', JStr (email u)), (''role'', JStr (role u))]
                           (jwt_sign e (uid u)))],
                     st\<lparr>mongo6 := mongo_setLastLogin (uid u) (now rq) d\<rparr>)))
          else
            (if memory_findUserByEmail em (memory st) \<noteq> None
             then (failure 409 ''User with this email already exists'', st)
             else
               let newUser =
                     \<lparr>uid = next_uid (memory st), name = nm, email = em,
                      password = bcrypt_hash e pw, role = ''user'', isActive = True,
                      createdAt = now rq, lastLogin = Some (now rq)\<rparr>
               in (reply 201
                     [(''success'', JBool True),
                      (''message'', JStr ''User registered successfully (in-memory storage)''),
                      (''data'', auth_data e (js_delete ''password'' (memory_user_obj newUser))
                         (jwt_sign e (uid newUser)))],
                   st\<lparr>memory := (memory st)\<lparr>users := users (memory st) @ [newUser],
                                                next_uid := Suc (next_uid (memory st))\<rparr>\<rparr>)))"

text \<open>\<^verbatim>\<open>POST /api/auth/register\<close> of the Day 7 server.\<close>

definition register7 :: "env \<Rightarrow> request \<Rightarrow> state7 \<Rightarrow> response \<times> state7" where
  "register7 e rq st =
     (case register_invalid ''All fields are required.'' ''Passwords do not match.''
             ''Password must be at least 6 characters.'' ''Please enter a valid email address.'' rq of
        Some msg \<Rightarrow> (failure 400 msg, st)
      | None \<Rightarrow>
          let nm = the (b_name rq); em = the (b_email rq); pw = the (b_password rq);
              dbStatus = canUseDB7 st in
          if \<not> snd dbStatus then (failure 503 ''Database service unavailable.'', st)
          else if (if fst dbStatus = Mongodb then mongo_findUserByEmail em (mongo7 st)
                   else sqlite_findUserByEmail em (the (sqliteDB st))) \<noteq> None
          then (failure 409 ''User with this email already exists.'', st)
          else if fst dbStatus = Mongodb then
            (case mongo_createUser True True (Some nm) em (Some (bcrypt_hash e pw)) (now rq)
                    (mongo7 st) of
               Inl err \<Rightarrow> (errorHandler e err, st)
             | Inr (u, d) \<Rightarrow>
                 (reply 201
                    [(''success'', JBool True), (''message'', JStr ''User registered successfully.''),
                     (''data'', auth_data e
                        (js_delete ''password'' (mongo_user_obj True True u @ [(''id'', JNum (uid u))]))
                        (jwt_sign e (uid u)))],
                  st\<lparr>mongo7 := d\<rparr>))
          else
            (case sqlite_createUser nm em (bcrypt_hash e pw) (now rq) (the (sqliteDB st)) of
               Inl err \<Rightarrow> (errorHandler e err, st)
             | Inr (u, d) \<Rightarrow>
                 (reply 201
                    [(''success'', JBool True), (''message'', JStr ''User registered successfully.''),
                     (''data'', auth_data e
                        (js_delete ''password''
                           [(''id'', JNum (uid u)), (''name'', JStr (name u)),
                            (''email'', JStr (email u)), (''role'', JStr (role u)),
                            (''isActive'', JBool True), (''createdAt'', JNum (now rq))])
                        (jwt_sign e (uid u)))],
                  st\<lparr>sqliteDB := Some (sqlite_updateUserLastLogin (uid u) (now rq)
                                  (sqlite_updateUserLastLogin (uid u) (now rq) d))\<rparr>)))"

text \<open>
  \<^verbatim>\<open>POST /api/users\<close> and \<^verbatim>\<open>GET /api/users\<close>, which exist from Day 3 on and talk to
  MongoDB only: without a connection the query times out and the handler answers 500.
  \<open>auth_schema\<close> is false for the Day 3 and Day 4 servers and true for the Day 6 one.  A
  body without email queries for \<^verbatim>\<open>null\<close>, which no document has.
\<close>

definition create_user :: "bool \<Rightarrow> request \<Rightarrow> state6 \<Rightarrow> response \<times> state6" where
  "create_user auth_schema rq st =
     (if \<not> canUseDB6 st then (failure 500 (err_message buffering_error), st)
      else if (case b_email rq of None \<Rightarrow> None
               | Some em \<Rightarrow> find (\<lambda>u. email u = mongo_email_setter auth_schema em)
                              (users (mongo6 st))) \<noteq> None
      then (failure 409 ''Email already registered'', st)
      else
        (case mongo_createUser False auth_schema (b_name rq)
                (case b_email rq of None \<Rightarrow> [] | Some em \<Rightarrow> em) None (now rq) (mongo6 st) of
           Inl err \<Rightarrow> (failure 500 (err_message err), st)
         | Inr (u, d) \<Rightarrow>
             (reply 201
                [(''success'', JBool True), (''user'', JObj (user_toJSON False False u))],
              st\<lparr>mongo6 := d\<rparr>)))"

definition list_users :: "state6 \<Rightarrow> response" where
  "list_users st =
     (if \<not> canUseDB6 st then failure 500 (err_message buffering_error)
      else
        let us = rev (sort_key createdAt (users (mongo6 st)))
        in reply 200
             [(''success'', JBool True), (''count'', JNum (length us)),
              (''users'', JArr (map (\<lambda>u. JObj (user_toJSON False False u)) us))])"

text \<open>
  \<^verbatim>\<open>GET /api/profile\<close> of the Day 6 server, which reads the token by itself.
\<close>

definition profile6 :: "env \<Rightarrow> request \<Rightarrow> state6 \<Rightarrow> response" where
  "profile6 e rq st =
     (if falsy (header_token6 rq) then failure 401 ''No token provided''
      else
        (case jwt_verify e (the (header_token6 rq)) of
           Thrown err \<Rightarrow>
             if err_name err = ''JsonWebTokenError'' then failure 401 ''Invalid token''
             else if err_name err = ''TokenExpiredError'' then failure 401 ''Token expired''
             else failure 500 (err_message err)
         | Decoded i \<Rightarrow>
             if canUseDB6 st then
               (case mongo_findUserById i (mongo6 st) of
                  None \<Rightarrow> failure 404 ''User not found''
                | Some u \<Rightarrow>
                    reply 200 [(''success'', JBool True), (''data'', JObj (user_toJSON False False u))])
             else
               (case memory_findUserById i (memory st) of
                  None \<Rightarrow> failure 404 ''User not found''
                | Some u \<Rightarrow>
                    reply 200
                      [(''success'', JBool True),
                       (''data'', JObj (js_delete ''password'' (memory_user_obj u)))])))"

definition logout6 :: response where
  "logout6 =
     reply 200
       [(''success'', JBool True),
        (''message'', JStr ''Logged out successfully. Delete token on client side.'')]"

section \<open>Profile, administration and status routes of the Day 7 server\<close>

text \<open>
  The object \<^verbatim>\<open>protect\<close> attaches as \<^verbatim>\<open>req.user\<close>: a Mongoose document read without its
  password, or a row of \<^verbatim>\<open>findUserById\<close>.
\<close>

definition req_user_obj :: "db_type \<Rightarrow> user \<Rightarrow> (string \<times> json) list" where
  "req_user_obj dbType u =
     (if dbType = Mongodb then user_toJSON True False u else sqlite_user_public_row u)"

definition profile7 :: "env \<Rightarrow> user \<Rightarrow> db_type \<Rightarrow> request \<Rightarrow> state7 \<Rightarrow> response \<times> state7" where
  "profile7 e u dbType rq st =
     (reply 200 [(''success'', JBool True), (''data'', JObj (req_user_obj dbType u))], st)"

text \<open>
  \<^verbatim>\<open>PUT /api/auth/profile\<close>.  The Mongo branch runs the name validators of the schema;
  the SQLite branch reads the row back with \<^verbatim>\<open>findUserById\<close>, and a missing row leaves
  \<^verbatim>\<open>data\<close> undefined.
\<close>

definition update_profile7 :: "env \<Rightarrow> user \<Rightarrow> db_type \<Rightarrow> request \<Rightarrow> state7 \<Rightarrow> response \<times> state7" where
  "update_profile7 e u dbType rq st =
     (if \<not> falsy (b_name rq) \<and> length (trim (the (b_name rq))) < 2
      then (failure 400 ''Name must be at least 2 characters.'', st)
      else
        let nm = (if falsy (b_name rq) then name u else the (b_name rq)) in
        if dbType = Mongodb then
          (if length (trim nm) < 2 \<or> 50 < length (trim nm) then (errorHandler e validation_error, st)
           else
             let d = (mongo7 st)\<lparr>users := update_where (\<lambda>v. uid v = uid u)
                                            (\<lambda>v. v\<lparr>name := trim nm\<rparr>) (users (mongo7 st))\<rparr>
             in (case mongo_findUserById (uid u) d of
                   None \<Rightarrow> (errorHandler e
                               \<lparr>err_name = ''TypeError'',
                                err_message = ''Cannot read properties of null'',
                                err_stack = ''TypeError: Cannot read properties of null''\<rparr>, st)
                 | Some v \<Rightarrow>
                     (reply 200
                        [(''success'', JBool True),
                         (''message'', JStr ''Profile updated successfully.''),
                         (''data'', JObj (js_delete ''password'' (mongo_user_obj True False v)))],
                      st\<lparr>mongo7 := d\<rparr>)))
        else
          let d = sqlite_updateUserName (uid u) nm (the (sqliteDB st))
          in (reply 200
                ([(''success'', JBool True), (''message'', JStr ''Profile updated successfully.'')]
                 @ opt_field ''data'' (\<lambda>v. JObj (sqlite_user_public_row v))
                     (sqlite_findUserById (uid u) d)),
              st\<lparr>sqliteDB := Some d\<rparr>))"

definition logout7 :: "env \<Rightarrow> user \<Rightarrow> db_type \<Rightarrow> request \<Rightarrow> state7 \<Rightarrow> response \<times> state7" where
  "logout7 e u dbType rq st =
     (reply 200
        [(''success'', JBool True),
         (''message'',
            JStr ''Logged out successfully. Please remove the token from client storage.'')], st)"

text \<open>\<^verbatim>\<open>GET /api/admin/users\<close> and \<^verbatim>\<open>GET /api/admin/todos\<close>, behind \<^verbatim>\<open>authorize('admin')\<close>.\<close>

definition admin_users7 :: "env \<Rightarrow> user \<Rightarrow> db_type \<Rightarrow> request \<Rightarrow> state7 \<Rightarrow> response \<times> state7" where
  "admin_users7 e u dbType rq st =
     (let rows =
            (if dbType = Mongodb
             then map (\<lambda>v. JObj (mongo_user_obj True False v))
                    (rev (sort_key createdAt (users (mongo7 st))))
             else map (\<lambda>v. JObj (sqlite_user_public_row v))
                    (rev (sort_key createdAt (users (the (sqliteDB st))))))
      in (reply 200
            [(''success'', JBool True), (''count'', JNum (length rows)), (''data'', JArr rows)],
          st))"

text \<open>
  A todo with its owner joined in: \<^verbatim>\<open>populate('user', 'name email')\<close> on MongoDB, the
  \<^verbatim>\<open>LEFT JOIN users\<close> of \<^verbatim>\<open>getAllTodos\<close> on SQLite.
\<close>

definition mongo_populated :: "user list \<Rightarrow> todo \<Rightarrow> json" where
  "mongo_populated us t =
     JObj (js_delete ''user'' (mongo_todo_obj True t)
           @ [(''user'',
               (case find (\<lambda>v. Some (uid v) = owner t) us of
                  None \<Rightarrow> JNull
                | Some v \<Rightarrow>
                    JObj [(''_id'', JNum (uid v)), (''name'', JStr (name v)),
                          (''email'', JStr (email v))]))])"

definition sqlite_joined :: "user list \<Rightarrow> todo \<Rightarrow> json" where
  "sqlite_joined us t =
     (let joined = find (\<lambda>v. Some (uid v) = owner t) us;
          userName = nullable JStr (map_option name joined);
          userEmail = nullable JStr (map_option email joined)
      in JObj (sqlite_todo_row t
               @ [(''userName'', userName), (''userEmail'', userEmail),
                  (''user'', JObj [(''name'', userName), (''email'', userEmail)])]))"

definition admin_todos7 :: "env \<Rightarrow> user \<Rightarrow> db_type \<Rightarrow> request \<Rightarrow> state7 \<Rightarrow> response \<times> state7" where
  "admin_todos7 e u dbType rq st =
     (let rows =
            (if dbType = Mongodb
             then map (mongo_populated (users (mongo7 st))) (newest_first (todos (mongo7 st)))
             else map (sqlite_joined (users (the (sqliteDB st))))
                    (newest_first (todos (the (sqliteDB st)))))
      in (reply 200
            [(''success'', JBool True), (''count'', JNum (length rows)), (''data'', JArr rows)],
          st))"

text \<open>
  \<^verbatim>\<open>GET /api/health\<close> and \<^verbatim>\<open>GET /api/status\<close>.  The readings taken from the process
  (clock, uptime, memory usage, environment name) come with the call.
\<close>

record readings =
  timestamp :: string
  uptime :: nat
  rss :: string
  heapTotal :: string
  heapUsed :: string
  node_env :: string

definition db_type_name :: "db_type \<Rightarrow> string" where
  "db_type_name t = (case t of Mongodb \<Rightarrow> ''mongodb'' | Sqlite \<Rightarrow> ''sqlite'' | NoDb \<Rightarrow> ''none'')"

definition database_obj :: "state7 \<Rightarrow> json" where
  "database_obj st =
     JObj [(''type'', JStr (db_type_name (fst (canUseDB7 st)))),
           (''connected'', JBool (snd (canUseDB7 st)))]"

definition health7 :: "readings \<Rightarrow> state7 \<Rightarrow> response" where
  "health7 p st =
     reply 200
       [(''success'', JBool True),
        (''data'', JObj [(''status'', JStr ''healthy''), (''timestamp'', JStr (timestamp p)),
                        (''uptime'', JNum (uptime p)), (''database'', database_obj st),
                        (''memory'', JObj [(''rss'', JStr (rss p)),
                                           (''heapTotal'', JStr (heapTotal p)),
                                           (''heapUsed'', JStr (heapUsed p))]),
                        (''environment'', JStr (node_env p))])]"

definition status7 :: "state7 \<Rightarrow> response" where
  "status7 st =
     reply 200
       [(''success'', JBool True),
        (''data'', JObj [(''api'', JStr ''Todo API v1.0''), (''version'', JStr ''1.0.0''),
                        (''status'', JStr ''operational''), (''database'', database_obj st)])]"

text \<open>The 404 handler registered after all routes.\<close>

definition not_found7 :: "string \<Rightarrow> response" where
  "not_found7 url = failure 404 (''Route '' @ url @ '' not found.'')"

section \<open>The servers as transition systems\<close>

text \<open>The routes of the Day 6 server that read or write users and todos.\<close>

datatype route6 =
    Register6 | Login6 | Profile6 | Logout6
  | CreateUser6 | ListUsers6
  | ListTodos6 | GetTodo6 | PublicTodos6
  | CreateTodo6 | UpdateTodo6 | DeleteTodo6 | MyTodos6
  | Health6

definition serve6 :: "env \<Rightarrow> route6 \<Rightarrow> request \<Rightarrow> state6 \<Rightarrow> response \<times> state6" where
  "serve6 e r rq st =
     (case r of
        Register6 \<Rightarrow> register6 e rq st
      | Login6 \<Rightarrow> login6 e rq st
      | Profile6 \<Rightarrow> (profile6 e rq st, st)
      | Logout6 \<Rightarrow> (logout6, st)
      | CreateUser6 \<Rightarrow> create_user True rq st
      | ListUsers6 \<Rightarrow> (list_users st, st)
      | ListTodos6 \<Rightarrow> list_todos6 rq st
      | GetTodo6 \<Rightarrow> get_todo6 rq st
      | PublicTodos6 \<Rightarrow> public_todos6 rq st
      | CreateTodo6 \<Rightarrow> protected6 e create_todo6 rq st
      | UpdateTodo6 \<Rightarrow> protected6 e update_todo6 rq st
      | DeleteTodo6 \<Rightarrow> protected6 e delete_todo6 rq st
      | MyTodos6 \<Rightarrow> protected6 e my_todos6 rq st
      | Health6 \<Rightarrow> (health6 (now rq) st, st))"

text \<open>The routes of the Day 7 server.\<close>

datatype route7 =
    Register7 | Login7 | GetProfile7 | PutProfile7 | Logout7
  | CreateTodo7 | ListTodos7 | GetTodo7 | UpdateTodo7 | DeleteTodo7 | Stats7
  | AdminUsers7 | AdminTodos7
  | Health7 readings | Status7 | NotFound7 string

definition sent :: "response \<times> 's \<Rightarrow> response option \<times> 's" where
  "sent rs = (Some (fst rs), snd rs)"

definition serve7 :: "env \<Rightarrow> route7 \<Rightarrow> request \<Rightarrow> state7 \<Rightarrow> response option \<times> state7" where
  "serve7 e r rq st =
     (case r of
        Register7 \<Rightarrow> sent (register7 e rq st)
      | Login7 \<Rightarrow> sent (login7 e rq st)
      | GetProfile7 \<Rightarrow> sent (protected7 e (profile7 e) rq st)
      | PutProfile7 \<Rightarrow> sent (protected7 e (update_profile7 e) rq st)
      | Logout7 \<Rightarrow> sent (protected7 e (logout7 e) rq st)
      | CreateTodo7 \<Rightarrow> sent (protected7 e (create_todo7 e) rq st)
      | ListTodos7 \<Rightarrow> sent (protected7 e (list_todos7 e) rq st)
      | GetTodo7 \<Rightarrow> sent (protected7 e (get_todo7 e) rq st)
      | UpdateTodo7 \<Rightarrow>
          (case protect7 e rq st of
             Refused x \<Rightarrow> (Some x, st)
           | Granted u t \<Rightarrow> update_todo7 e u t rq st)
      | DeleteTodo7 \<Rightarrow> sent (protected7 e (delete_todo7 e) rq st)
      | Stats7 \<Rightarrow> sent (protected7 e (stats7 e) rq st)
      | AdminUsers7 \<Rightarrow> sent (protected7 e (authorize [''admin''] (admin_users7 e)) rq st)
      | AdminTodos7 \<Rightarrow> sent (protected7 e (authorize [''admin''] (admin_todos7 e)) rq st)
      | Health7 p \<Rightarrow> (Some (health7 p st), st)
      | Status7 \<Rightarrow> (Some (status7 st), st)
      | NotFound7 url \<Rightarrow> (Some (not_found7 url), st))"

text \<open>
  The states a server starts in.  The in-process lists of Day 6 begin with three seeded
  todos and no user; the databases begin empty.
\<close>

definition empty_db :: db where
  "empty_db = \<lparr>users = [], todos = [], next_uid = 1, next_tid = 1\<rparr>"

definition seed_todo :: "nat \<Rightarrow> string \<Rightarrow> bool \<Rightarrow> string \<Rightarrow> todo" where
  "seed_todo i tsk done prio =
     \<lparr>tid = i, task = tsk, description = None, completed = done, priority = prio,
      dueDate = None, owner = None, tags = [], t_createdAt = None, updatedAt = None\<rparr>"

definition memoryTodos :: "todo list" where
  "memoryTodos =
     [seed_todo 1 ''Complete Day 3 MongoDB'' True ''high'',
      seed_todo 2 ''Start Day 4 Todo CRUD'' False ''high'',
      seed_todo 3 ''Test API endpoints'' False ''medium'']"

definition initial6 :: "bool \<Rightarrow> state6" where
  "initial6 connected =
     \<lparr>mongo_ready6 = connected, mongo6 = empty_db,
      memory = \<lparr>users = [], todos = memoryTodos, next_uid = 1, next_tid = 4\<rparr>\<rparr>"

text \<open>
  \<^verbatim>\<open>connectDB\<close> of Day 7: with a connection to MongoDB the SQLite instance stays
  \<^verbatim>\<open>null\<close>; without one it is created.
\<close>

definition initial7 :: "bool \<Rightarrow> state7" where
  "initial7 connected =
     \<lparr>mongo_ready7 = connected, mongo7 = empty_db,
      sqliteDB = (if connected then None else Some empty_db)\<rparr>"

text \<open>
  Reachability: requests are served one after the other, and between two requests the
  connection to MongoDB may drop or come back.
\<close>

inductive reachable6 :: "env \<Rightarrow> state6 \<Rightarrow> bool" for e :: env where
  start6: "reachable6 e (initial6 connected)"
| request6: "reachable6 e st \<Longrightarrow> reachable6 e (snd (serve6 e r rq st))"
| connection6: "reachable6 e st \<Longrightarrow> reachable6 e (st\<lparr>mongo_ready6 := up\<rparr>)"

inductive reachable7 :: "env \<Rightarrow> state7 \<Rightarrow> bool" for e :: env where
  start7: "reachable7 e (initial7 connected)"
| request7: "reachable7 e st \<Longrightarrow> reachable7 e (snd (serve7 e r rq st))"
| connection7: "reachable7 e st \<Longrightarrow> reachable7 e (st\<lparr>mongo_ready7 := up\<rparr>)"

section \<open>The servers one backend at a time\<close>

text \<open>
  Each handler that asks \<^verbatim>\<open>canUseDB()\<close> has one branch per backend.  The definitions of
  this section are these branches on their own: a function of one store only, written
  with the operations of that backend, returning the answer and the store afterwards.
  The names start with the backend and end with the day of the server.
\<close>

subsection \<open>Day 6 on MongoDB\<close>















subsection \<open>Day 6 on the in-process lists\<close>















subsection \<open>Day 7 on MongoDB\<close>






















subsection \<open>Day 7 on SQLite\<close>















subsection \<open>Day 7 without a database\<close>





section \<open>Sample environment and data\<close>

text \<open>
  A concrete environment for evaluating the handlers: a token is \<^verbatim>\<open>jwt\<close> followed by as
  many \<^verbatim>\<open>x\<close> as the user id, a hash is the password behind a \<^verbatim>\<open>#\<close>.
\<close>

definition sample_sign :: "nat \<Rightarrow> string" where
  "sample_sign i = ''jwt'' @ replicate i (CHR ''x'')"

definition sample_verify :: "string \<Rightarrow> verify_result" where
  "sample_verify t =
     (if t = ''expired''
      then Thrown \<lparr>err_name = ''TokenExpiredError'', err_message = ''jwt expired'',
                   err_stack = ''TokenExpiredError: jwt expired''\<rparr>
      else if t = ''early''
      then Thrown \<lparr>err_name = ''NotBeforeError'', err_message = ''jwt not active'',
                   err_stack = ''NotBeforeError: jwt not active''\<rparr>
      else if take 3 t = ''jwt'' \<and> drop 3 t = replicate (length t - 3) (CHR ''x'')
      then Decoded (length t - 3)
      else Thrown \<lparr>err_name = ''JsonWebTokenError'', err_message = ''jwt malformed'',
                   err_stack = ''JsonWebTokenError: jwt malformed''\<rparr>)"

definition sample_env :: env where
  "sample_env =
     \<lparr>jwt_verify = sample_verify, jwt_sign = sample_sign,
      bcrypt_compare = (\<lambda>p h. h = CHR ''#'' # p), bcrypt_hash = (\<lambda>p. CHR ''#'' # p),
      jwt_expire = ''7d'', to_date = (\<lambda>s. s), isProduction = False,
      todo_query = take 10, todo_count = length\<rparr>"

definition alice :: user where
  "alice =
     \<lparr>uid = 1, name = ''Alice'', email = ''alice@example.com'', password = ''#secret1'',
      role = ''user'', isActive = True, createdAt = 10, lastLogin = None\<rparr>"

definition alice_db :: db where
  "alice_db = \<lparr>users = [alice], todos = [], next_uid = 2, next_tid = 1\<rparr>"

definition blank_request :: request where
  "blank_request =
     \<lparr>authorization = None, param_id = 0, b_name = None, b_email = None, b_password = None,
      b_confirmPassword = None, b_task = None, b_description = None, b_completed = None,
      b_priority = None, b_dueDate = None, b_tags = None, q_page = 1, q_limit = 10, now = 100\<rparr>"

definition login_request :: "string \<Rightarrow> string \<Rightarrow> request" where
  "login_request em pw = blank_request\<lparr>b_email := Some em, b_password := Some pw\<rparr>"

text \<open>A todo of the sample user, and a request that changes it.\<close>

definition milk :: todo where
  "milk =
     \<lparr>tid = 1, task = ''Buy milk'', description = None, completed = False, priority = ''low'',
      dueDate = None, owner = Some 1, tags = [], t_createdAt = Some 20, updatedAt = Some 20\<rparr>"

definition milk_db :: db where
  "milk_db = \<lparr>users = [alice], todos = [milk], next_uid = 2, next_tid = 2\<rparr>"

definition put_request :: "string \<Rightarrow> request" where
  "put_request tsk =
     blank_request\<lparr>authorization := Some ''Bearer jwtx'', param_id := 1,
                    b_task := Some tsk, b_completed := Some True\<rparr>"

text \<open>
  A registration request, the user it creates, and the states reached from a start without
  MongoDB by registering and then creating a todo.
\<close>

definition register_request :: "string \<Rightarrow> string \<Rightarrow> string \<Rightarrow> string \<Rightarrow> request" where
  "register_request nm em pw confirm =
     blank_request\<lparr>b_name := Some nm, b_email := Some em, b_password := Some pw,
                    b_confirmPassword := Some confirm\<rparr>"

definition registered :: user where
  "registered = alice\<lparr>createdAt := 100, lastLogin := Some 100\<rparr>"

definition reg_alice :: request where
  "reg_alice = register_request ''Alice'' ''alice@example.com'' ''secret1'' ''secret1''"

definition memory_registered :: state6 where
  "memory_registered =
     \<lparr>mongo_ready6 = False, mongo6 = empty_db,
      memory = \<lparr>users = [registered], todos = memoryTodos, next_uid = 2, next_tid = 4\<rparr>\<rparr>"

definition sqlite_registered :: state7 where
  "sqlite_registered =
     \<lparr>mongo_ready7 = False, mongo7 = empty_db,
      sqliteDB = Some \<lparr>users = [registered], todos = [], next_uid = 2, next_tid = 1\<rparr>\<rparr>"

definition post_request :: "string \<Rightarrow> request" where
  "post_request tsk = blank_request\<lparr>authorization := Some ''Bearer jwtx'', b_task := Some tsk\<rparr>"

definition memory_with_todo :: state6 where
  "memory_with_todo =
     \<lparr>mongo_ready6 = False, mongo6 = empty_db,
      memory = \<lparr>users = [registered],
                todos = memoryTodos @ [new_todo 4 ''Buy milk'' ''medium'' (Some 1) 100],
                next_uid = 2, next_tid = 5\<rparr>\<rparr>"

definition sqlite_with_todo :: state7 where
  "sqlite_with_todo =
     \<lparr>mongo_ready7 = False, mongo7 = empty_db,
      sqliteDB = Some \<lparr>users = [registered],
                       todos = [new_todo 1 ''Buy milk'' ''medium'' (Some 1) 100],
                       next_uid = 2, next_tid = 2\<rparr>\<rparr>"



section \<open>Notions used in the statements\<close>

text \<open>
  A login attempt is turned down when the lookup by email found nobody, or found a user
  whose stored hash does not match the password.
\<close>

definition bad_credentials :: "env \<Rightarrow> string \<Rightarrow> user option \<Rightarrow> bool" where
  "bad_credentials e pw found =
     (case found of None \<Rightarrow> True | Some u \<Rightarrow> \<not> bcrypt_compare e pw (password u))"

text \<open>
  The user a token id resolves to in the backend that serves the request: the result of
  the query the middleware sends.
\<close>

definition lookup6 :: "state6 \<Rightarrow> nat \<Rightarrow> user option" where
  "lookup6 st i =
     (if mongo_ready6 st then mongo_findUserById i (mongo6 st)
      else memory_findUserById i (memory st))"

definition lookup7 :: "state7 \<Rightarrow> nat \<Rightarrow> user option" where
  "lookup7 st i =
     (if mongo_ready7 st then mongo_findUserById i (mongo7 st)
      else case sqliteDB st of None \<Rightarrow> None | Some d \<Rightarrow> sqlite_findUserById i d)"

text \<open>The two verification errors the Day 7 middleware answers itself.\<close>

definition jwt_error :: "js_error \<Rightarrow> bool" where
  "jwt_error err = (err_name err = ''JsonWebTokenError'' \<or> err_name err = ''TokenExpiredError'')"

text \<open>
  The todo an update request asks for, field by field: a field of the body replaces the
  stored value (strings trimmed), an absent field keeps it, and \<^verbatim>\<open>updatedAt\<close> is set to
  the time of the request.  Day 6 reads the task, the completion flag and the priority;
  Day 7 reads all six fields, and only its MongoDB branch converts the due date and trims
  the tags.
\<close>

definition partial_replace6 :: "request \<Rightarrow> todo \<Rightarrow> todo" where
  "partial_replace6 rq x =
     x\<lparr>task := (case b_task rq of None \<Rightarrow> task x | Some v \<Rightarrow> trim v),
       completed := (case b_completed rq of None \<Rightarrow> completed x | Some v \<Rightarrow> v),
       priority := (case b_priority rq of None \<Rightarrow> priority x | Some v \<Rightarrow> v),
       updatedAt := Some (now rq)\<rparr>"

definition partial_replace7 :: "env \<Rightarrow> bool \<Rightarrow> request \<Rightarrow> todo \<Rightarrow> todo" where
  "partial_replace7 e on_mongo rq x =
     x\<lparr>task := (case b_task rq of None \<Rightarrow> task x | Some v \<Rightarrow> trim v),
       description := (case b_description rq of None \<Rightarrow> description x | Some v \<Rightarrow> Some (trim v)),
       completed := (case b_completed rq of None \<Rightarrow> completed x | Some v \<Rightarrow> v),
       priority := (case b_priority rq of None \<Rightarrow> priority x | Some v \<Rightarrow> v),
       dueDate := (case b_dueDate rq of None \<Rightarrow> dueDate x
                   | Some v \<Rightarrow> if on_mongo then (if v = [] then None else Some (to_date e v))
                              else Some v),
       tags := (case b_tags rq of None \<Rightarrow> tags x
                | Some v \<Rightarrow> if on_mongo then map trim v else v),
       updatedAt := Some (now rq)\<rparr>"

definition owned_by :: "nat \<Rightarrow> nat \<Rightarrow> todo \<Rightarrow> bool" where
  "owned_by i userId x = (tid x = i \<and> owner x = Some userId)"

text \<open>
  The invariant of one backend: no two users share an email, every user is active, and
  every todo that is not one of the seeded ones is owned by an existing user.
\<close>

definition db_ok :: "todo list \<Rightarrow> db \<Rightarrow> bool" where
  "db_ok seeds d =
     (distinct (map email (users d)) \<and> (\<forall>u \<in> set (users d). isActive u) \<and>
      (\<forall>t \<in> set (todos d). t \<in> set seeds \<or> (\<exists>u \<in> set (users d). owner t = Some (uid u))))"

text \<open>The invariants of the Day 6 and of the Day 7 server.\<close>

definition inv6 :: "state6 \<Rightarrow> bool" where
  "inv6 st = (db_ok [] (mongo6 st) \<and> db_ok memoryTodos (memory st))"

definition inv7 :: "state7 \<Rightarrow> bool" where
  "inv7 st = (db_ok [] (mongo7 st) \<and> (case sqliteDB st of None \<Rightarrow> True | Some d \<Rightarrow> db_ok [] d))"

text \<open>A registration body that passes the field checks of the handlers.\<close>

definition well_formed_registration :: "request \<Rightarrow> bool" where
  "well_formed_registration rq =
     (\<not> falsy (b_name rq) \<and> \<not> falsy (b_email rq) \<and> \<not> falsy (b_password rq) \<and>
      \<not> falsy (b_confirmPassword rq) \<and> b_password rq = b_confirmPassword rq \<and>
      6 \<le> length (the (b_password rq)) \<and> isValidEmail (the (b_email rq)))"

text \<open>
  A JSON value has a property named \<open>k\<close> at some depth: in the object itself, in the value
  of one of its properties, or in an element of an array.
\<close>

primrec has_key :: "string \<Rightarrow> json \<Rightarrow> bool" where
  "has_key k JNull = False"
| "has_key k (JBool b) = False"
| "has_key k (JNum n) = False"
| "has_key k (JStr s) = False"
| "has_key k (JArr xs) = list_ex (\<lambda>b. b) (map (has_key k) xs)"
| "has_key k (JObj kvs) = list_ex (\<lambda>p. fst p = k \<or> snd p) (map (map_prod id (has_key k)) kvs)"

text \<open>A top-level property of a response body.\<close>

definition field :: "string \<Rightarrow> response \<Rightarrow> json option" where
  "field k r = (case body r of JObj kvs \<Rightarrow> map_of kvs k | _ \<Rightarrow> None)"

text \<open>
  The envelope: a boolean \<^verbatim>\<open>success\<close>; when it is \<^verbatim>\<open>false\<close>, a string \<^verbatim>\<open>error\<close>; when it is
  \<^verbatim>\<open>true\<close> and \<open>need_data\<close> is set, a \<^verbatim>\<open>data\<close> property.
\<close>

definition enveloped :: "bool \<Rightarrow> response \<Rightarrow> bool" where
  "enveloped need_data r =
     (case field ''success'' r of
        Some (JBool True) \<Rightarrow> \<not> need_data \<or> field ''data'' r \<noteq> None
      | Some (JBool False) \<Rightarrow> (case field ''error'' r of Some (JStr m) \<Rightarrow> True | _ \<Rightarrow> False)
      | _ \<Rightarrow> False)"

section \<open>Verified properties\<close>

subsection \<open>Login failures\<close>

text \<open>
  Claim C10, as amended.  A login request that carries an email and a password is answered
  in the same way when the email matches no user and when it matches a user whose
  password fails the bcrypt comparison: status 401 with the error
  \<^verbatim>\<open>Invalid credentials\<close> on \<^verbatim>\<open>POST /api/login\<close> (Day 6, MongoDB and in-memory path), and
  status 401 with the error \<^verbatim>\<open>Invalid credentials.\<close>, ending in a full stop, on
  \<^verbatim>\<open>POST /api/auth/login\<close> (Day 7, MongoDB and SQLite path).  The state is left as it was.
\<close>

theorem login_rejections_indistinguishable:
  "\<not> falsy (b_email rq) \<Longrightarrow> \<not> falsy (b_password rq) \<Longrightarrow>
   (mongo_ready6 s6 \<and>
      bad_credentials e (the (b_password rq)) (mongo_findUserByEmail (the (b_email rq)) (mongo6 s6))
      \<longrightarrow> login6 e rq s6 = (failure 401 ''Invalid credentials'', s6)) \<and>
   (\<not> mongo_ready6 s6 \<and>
      bad_credentials e (the (b_password rq)) (memory_findUserByEmail (the (b_email rq)) (memory s6))
      \<longrightarrow> login6 e rq s6 = (failure 401 ''Invalid credentials'', s6)) \<and>
   (mongo_ready7 s7 \<and>
      bad_credentials e (the (b_password rq)) (mongo_findUserByEmail (the (b_email rq)) (mongo7 s7))
      \<longrightarrow> login7 e rq s7 = (failure 401 ''Invalid credentials.'', s7)) \<and>
   (\<not> mongo_ready7 s7 \<and> sqliteDB s7 = Some d \<and>
      bad_credentials e (the (b_password rq)) (sqlite_findUserByEmail (the (b_email rq)) d)
      \<longrightarrow> login7 e rq s7 = (failure 401 ''Invalid credentials.'', s7))"
  by (auto simp: login6_def login7_def bad_credentials_def canUseDB6_def canUseDB7_def Let_def
           split: option.splits)

theorem login_rejections_indistinguishable_witness:
  "login6 sample_env (login_request ''nobody@example.com'' ''secret1'')
      \<lparr>mongo_ready6 = False, mongo6 = empty_db, memory = alice_db\<rparr>
    = (failure 401 ''Invalid credentials'',
       \<lparr>mongo_ready6 = False, mongo6 = empty_db, memory = alice_db\<rparr>) \<and>
   login6 sample_env (login_request ''alice@example.com'' ''guess'')
      \<lparr>mongo_ready6 = True, mongo6 = alice_db, memory = empty_db\<rparr>
    = (failure 401 ''Invalid credentials'',
       \<lparr>mongo_ready6 = True, mongo6 = alice_db, memory = empty_db\<rparr>) \<and>
   login7 sample_env (login_request ''nobody@example.com'' ''secret1'')
      \<lparr>mongo_ready7 = False, mongo7 = empty_db, sqliteDB = Some alice_db\<rparr>
    = (failure 401 ''Invalid credentials.'',
       \<lparr>mongo_ready7 = False, mongo7 = empty_db, sqliteDB = Some alice_db\<rparr>) \<and>
   login7 sample_env (login_request ''alice@example.com'' ''guess'')
      \<lparr>mongo_ready7 = True, mongo7 = alice_db, sqliteDB = None\<rparr>
    = (failure 401 ''Invalid credentials.'',
       \<lparr>mongo_ready7 = True, mongo7 = alice_db, sqliteDB = None\<rparr>)"
  using
    login_rejections_indistinguishable
      [of "login_request ''nobody@example.com'' ''secret1''"
          "\<lparr>mongo_ready6 = False, mongo6 = empty_db, memory = alice_db\<rparr>" sample_env
          "\<lparr>mongo_ready7 = False, mongo7 = empty_db, sqliteDB = Some alice_db\<rparr>" alice_db]
    login_rejections_indistinguishable
      [of "login_request ''alice@example.com'' ''guess''"
          "\<lparr>mongo_ready6 = True, mongo6 = alice_db, memory = empty_db\<rparr>" sample_env
          "\<lparr>mongo_ready7 = True, mongo7 = alice_db, sqliteDB = None\<rparr>" alice_db]
  by (simp add: login_request_def blank_request_def falsy_def bad_credentials_def
        memory_findUserByEmail_def sqlite_findUserByEmail_def mongo_findUserByEmail_def
        mongo_email_def toLowerCase_def trim_def is_ws_def ws_chars_def lower_char_def
        alice_db_def alice_def empty_db_def sample_env_def)

text \<open>
  The claim names the error body \<^verbatim>\<open>Invalid credentials\<close> for both endpoints.  On
  \<^verbatim>\<open>POST /api/auth/login\<close> an unknown email is answered with a different text.
\<close>

theorem login7_message_counterexample:
  "sqlite_findUserByEmail ''nobody@example.com'' alice_db = None \<and>
   fst (login7 sample_env (login_request ''nobody@example.com'' ''secret1'')
      \<lparr>mongo_ready7 = False, mongo7 = empty_db, sqliteDB = Some alice_db\<rparr>)
     = failure 401 ''Invalid credentials.'' \<and>
   fst (login7 sample_env (login_request ''nobody@example.com'' ''secret1'')
      \<lparr>mongo_ready7 = False, mongo7 = empty_db, sqliteDB = Some alice_db\<rparr>)
     \<noteq> failure 401 ''Invalid credentials''"
  by (simp add: login7_def login_request_def blank_request_def falsy_def canUseDB7_def
        sqlite_findUserByEmail_def alice_db_def alice_def failure_def reply_def)

subsection \<open>Validation of new todos\<close>

text \<open>
  Claim C9, as amended.  A \<^verbatim>\<open>POST /api/todos\<close> request whose body has no task, or a task
  that is shorter than 3 characters once trimmed, adds no todo and changes nothing in any
  backend.  When the request reaches the handler (always on Day 4, after \<^verbatim>\<open>protect\<close> let
  it pass on Day 6 and Day 7) the answer is status 400 with the error
  \<^verbatim>\<open>Task is required and must be at least 3 characters\<close> on Day 4 and Day 6, and with
  the same text followed by a full stop on Day 7; when \<^verbatim>\<open>protect\<close> refuses the request,
  the answer is the refusal of the middleware.
\<close>

theorem create_todo_validation:
  "b_task rq = None \<or> (\<exists>s. b_task rq = Some s \<and> length (trim s) < 3) \<Longrightarrow>
   create_todo4 rq s6 = (failure 400 ''Task is required and must be at least 3 characters'', s6) \<and>
   serve6 e CreateTodo6 rq s6 =
     (case protect6 e rq s6 of
        Refused r \<Rightarrow> (r, s6)
      | Granted u t \<Rightarrow> (failure 400 ''Task is required and must be at least 3 characters'', s6)) \<and>
   serve7 e CreateTodo7 rq s7 =
     (case protect7 e rq s7 of
        Refused r \<Rightarrow> (Some r, s7)
      | Granted u t \<Rightarrow> (Some (failure 400 ''Task is required and must be at least 3 characters.''), s7))"
  by (auto simp: create_todo4_def create_todo6_def create_todo7_def serve6_def serve7_def
        protected6_def protected7_def task_rejected_def falsy_def sent_def trim_def
        split: guard.splits option.splits)

theorem create_todo_validation_witness:
  "create_todo4 (blank_request\<lparr>b_task := Some '' ab ''\<rparr>) (initial6 False)
     = (failure 400 ''Task is required and must be at least 3 characters'', initial6 False) \<and>
   serve6 sample_env CreateTodo6
       (blank_request\<lparr>authorization := Some ''Bearer jwtx'', b_task := Some '' ab ''\<rparr>)
       \<lparr>mongo_ready6 = False, mongo6 = empty_db, memory = alice_db\<rparr>
     = (failure 400 ''Task is required and must be at least 3 characters'',
        \<lparr>mongo_ready6 = False, mongo6 = empty_db, memory = alice_db\<rparr>) \<and>
   serve7 sample_env CreateTodo7 (blank_request\<lparr>authorization := Some ''Bearer jwtx''\<rparr>)
       \<lparr>mongo_ready7 = False, mongo7 = empty_db, sqliteDB = Some alice_db\<rparr>
     = (Some (failure 400 ''Task is required and must be at least 3 characters.''),
        \<lparr>mongo_ready7 = False, mongo7 = empty_db, sqliteDB = Some alice_db\<rparr>)"
  using
    create_todo_validation
      [of "blank_request\<lparr>b_task := Some '' ab ''\<rparr>" "initial6 False" sample_env
          "initial7 False"]
    create_todo_validation
      [of "blank_request\<lparr>authorization := Some ''Bearer jwtx'', b_task := Some '' ab ''\<rparr>"
          "\<lparr>mongo_ready6 = False, mongo6 = empty_db, memory = alice_db\<rparr>" sample_env
          "initial7 False"]
    create_todo_validation
      [of "blank_request\<lparr>authorization := Some ''Bearer jwtx''\<rparr>"
          "initial6 False" sample_env
          "\<lparr>mongo_ready7 = False, mongo7 = empty_db, sqliteDB = Some alice_db\<rparr>"]
  by (simp add: blank_request_def trim_def is_ws_def ws_chars_def
        protect6_def protect7_def header_token6_def header_token7_def falsy_def sample_env_def
        sample_verify_def canUseDB6_def canUseDB7_def memory_findUserById_def
        sqlite_findUserById_def alice_db_def alice_def)

text \<open>
  The claim gives one status and one text for every server.  The Day 7 handler appends a
  full stop to the text, and the Day 6 route answers a request without token with 401.
\<close>

theorem create_todo_message_counterexample:
  "length (trim ''ab'') < 3 \<and>
   fst (serve7 sample_env CreateTodo7
          (blank_request\<lparr>authorization := Some ''Bearer jwtx'', b_task := Some ''ab''\<rparr>)
          \<lparr>mongo_ready7 = False, mongo7 = empty_db, sqliteDB = Some alice_db\<rparr>)
     = Some (failure 400 ''Task is required and must be at least 3 characters.'') \<and>
   failure 400 ''Task is required and must be at least 3 characters.''
     \<noteq> failure 400 ''Task is required and must be at least 3 characters'' \<and>
   status (fst (serve6 sample_env CreateTodo6 (blank_request\<lparr>b_task := Some ''ab''\<rparr>)
                  (initial6 False))) = 401"
  by (simp add: serve7_def serve6_def sent_def protected7_def protected6_def create_todo7_def
        task_rejected_def blank_request_def trim_def is_ws_def ws_chars_def
        protect6_def protect7_def header_token6_def header_token7_def falsy_def sample_env_def
        sample_verify_def canUseDB6_def canUseDB7_def memory_findUserById_def
        sqlite_findUserById_def alice_db_def alice_def failure_def reply_def)



subsection \<open>The authentication middleware\<close>

lemma protected6_refused: "protect6 e rq st = Refused r \<Longrightarrow> protected6 e h rq st = (r, st)"
  by (simp add: protected6_def)

lemma protected6_granted: "protect6 e rq st = Granted u t \<Longrightarrow> protected6 e h rq st = h u rq st"
  by (simp add: protected6_def)

lemma protected7_refused: "protect7 e rq st = Refused r \<Longrightarrow> protected7 e h rq st = (r, st)"
  by (simp add: protected7_def)

lemma protected7_granted: "protect7 e rq st = Granted u t \<Longrightarrow> protected7 e h rq st = h u t rq st"
  by (simp add: protected7_def)

lemma protect6_no_token:
  "falsy (header_token6 rq) \<Longrightarrow> \<exists>msg. protect6 e rq st = Refused (failure 401 msg)"
  by (auto simp: protect6_def)

lemma protect6_thrown:
  "jwt_verify e (the (header_token6 rq)) = Thrown err \<Longrightarrow>
   \<exists>msg. protect6 e rq st = Refused (failure 401 msg)"
  by (auto simp: protect6_def)

lemma protect6_unknown:
  "jwt_verify e (the (header_token6 rq)) = Decoded i \<Longrightarrow> lookup6 st i = None \<Longrightarrow>
   \<exists>msg. protect6 e rq st = Refused (failure 401 msg)"
  by (auto simp: protect6_def lookup6_def canUseDB6_def)

lemma protect6_known:
  "\<not> falsy (header_token6 rq) \<Longrightarrow> jwt_verify e (the (header_token6 rq)) = Decoded i \<Longrightarrow>
   lookup6 st i = Some u \<Longrightarrow> \<exists>t. protect6 e rq st = Granted u t"
  by (simp add: protect6_def lookup6_def canUseDB6_def)

lemma protect7_no_token:
  "falsy (header_token7 rq) \<Longrightarrow> \<exists>msg. protect7 e rq st = Refused (failure 401 msg)"
  by (auto simp: protect7_def)

lemma protect7_jwt_error:
  "jwt_verify e (the (header_token7 rq)) = Thrown err \<Longrightarrow> jwt_error err \<Longrightarrow>
   \<exists>msg. protect7 e rq st = Refused (failure 401 msg)"
  by (auto simp: protect7_def jwt_error_def)

lemma protect7_unknown:
  "jwt_verify e (the (header_token7 rq)) = Decoded i \<Longrightarrow> fst (canUseDB7 st) \<noteq> NoDb \<Longrightarrow>
   (case lookup7 st i of None \<Rightarrow> True | Some u \<Rightarrow> \<not> isActive u) \<Longrightarrow>
   \<exists>msg. protect7 e rq st = Refused (failure 401 msg)"
  by (auto simp: protect7_def lookup7_def canUseDB7_def Let_def split: option.splits if_splits)

lemma protect7_other_error:
  "\<not> falsy (header_token7 rq) \<Longrightarrow> jwt_verify e (the (header_token7 rq)) = Thrown err \<Longrightarrow>
   \<not> jwt_error err \<Longrightarrow> protect7 e rq st = Refused (errorHandler e err)"
  by (simp add: protect7_def jwt_error_def)

lemma protect7_no_db:
  "\<not> falsy (header_token7 rq) \<Longrightarrow> jwt_verify e (the (header_token7 rq)) = Decoded i \<Longrightarrow>
   fst (canUseDB7 st) = NoDb \<Longrightarrow> protect7 e rq st = Refused (failure 500 ''Database not available.'')"
  by (simp add: protect7_def)

lemma protect7_known:
  "\<not> falsy (header_token7 rq) \<Longrightarrow> jwt_verify e (the (header_token7 rq)) = Decoded i \<Longrightarrow>
   fst (canUseDB7 st) \<noteq> NoDb \<Longrightarrow> lookup7 st i = Some u \<Longrightarrow> isActive u \<Longrightarrow>
   protect7 e rq st = Granted u (fst (canUseDB7 st))"
  by (auto simp: protect7_def lookup7_def canUseDB7_def Let_def split: option.splits if_splits)

lemma errorHandler_status: "status (errorHandler e err) = 500"
  by (simp add: errorHandler_def reply_def)

text \<open>
  Claim C1, as amended.  Day 6: a request without a token in the Authorization header,
  with a token that \<^verbatim>\<open>jwt.verify\<close> rejects, or with a token whose user id the backend
  in use does not know is answered with status 401 and the route handler is not run;
  otherwise the handler runs with the user found attached.  Day 7: a request without a
  Bearer token, with a token rejected as malformed or expired, or with a token whose user
  id resolves to no user or to a deactivated one is answered with status 401; a token
  rejected with any other error is answered by the global error handler with status 500;
  a token that verifies while neither database is available is answered with status 500
  (\<^verbatim>\<open>Database not available.\<close>); in none of these cases the handler runs.  Otherwise
  the handler runs with the active user and the database type attached.
\<close>

theorem protect_gate:
  "(falsy (header_token6 rq) \<or> (\<exists>err. jwt_verify e (the (header_token6 rq)) = Thrown err) \<or>
      (\<exists>i. jwt_verify e (the (header_token6 rq)) = Decoded i \<and> lookup6 s6 i = None)
    \<longrightarrow> (\<exists>msg. protect6 e rq s6 = Refused (failure 401 msg) \<and>
                protected6 e h6 rq s6 = (failure 401 msg, s6))) \<and>
   (\<not> falsy (header_token6 rq) \<and> jwt_verify e (the (header_token6 rq)) = Decoded i6 \<and>
      lookup6 s6 i6 = Some u6
    \<longrightarrow> (\<exists>t. protect6 e rq s6 = Granted u6 t) \<and> protected6 e h6 rq s6 = h6 u6 rq s6) \<and>
   (falsy (header_token7 rq) \<or>
      (\<exists>err. jwt_verify e (the (header_token7 rq)) = Thrown err \<and> jwt_error err) \<or>
      (\<exists>i. jwt_verify e (the (header_token7 rq)) = Decoded i \<and> fst (canUseDB7 s7) \<noteq> NoDb \<and>
           (case lookup7 s7 i of None \<Rightarrow> True | Some u \<Rightarrow> \<not> isActive u))
    \<longrightarrow> (\<exists>msg. protect7 e rq s7 = Refused (failure 401 msg) \<and>
                protected7 e h7 rq s7 = (failure 401 msg, s7))) \<and>
   (\<not> falsy (header_token7 rq) \<and> jwt_verify e (the (header_token7 rq)) = Thrown err7 \<and>
      \<not> jwt_error err7
    \<longrightarrow> protect7 e rq s7 = Refused (errorHandler e err7) \<and>
        protected7 e h7 rq s7 = (errorHandler e err7, s7) \<and> status (errorHandler e err7) = 500) \<and>
   (\<not> falsy (header_token7 rq) \<and> jwt_verify e (the (header_token7 rq)) = Decoded i7 \<and>
      fst (canUseDB7 s7) = NoDb
    \<longrightarrow> protect7 e rq s7 = Refused (failure 500 ''Database not available.'') \<and>
        protected7 e h7 rq s7 = (failure 500 ''Database not available.'', s7)) \<and>
   (\<not> falsy (header_token7 rq) \<and> jwt_verify e (the (header_token7 rq)) = Decoded i7 \<and>
      fst (canUseDB7 s7) \<noteq> NoDb \<and> lookup7 s7 i7 = Some u7 \<and> isActive u7
    \<longrightarrow> protect7 e rq s7 = Granted u7 (fst (canUseDB7 s7)) \<and>
        protected7 e h7 rq s7 = h7 u7 (fst (canUseDB7 s7)) rq s7)"
proof (intro conjI impI)
  assume "falsy (header_token6 rq) \<or> (\<exists>err. jwt_verify e (the (header_token6 rq)) = Thrown err) \<or>
      (\<exists>i. jwt_verify e (the (header_token6 rq)) = Decoded i \<and> lookup6 s6 i = None)"
  then obtain msg where "protect6 e rq s6 = Refused (failure 401 msg)"
    using protect6_no_token protect6_thrown protect6_unknown by blast
  then show "\<exists>msg. protect6 e rq s6 = Refused (failure 401 msg) \<and>
                protected6 e h6 rq s6 = (failure 401 msg, s6)"
    using protected6_refused by blast
next
  assume a: "\<not> falsy (header_token6 rq) \<and> jwt_verify e (the (header_token6 rq)) = Decoded i6 \<and>
      lookup6 s6 i6 = Some u6"
  then show "\<exists>t. protect6 e rq s6 = Granted u6 t" using protect6_known by blast
  then show "protected6 e h6 rq s6 = h6 u6 rq s6" using protected6_granted by blast
next
  assume "falsy (header_token7 rq) \<or>
      (\<exists>err. jwt_verify e (the (header_token7 rq)) = Thrown err \<and> jwt_error err) \<or>
      (\<exists>i. jwt_verify e (the (header_token7 rq)) = Decoded i \<and> fst (canUseDB7 s7) \<noteq> NoDb \<and>
           (case lookup7 s7 i of None \<Rightarrow> True | Some u \<Rightarrow> \<not> isActive u))"
  then obtain msg where "protect7 e rq s7 = Refused (failure 401 msg)"
    using protect7_no_token protect7_jwt_error protect7_unknown by blast
  then show "\<exists>msg. protect7 e rq s7 = Refused (failure 401 msg) \<and>
                protected7 e h7 rq s7 = (failure 401 msg, s7)"
    using protected7_refused by blast
next
  assume a: "\<not> falsy (header_token7 rq) \<and> jwt_verify e (the (header_token7 rq)) = Thrown err7 \<and>
      \<not> jwt_error err7"
  then show r: "protect7 e rq s7 = Refused (errorHandler e err7)"
    using protect7_other_error by blast
  then show "protected7 e h7 rq s7 = (errorHandler e err7, s7)" by (rule protected7_refused)
  show "status (errorHandler e err7) = 500" by (rule errorHandler_status)
next
  assume a: "\<not> falsy (header_token7 rq) \<and> jwt_verify e (the (header_token7 rq)) = Decoded i7 \<and>
      fst (canUseDB7 s7) = NoDb"
  then show r: "protect7 e rq s7 = Refused (failure 500 ''Database not available.'')"
    using protect7_no_db by blast
  then show "protected7 e h7 rq s7 = (failure 500 ''Database not available.'', s7)"
    by (rule protected7_refused)
next
  assume a: "\<not> falsy (header_token7 rq) \<and> jwt_verify e (the (header_token7 rq)) = Decoded i7 \<and>
      fst (canUseDB7 s7) \<noteq> NoDb \<and> lookup7 s7 i7 = Some u7 \<and> isActive u7"
  then show r: "protect7 e rq s7 = Granted u7 (fst (canUseDB7 s7))"
    using protect7_known by blast
  then show "protected7 e h7 rq s7 = h7 u7 (fst (canUseDB7 s7)) rq s7"
    by (rule protected7_granted)
qed


theorem protect_gate_witness:
  "protect6 sample_env blank_request \<lparr>mongo_ready6 = False, mongo6 = empty_db, memory = alice_db\<rparr>
     = Refused (failure 401 ''Not authorized, no token provided'') \<and>
   protected6 sample_env my_todos6 (blank_request\<lparr>authorization := Some ''Bearer jwtx''\<rparr>)
       \<lparr>mongo_ready6 = False, mongo6 = empty_db, memory = alice_db\<rparr>
     = my_todos6 alice (blank_request\<lparr>authorization := Some ''Bearer jwtx''\<rparr>)
         \<lparr>mongo_ready6 = False, mongo6 = empty_db, memory = alice_db\<rparr> \<and>
   protect7 sample_env (blank_request\<lparr>authorization := Some ''Bearer junk''\<rparr>)
       \<lparr>mongo_ready7 = False, mongo7 = empty_db, sqliteDB = Some alice_db\<rparr>
     = Refused (failure 401 ''Invalid token.'') \<and>
   status (fst (protected7 sample_env (profile7 sample_env)
                  (blank_request\<lparr>authorization := Some ''Bearer early''\<rparr>)
                  \<lparr>mongo_ready7 = False, mongo7 = empty_db, sqliteDB = Some alice_db\<rparr>)) = 500 \<and>
   protected7 sample_env (profile7 sample_env)
       (blank_request\<lparr>authorization := Some ''Bearer jwtx''\<rparr>)
       \<lparr>mongo_ready7 = False, mongo7 = alice_db, sqliteDB = None\<rparr>
     = (failure 500 ''Database not available.'',
        \<lparr>mongo_ready7 = False, mongo7 = alice_db, sqliteDB = None\<rparr>) \<and>
   protected7 sample_env (profile7 sample_env)
       (blank_request\<lparr>authorization := Some ''Bearer jwtx''\<rparr>)
       \<lparr>mongo_ready7 = False, mongo7 = empty_db, sqliteDB = Some alice_db\<rparr>
     = profile7 sample_env alice Sqlite (blank_request\<lparr>authorization := Some ''Bearer jwtx''\<rparr>)
         \<lparr>mongo_ready7 = False, mongo7 = empty_db, sqliteDB = Some alice_db\<rparr>"
  using
    protect_gate
      [of blank_request sample_env
          "\<lparr>mongo_ready6 = False, mongo6 = empty_db, memory = alice_db\<rparr>" my_todos6 1 alice
          "\<lparr>mongo_ready7 = False, mongo7 = empty_db, sqliteDB = Some alice_db\<rparr>"
          "profile7 sample_env"]
    protect_gate
      [of "blank_request\<lparr>authorization := Some ''Bearer jwtx''\<rparr>" sample_env
          "\<lparr>mongo_ready6 = False, mongo6 = empty_db, memory = alice_db\<rparr>" my_todos6 1 alice
          "\<lparr>mongo_ready7 = False, mongo7 = empty_db, sqliteDB = Some alice_db\<rparr>"
          "profile7 sample_env" _ 1 alice]
    protect_gate
      [of "blank_request\<lparr>authorization := Some ''Bearer jwtx''\<rparr>" sample_env
          "\<lparr>mongo_ready6 = False, mongo6 = empty_db, memory = alice_db\<rparr>" my_todos6 1 alice
          "\<lparr>mongo_ready7 = False, mongo7 = alice_db, sqliteDB = None\<rparr>"
          "profile7 sample_env" _ 1 alice]
    protect_gate
      [of "blank_request\<lparr>authorization := Some ''Bearer junk''\<rparr>" sample_env
          "\<lparr>mongo_ready6 = False, mongo6 = empty_db, memory = alice_db\<rparr>" my_todos6 1 alice
          "\<lparr>mongo_ready7 = False, mongo7 = empty_db, sqliteDB = Some alice_db\<rparr>"
          "profile7 sample_env"]
    protect_gate
      [of "blank_request\<lparr>authorization := Some ''Bearer early''\<rparr>" sample_env
          "\<lparr>mongo_ready6 = False, mongo6 = empty_db, memory = alice_db\<rparr>" my_todos6 1 alice
          "\<lparr>mongo_ready7 = False, mongo7 = empty_db, sqliteDB = Some alice_db\<rparr>"
          "profile7 sample_env"
          "\<lparr>err_name = ''NotBeforeError'', err_message = ''jwt not active'',
            err_stack = ''NotBeforeError: jwt not active''\<rparr>"]
  by (simp add: blank_request_def header_token6_def header_token7_def falsy_def sample_env_def
        sample_verify_def lookup6_def lookup7_def canUseDB7_def jwt_error_def
        memory_findUserById_def sqlite_findUserById_def alice_db_def alice_def
        protect6_def protect7_def)

text \<open>
  The claim promises status 401 whenever the token does not verify or its user id
  resolves to no existing user.  With a valid token for a user that no backend holds, and
  no database available, the Day 7 middleware answers 500; so it does for a token that
  is rejected as not yet valid.
\<close>

theorem protect7_status_counterexample:
  "users (mongo7 \<lparr>mongo_ready7 = False, mongo7 = empty_db, sqliteDB = None\<rparr>) = [] \<and>
   sample_verify ''jwtx'' = Decoded 1 \<and>
   protect7 sample_env (blank_request\<lparr>authorization := Some ''Bearer jwtx''\<rparr>)
       \<lparr>mongo_ready7 = False, mongo7 = empty_db, sqliteDB = None\<rparr>
     = Refused (failure 500 ''Database not available.'') \<and>
   status (failure 500 ''Database not available.'') \<noteq> 401 \<and>
   (case protect7 sample_env (blank_request\<lparr>authorization := Some ''Bearer early''\<rparr>)
           \<lparr>mongo_ready7 = False, mongo7 = empty_db, sqliteDB = Some alice_db\<rparr> of
      Refused r \<Rightarrow> status r = 500 | Granted u t \<Rightarrow> False)"
  by (simp add: blank_request_def header_token7_def falsy_def sample_env_def sample_verify_def
        canUseDB7_def protect7_def empty_db_def failure_def reply_def errorHandler_def)

subsection \<open>Updating a todo\<close>

lemma update_first_nth:
  "find P xs = Some x \<Longrightarrow>
   \<exists>k < length xs. xs ! k = x \<and> (\<forall>j < k. \<not> P (xs ! j)) \<and> update_first P f xs = xs[k := f x]"
proof (induction xs)
  case Nil
  then show ?case by simp
next
  case (Cons y ys)
  show ?case
  proof (cases "P y")
    case True
    with Cons.prems have "y = x" by simp
    with True show ?thesis by (intro exI[of _ 0]) simp
  next
    case False
    with Cons.prems have "find P ys = Some x" by simp
    from Cons.IH[OF this] obtain k where k: "k < length ys" "ys ! k = x"
      "\<forall>j < k. \<not> P (ys ! j)" "update_first P f ys = ys[k := f x]" by blast
    have "\<forall>j < Suc k. \<not> P ((y # ys) ! j)"
      using False k(3) by (simp add: nth_Cons split: nat.splits)
    with False k show ?thesis by (intro exI[of _ "Suc k"]) simp
  qed
qed

lemma apply_updates6: "apply_updates (updates6 rq) (now rq) x = partial_replace6 rq x"
  by (simp add: apply_updates_def updates6_def partial_replace6_def split: option.splits)

lemma apply_updates7_mongo:
  "apply_updates (updates7_mongo e rq) (now rq) x = partial_replace7 e True rq x"
  by (simp add: apply_updates_def updates7_mongo_def partial_replace7_def split: option.splits)

lemma apply_updates7_sqlite:
  "partial_replace7 e False rq x = apply_updates (updates7_sqlite rq) (now rq) x"
  by (simp add: apply_updates_def updates7_sqlite_def partial_replace7_def split: option.splits)

lemma update6_memory:
  assumes "\<not> mongo_ready6 st"
    and "find (owned_by (param_id rq) (uid u)) (todos (memory st)) = Some x"
  shows "\<exists>k < length (todos (memory st)). todos (memory st) ! k = x \<and>
           snd (update_todo6 u rq st)
             = st\<lparr>memory := (memory st)\<lparr>todos := (todos (memory st))[k := partial_replace6 rq x]\<rparr>\<rparr>"
proof -
  from update_first_nth[OF assms(2), of "apply_updates (updates6 rq) (now rq)"]
  obtain k where k: "k < length (todos (memory st))" "todos (memory st) ! k = x"
    "update_first (owned_by (param_id rq) (uid u)) (apply_updates (updates6 rq) (now rq))
       (todos (memory st)) = (todos (memory st))[k := apply_updates (updates6 rq) (now rq) x]"
    by blast
  have "snd (update_todo6 u rq st)
      = st\<lparr>memory := (memory st)\<lparr>todos := (todos (memory st))[k := partial_replace6 rq x]\<rparr>\<rparr>"
    using assms k(3) unfolding owned_by_def
    by (simp add: update_todo6_def canUseDB6_def apply_updates6)
  with k show ?thesis by blast
qed


lemma update6_mongo:
  assumes "mongo_ready6 st"
    and "find (owned_by (param_id rq) (uid u)) (todos (mongo6 st)) = Some x"
    and "updates_valid False (updates6 rq)"
  shows "\<exists>k < length (todos (mongo6 st)). todos (mongo6 st) ! k = x \<and>
           snd (update_todo6 u rq st)
             = st\<lparr>mongo6 := (mongo6 st)\<lparr>todos := (todos (mongo6 st))[k := partial_replace6 rq x]\<rparr>\<rparr>"
proof -
  from update_first_nth[OF assms(2), of "apply_updates (updates6 rq) (now rq)"]
  obtain k where k: "k < length (todos (mongo6 st))" "todos (mongo6 st) ! k = x"
    "update_first (owned_by (param_id rq) (uid u)) (apply_updates (updates6 rq) (now rq))
       (todos (mongo6 st)) = (todos (mongo6 st))[k := apply_updates (updates6 rq) (now rq) x]"
    by blast
  have "snd (update_todo6 u rq st)
      = st\<lparr>mongo6 := (mongo6 st)\<lparr>todos := (todos (mongo6 st))[k := partial_replace6 rq x]\<rparr>\<rparr>"
    using assms k(3) unfolding owned_by_def
    by (simp add: update_todo6_def canUseDB6_def mongo_findOneAndUpdate_def apply_updates6)
  with k show ?thesis by blast
qed

lemma update7_mongo:
  assumes "\<not> update_rejected rq"
    and "find (owned_by (param_id rq) (uid u)) (todos (mongo7 st)) = Some x"
    and "updates_valid True (updates7_mongo e rq)"
  shows "\<exists>k < length (todos (mongo7 st)). todos (mongo7 st) ! k = x \<and>
           snd (update_todo7 e u Mongodb rq st)
             = st\<lparr>mongo7 := (mongo7 st)\<lparr>todos :=
                    (todos (mongo7 st))[k := partial_replace7 e True rq x]\<rparr>\<rparr>"
proof -
  from update_first_nth[OF assms(2), of "apply_updates (updates7_mongo e rq) (now rq)"]
  obtain k where k: "k < length (todos (mongo7 st))" "todos (mongo7 st) ! k = x"
    "update_first (owned_by (param_id rq) (uid u)) (apply_updates (updates7_mongo e rq) (now rq))
       (todos (mongo7 st))
     = (todos (mongo7 st))[k := apply_updates (updates7_mongo e rq) (now rq) x]"
    by blast
  have "snd (update_todo7 e u Mongodb rq st)
      = st\<lparr>mongo7 := (mongo7 st)\<lparr>todos :=
             (todos (mongo7 st))[k := partial_replace7 e True rq x]\<rparr>\<rparr>"
    using assms k(3) unfolding owned_by_def
    by (simp add: update_todo7_def mongo_findOneAndUpdate_def apply_updates7_mongo)
  with k show ?thesis by blast
qed

lemma update7_sqlite:
  assumes "\<not> update_rejected rq" and "t \<noteq> Mongodb" and "sqliteDB st = Some d"
  shows "snd (update_todo7 e u t rq st)
           = st\<lparr>sqliteDB := Some (d\<lparr>todos :=
                  map (\<lambda>y. if owned_by (param_id rq) (uid u) y then partial_replace7 e False rq y
                           else y) (todos d)\<rparr>)\<rparr>"
  using assms
  by (simp add: update_todo7_def sqlite_updateTodo_def update_where_def owned_by_def Let_def
        apply_updates7_sqlite cong: if_cong)

lemma update7_rejected:
  "update_rejected rq \<Longrightarrow>
   update_todo7 e u t rq st = (Some (failure 400 ''Task must be at least 3 characters.''), st)"
  by (simp add: update_todo7_def)

lemma serve6_update:
  "protect6 e rq st = Granted u t \<Longrightarrow> serve6 e UpdateTodo6 rq st = update_todo6 u rq st"
  by (simp add: serve6_def protected6_def)

lemma serve7_update:
  "protect7 e rq st = Granted u t \<Longrightarrow> serve7 e UpdateTodo7 rq st = update_todo7 e u t rq st"
  by (simp add: serve7_def)

text \<open>
  Claim C5, as amended.  A \<^verbatim>\<open>PUT /api/todos/:id\<close> request that passed \<^verbatim>\<open>protect\<close> is
  handled for the authenticated user.  On Day 6 (in-memory list, or MongoDB when the
  values pass the schema validators) the owner's todo with that id is replaced by
  \<open>partial_replace6\<close> of it: task (trimmed), completed and priority are replaced when the
  body carries them, \<^verbatim>\<open>updatedAt\<close> is refreshed, every other field keeps its value; the
  description, due date and tags are not read.  On Day 7, unless the body carries a
  non-empty task shorter than 3 characters once trimmed, every todo with that id and
  owner is replaced by \<open>partial_replace7\<close> of it (strings trimmed; MongoDB only when the
  values pass the schema validators).  In each case every other todo, every user and
  every other part of the state is unchanged.  A Day 7 request with too short a task is
  answered with status 400 and changes nothing.
\<close>

theorem todo_update_frame:
  "(protect6 e rq s6 = Granted u t6 \<longrightarrow> serve6 e UpdateTodo6 rq s6 = update_todo6 u rq s6) \<and>
   (protect7 e rq s7 = Granted u t7 \<longrightarrow> serve7 e UpdateTodo7 rq s7 = update_todo7 e u t7 rq s7) \<and>
   (\<not> mongo_ready6 s6 \<and> find (owned_by (param_id rq) (uid u)) (todos (memory s6)) = Some x
    \<longrightarrow> (\<exists>k < length (todos (memory s6)). todos (memory s6) ! k = x \<and>
           snd (update_todo6 u rq s6)
             = s6\<lparr>memory := (memory s6)\<lparr>todos :=
                    (todos (memory s6))[k := partial_replace6 rq x]\<rparr>\<rparr>)) \<and>
   (mongo_ready6 s6 \<and> find (owned_by (param_id rq) (uid u)) (todos (mongo6 s6)) = Some x \<and>
      updates_valid False (updates6 rq)
    \<longrightarrow> (\<exists>k < length (todos (mongo6 s6)). todos (mongo6 s6) ! k = x \<and>
           snd (update_todo6 u rq s6)
             = s6\<lparr>mongo6 := (mongo6 s6)\<lparr>todos :=
                    (todos (mongo6 s6))[k := partial_replace6 rq x]\<rparr>\<rparr>)) \<and>
   (\<not> update_rejected rq \<and> t7 \<noteq> Mongodb \<and> sqliteDB s7 = Some d
    \<longrightarrow> snd (update_todo7 e u t7 rq s7)
          = s7\<lparr>sqliteDB := Some (d\<lparr>todos :=
                 map (\<lambda>y. if owned_by (param_id rq) (uid u) y then partial_replace7 e False rq y
                          else y) (todos d)\<rparr>)\<rparr>) \<and>
   (\<not> update_rejected rq \<and> find (owned_by (param_id rq) (uid u)) (todos (mongo7 s7)) = Some x \<and>
      updates_valid True (updates7_mongo e rq)
    \<longrightarrow> (\<exists>k < length (todos (mongo7 s7)). todos (mongo7 s7) ! k = x \<and>
           snd (update_todo7 e u Mongodb rq s7)
             = s7\<lparr>mongo7 := (mongo7 s7)\<lparr>todos :=
                    (todos (mongo7 s7))[k := partial_replace7 e True rq x]\<rparr>\<rparr>)) \<and>
   (update_rejected rq
    \<longrightarrow> update_todo7 e u t7 rq s7
          = (Some (failure 400 ''Task must be at least 3 characters.''), s7))"
proof (intro conjI impI)
  show "serve6 e UpdateTodo6 rq s6 = update_todo6 u rq s6" if "protect6 e rq s6 = Granted u t6"
    using that by (rule serve6_update)
  show "serve7 e UpdateTodo7 rq s7 = update_todo7 e u t7 rq s7" if "protect7 e rq s7 = Granted u t7"
    using that by (rule serve7_update)
  show "\<exists>k < length (todos (memory s6)). todos (memory s6) ! k = x \<and>
           snd (update_todo6 u rq s6)
             = s6\<lparr>memory := (memory s6)\<lparr>todos :=
                    (todos (memory s6))[k := partial_replace6 rq x]\<rparr>\<rparr>"
    if "\<not> mongo_ready6 s6 \<and> find (owned_by (param_id rq) (uid u)) (todos (memory s6)) = Some x"
    using that by (elim conjE) (rule update6_memory)
  show "\<exists>k < length (todos (mongo6 s6)). todos (mongo6 s6) ! k = x \<and>
           snd (update_todo6 u rq s6)
             = s6\<lparr>mongo6 := (mongo6 s6)\<lparr>todos :=
                    (todos (mongo6 s6))[k := partial_replace6 rq x]\<rparr>\<rparr>"
    if "mongo_ready6 s6 \<and> find (owned_by (param_id rq) (uid u)) (todos (mongo6 s6)) = Some x \<and>
      updates_valid False (updates6 rq)"
    using that by (elim conjE) (rule update6_mongo)
  show "snd (update_todo7 e u t7 rq s7)
          = s7\<lparr>sqliteDB := Some (d\<lparr>todos :=
                 map (\<lambda>y. if owned_by (param_id rq) (uid u) y then partial_replace7 e False rq y
                          else y) (todos d)\<rparr>)\<rparr>"
    if "\<not> update_rejected rq \<and> t7 \<noteq> Mongodb \<and> sqliteDB s7 = Some d"
    using that by (elim conjE) (rule update7_sqlite)
  show "\<exists>k < length (todos (mongo7 s7)). todos (mongo7 s7) ! k = x \<and>
           snd (update_todo7 e u Mongodb rq s7)
             = s7\<lparr>mongo7 := (mongo7 s7)\<lparr>todos :=
                    (todos (mongo7 s7))[k := partial_replace7 e True rq x]\<rparr>\<rparr>"
    if "\<not> update_rejected rq \<and> find (owned_by (param_id rq) (uid u)) (todos (mongo7 s7)) = Some x \<and>
      updates_valid True (updates7_mongo e rq)"
    using that by (elim conjE) (rule update7_mongo)
  show "update_todo7 e u t7 rq s7
          = (Some (failure 400 ''Task must be at least 3 characters.''), s7)"
    if "update_rejected rq"
    using that by (rule update7_rejected)
qed


lemmas sample_defs =
  blank_request_def put_request_def header_token6_def header_token7_def falsy_def
  sample_env_def sample_verify_def canUseDB6_def canUseDB7_def memory_findUserById_def
  sqlite_findUserById_def mongo_findUserById_def alice_db_def alice_def empty_db_def
  milk_db_def milk_def trim_def is_ws_def ws_chars_def

theorem todo_update_frame_witness:
  "todos (memory (snd (serve6 sample_env UpdateTodo6 (put_request '' Buy oat milk '')
                    \<lparr>mongo_ready6 = False, mongo6 = empty_db, memory = milk_db\<rparr>)))
     = [milk\<lparr>task := ''Buy oat milk'', completed := True, updatedAt := Some 100\<rparr>] \<and>
   todos (mongo6 (snd (serve6 sample_env UpdateTodo6 (put_request '' Buy oat milk '')
                    \<lparr>mongo_ready6 = True, mongo6 = milk_db, memory = empty_db\<rparr>)))
     = [milk\<lparr>task := ''Buy oat milk'', completed := True, updatedAt := Some 100\<rparr>] \<and>
   snd (serve7 sample_env UpdateTodo7 (put_request '' Buy oat milk '')
          \<lparr>mongo_ready7 = False, mongo7 = empty_db, sqliteDB = Some milk_db\<rparr>)
     = \<lparr>mongo_ready7 = False, mongo7 = empty_db,
        sqliteDB = Some (milk_db\<lparr>todos :=
           [milk\<lparr>task := ''Buy oat milk'', completed := True, updatedAt := Some 100\<rparr>]\<rparr>)\<rparr> \<and>
   todos (mongo7 (snd (serve7 sample_env UpdateTodo7 (put_request '' Buy oat milk '')
                    \<lparr>mongo_ready7 = True, mongo7 = milk_db, sqliteDB = None\<rparr>)))
     = [milk\<lparr>task := ''Buy oat milk'', completed := True, updatedAt := Some 100\<rparr>] \<and>
   serve7 sample_env UpdateTodo7 (put_request ''ab'')
       \<lparr>mongo_ready7 = False, mongo7 = empty_db, sqliteDB = Some milk_db\<rparr>
     = (Some (failure 400 ''Task must be at least 3 characters.''),
        \<lparr>mongo_ready7 = False, mongo7 = empty_db, sqliteDB = Some milk_db\<rparr>)"
proof -
  let ?rq = "put_request '' Buy oat milk ''"
  let ?m6 = "\<lparr>mongo_ready6 = False, mongo6 = empty_db, memory = milk_db\<rparr>"
  let ?g6 = "\<lparr>mongo_ready6 = True, mongo6 = milk_db, memory = empty_db\<rparr>"
  let ?q7 = "\<lparr>mongo_ready7 = False, mongo7 = empty_db, sqliteDB = Some milk_db\<rparr>"
  let ?g7 = "\<lparr>mongo_ready7 = True, mongo7 = milk_db, sqliteDB = None\<rparr>"
  have p6: "protect6 sample_env ?rq ?m6 = Granted alice NoDb"
    "protect6 sample_env ?rq ?g6 = Granted alice Mongodb"
    by (simp_all add: protect6_def sample_defs)
  have p7: "protect7 sample_env ?rq ?q7 = Granted alice Sqlite"
    "protect7 sample_env ?rq ?g7 = Granted alice Mongodb"
    "protect7 sample_env (put_request ''ab'') ?q7 = Granted alice Sqlite"
    by (simp_all add: protect7_def sample_defs)
  have f: "find (owned_by (param_id ?rq) (uid alice)) [milk] = Some milk"
    by (simp add: owned_by_def sample_defs)
  have v: "updates_valid False (updates6 ?rq)" "updates_valid True (updates7_mongo sample_env ?rq)"
    "\<not> update_rejected ?rq" "update_rejected (put_request ''ab'')"
    by (simp_all add: updates_valid_def updates6_def updates7_mongo_def update_rejected_def
          sample_defs)
  have r6: "partial_replace6 ?rq milk
      = milk\<lparr>task := ''Buy oat milk'', completed := True, updatedAt := Some 100\<rparr>"
    by (simp add: partial_replace6_def sample_defs)
  have r7: "partial_replace7 sample_env b ?rq milk
      = milk\<lparr>task := ''Buy oat milk'', completed := True, updatedAt := Some 100\<rparr>" for b
    by (simp add: partial_replace7_def sample_defs)
  note a = todo_update_frame[of sample_env ?rq ?m6 alice NoDb ?q7 Sqlite milk milk_db]
  note b = todo_update_frame[of sample_env ?rq ?g6 alice Mongodb ?g7 Mongodb milk milk_db]
  note c = todo_update_frame[of sample_env "put_request ''ab''" ?m6 alice NoDb ?q7 Sqlite milk milk_db]
  have 1: "todos (memory (snd (serve6 sample_env UpdateTodo6 ?rq ?m6)))
      = [milk\<lparr>task := ''Buy oat milk'', completed := True, updatedAt := Some 100\<rparr>]"
    using a p6 f r6 by (auto simp: milk_db_def)
  have 2: "todos (mongo6 (snd (serve6 sample_env UpdateTodo6 ?rq ?g6)))
      = [milk\<lparr>task := ''Buy oat milk'', completed := True, updatedAt := Some 100\<rparr>]"
    using b p6 f v r6 by (auto simp: milk_db_def)
  have 3: "snd (serve7 sample_env UpdateTodo7 ?rq ?q7)
      = \<lparr>mongo_ready7 = False, mongo7 = empty_db,
         sqliteDB = Some (milk_db\<lparr>todos :=
            [milk\<lparr>task := ''Buy oat milk'', completed := True, updatedAt := Some 100\<rparr>]\<rparr>)\<rparr>"
    using a p7 f v r7 by (auto simp: milk_db_def)
  have 4: "todos (mongo7 (snd (serve7 sample_env UpdateTodo7 ?rq ?g7)))
      = [milk\<lparr>task := ''Buy oat milk'', completed := True, updatedAt := Some 100\<rparr>]"
    using b p7 f v r7 by (auto simp: milk_db_def)
  have 5: "serve7 sample_env UpdateTodo7 (put_request ''ab'') ?q7
      = (Some (failure 400 ''Task must be at least 3 characters.''), ?q7)"
    using c p7 v by simp
  from 1 2 3 4 5 show ?thesis by blast
qed

text \<open>
  The claim lets every update by the owner replace the fields of the body.  An update
  whose task is too short is refused by the Day 7 handler and replaces nothing.
\<close>

theorem todo_update_counterexample:
  "protect7 sample_env (put_request ''ab'')
       \<lparr>mongo_ready7 = False, mongo7 = empty_db, sqliteDB = Some milk_db\<rparr>
     = Granted alice Sqlite \<and>
   owner milk = Some (uid alice) \<and> tid milk = param_id (put_request ''ab'') \<and>
   b_task (put_request ''ab'') = Some ''ab'' \<and>
   serve7 sample_env UpdateTodo7 (put_request ''ab'')
       \<lparr>mongo_ready7 = False, mongo7 = empty_db, sqliteDB = Some milk_db\<rparr>
     = (Some (failure 400 ''Task must be at least 3 characters.''),
        \<lparr>mongo_ready7 = False, mongo7 = empty_db, sqliteDB = Some milk_db\<rparr>) \<and>
   map task (todos milk_db) = [''Buy milk'']"
  by (simp add: serve7_def protect7_def update_todo7_def update_rejected_def sample_defs)

subsection \<open>Invariants of the stores\<close>

lemma find_None_email: "find (\<lambda>u. email u = em) us = None \<Longrightarrow> em \<notin> email ` set us"
  by (auto simp: find_None_iff)

lemma set_update_first: "set (update_first P f xs) \<subseteq> set xs \<union> f ` {x \<in> set xs. P x}"
  by (induction xs) auto

lemma set_update_where: "set (update_where P f xs) \<subseteq> set xs \<union> f ` {x \<in> set xs. P x}"
  by (auto simp: update_where_def)

lemma set_remove_first: "set (remove_first P xs) \<subseteq> set xs"
  by (induction xs) auto

lemma map_update_first: "(\<And>x. g (f x) = g x) \<Longrightarrow> map g (update_first P f xs) = map g xs"
  by (induction xs) auto

lemma map_update_where: "(\<And>x. g (f x) = g x) \<Longrightarrow> map g (update_where P f xs) = map g xs"
  by (simp add: update_where_def)

lemma db_ok_add_user:
  assumes "db_ok s d" and "email u \<notin> email ` set (users d)" and "isActive u"
  shows "db_ok s (d\<lparr>users := users d @ [u], next_uid := n\<rparr>)"
proof -
  have "t \<in> set s \<or> (\<exists>v \<in> set (users d @ [u]). owner t = Some (uid v))"
    if "t \<in> set (todos d)" for t
    using that assms(1) by (fastforce simp: db_ok_def)
  then show ?thesis using assms by (simp add: db_ok_def)
qed

lemma db_ok_same_accounts:
  assumes "db_ok s d" and "map uid us' = map uid (users d)" and "map email us' = map email (users d)"
    and "map isActive us' = map isActive (users d)"
  shows "db_ok s (d\<lparr>users := us'\<rparr>)"
proof -
  have i: "uid ` set us' = uid ` set (users d)" using assms(2) by (metis set_map)
  have a: "isActive ` set us' = isActive ` set (users d)" using assms(4) by (metis set_map)
  have 1: "distinct (map email us')" using assms(1,3) by (simp add: db_ok_def)
  have 2: "\<forall>u \<in> set us'. isActive u" using a assms(1) by (auto simp: db_ok_def)
  have 3: "t \<in> set s \<or> (\<exists>u \<in> set us'. owner t = Some (uid u))" if "t \<in> set (todos d)" for t
  proof (cases "t \<in> set s")
    case False
    with that assms(1) obtain u where "u \<in> set (users d)" "owner t = Some (uid u)"
      by (auto simp: db_ok_def)
    then have "uid u \<in> uid ` set us'" using i by blast
    then obtain v where v: "v \<in> set us'" "uid v = uid u" by auto
    with \<open>owner t = Some (uid u)\<close> have "owner t = Some (uid v)" by simp
    with v(1) show ?thesis by blast
  qed simp
  from 1 2 3 show ?thesis by (simp add: db_ok_def)
qed

lemma db_ok_touch_where:
  assumes "db_ok s d" and "\<And>u. uid (f u) = uid u" "\<And>u. email (f u) = email u"
    "\<And>u. isActive (f u) = isActive u"
  shows "db_ok s (d\<lparr>users := update_where P f (users d)\<rparr>)"
  using assms by (intro db_ok_same_accounts) (simp_all add: map_update_where)

lemma db_ok_touch_first:
  assumes "db_ok s d" and "\<And>u. uid (f u) = uid u" "\<And>u. email (f u) = email u"
    "\<And>u. isActive (f u) = isActive u"
  shows "db_ok s (d\<lparr>users := update_first P f (users d)\<rparr>)"
  using assms by (intro db_ok_same_accounts) (simp_all add: map_update_first)

lemma db_ok_add_todo:
  assumes "db_ok s d" and "u \<in> set (users d)" and "owner t = Some (uid u)"
  shows "db_ok s (d\<lparr>todos := todos d @ [t], next_tid := n\<rparr>)"
  using assms by (fastforce simp: db_ok_def)

lemma db_ok_change_todos:
  assumes "db_ok s d" and "\<And>x. owner (f x) = owner x" and "\<And>x. x \<in> set s \<Longrightarrow> \<not> P x"
    and "set ts' \<subseteq> set (todos d) \<union> f ` {x \<in> set (todos d). P x}"
  shows "db_ok s (d\<lparr>todos := ts'\<rparr>)"
  unfolding db_ok_def
proof (intro conjI ballI)
  show "distinct (map email (users (d\<lparr>todos := ts'\<rparr>)))" using assms(1) by (simp add: db_ok_def)
  show "isActive u" if "u \<in> set (users (d\<lparr>todos := ts'\<rparr>))" for u
    using that assms(1) by (simp add: db_ok_def)
  show "t \<in> set s \<or> (\<exists>u\<in>set (users (d\<lparr>todos := ts'\<rparr>)). owner t = Some (uid u))"
    if "t \<in> set (todos (d\<lparr>todos := ts'\<rparr>))" for t
  proof -
    from that assms(4) consider "t \<in> set (todos d)" | x where "x \<in> set (todos d)" "P x" "t = f x"
      by auto
    then show ?thesis
    proof cases
      case 1
      then show ?thesis using assms(1) by (simp add: db_ok_def)
    next
      case 2
      then have "x \<notin> set s" using assms(3) by blast
      with 2 assms(1) obtain u where "u \<in> set (users d)" "owner x = Some (uid u)"
        by (auto simp: db_ok_def)
      with 2 assms(2) show ?thesis by auto
    qed
  qed
qed

lemma owner_apply_updates: "owner (apply_updates up t x) = owner x"
  by (simp add: apply_updates_def)

lemma seeds_unowned: "x \<in> set memoryTodos \<Longrightarrow> owner x = None"
  by (auto simp: memoryTodos_def seed_todo_def)

lemma mongo_createUser_result:
  "mongo_createUser a b nm em h t d = Inr (u, d') \<Longrightarrow>
   d' = d\<lparr>users := users d @ [u], next_uid := Suc (next_uid d)\<rparr> \<and>
   email u = mongo_email_setter b em \<and> email u \<notin> email ` set (users d) \<and> isActive u \<and>
   uid u = next_uid d"
  by (auto simp: mongo_createUser_def Let_def split: if_splits)

lemma sqlite_createUser_result:
  "sqlite_createUser nm em h t d = Inr (u, d') \<Longrightarrow>
   d' = d\<lparr>users := users d @ [u], next_uid := Suc (next_uid d)\<rparr> \<and>
   email u = em \<and> email u \<notin> email ` set (users d) \<and> isActive u \<and> uid u = next_uid d"
  by (auto simp: sqlite_createUser_def Let_def split: if_splits)

lemma mongo_createUser_ok:
  assumes "mongo_createUser a b nm em h t d = Inr (u, d')" and "db_ok s d"
  shows "db_ok s d'"
proof -
  from mongo_createUser_result[OF assms(1)]
  have d': "d' = d\<lparr>users := users d @ [u], next_uid := Suc (next_uid d)\<rparr>"
    and new: "email u \<notin> email ` set (users d)" "isActive u" by blast+
  show ?thesis unfolding d' using assms(2) new by (rule db_ok_add_user)
qed

lemma sqlite_createUser_ok:
  assumes "sqlite_createUser nm em h t d = Inr (u, d')" and "db_ok s d"
  shows "db_ok s d'"
proof -
  from sqlite_createUser_result[OF assms(1)]
  have d': "d' = d\<lparr>users := users d @ [u], next_uid := Suc (next_uid d)\<rparr>"
    and new: "email u \<notin> email ` set (users d)" "isActive u" by blast+
  show ?thesis unfolding d' using assms(2) new by (rule db_ok_add_user)
qed

lemma mongo_setLastLogin_ok: "db_ok s d \<Longrightarrow> db_ok s (mongo_setLastLogin i t d)"
  unfolding mongo_setLastLogin_def by (rule db_ok_touch_where) simp_all

lemma sqlite_updateUserLastLogin_ok: "db_ok s d \<Longrightarrow> db_ok s (sqlite_updateUserLastLogin i t d)"
  unfolding sqlite_updateUserLastLogin_def by (rule db_ok_touch_where) simp_all

lemma sqlite_updateUserName_ok: "db_ok s d \<Longrightarrow> db_ok s (sqlite_updateUserName i nm d)"
  unfolding sqlite_updateUserName_def by (rule db_ok_touch_where) simp_all

lemma mongo_createTodo_result:
  "mongo_createTodo day7 doc t d = Inr (x, d') \<Longrightarrow>
   d' = d\<lparr>todos := todos d @ [x], next_tid := Suc (next_tid d)\<rparr> \<and> owner x = owner doc"
  by (auto simp: mongo_createTodo_def Let_def split: if_splits)

lemma sqlite_createTodo_result:
  "sqlite_createTodo doc t d = (x, d') \<Longrightarrow>
   d' = d\<lparr>todos := todos d @ [x], next_tid := Suc (next_tid d)\<rparr> \<and> owner x = owner doc"
  by (auto simp: sqlite_createTodo_def Let_def)

lemma mongo_createTodo_ok:
  assumes "mongo_createTodo day7 doc t d = Inr (x, d')" and "db_ok s d" and "u \<in> set (users d)"
    and "owner doc = Some (uid u)"
  shows "db_ok s d'"
proof -
  from mongo_createTodo_result[OF assms(1)]
  have d': "d' = d\<lparr>todos := todos d @ [x], next_tid := Suc (next_tid d)\<rparr>"
    and o: "owner x = Some (uid u)" using assms(4) by simp_all
  show ?thesis unfolding d' using assms(2,3) o by (rule db_ok_add_todo)
qed

lemma sqlite_createTodo_ok:
  assumes "sqlite_createTodo doc t d = (x, d')" and "db_ok s d" and "u \<in> set (users d)"
    and "owner doc = Some (uid u)"
  shows "db_ok s d'"
proof -
  from sqlite_createTodo_result[OF assms(1)]
  have d': "d' = d\<lparr>todos := todos d @ [x], next_tid := Suc (next_tid d)\<rparr>"
    and o: "owner x = Some (uid u)" using assms(4) by simp_all
  show ?thesis unfolding d' using assms(2,3) o by (rule db_ok_add_todo)
qed

lemma mongo_findOneAndUpdate_ok:
  assumes "mongo_findOneAndUpdate day7 i userId up t d = Inr (r, d')" and "db_ok s d"
    and "\<And>x. x \<in> set s \<Longrightarrow> owner x = None"
  shows "db_ok s d'"
proof (cases "find (\<lambda>x. tid x = i \<and> owner x = Some userId) (todos d)")
  case None
  with assms(1,2) show ?thesis
    by (simp add: mongo_findOneAndUpdate_def split: if_splits)
next
  case (Some x)
  with assms(1) have d': "d' = d\<lparr>todos := update_first (\<lambda>x. tid x = i \<and> owner x = Some userId)
                                 (apply_updates up t) (todos d)\<rparr>"
    by (simp add: mongo_findOneAndUpdate_def split: if_splits)
  show ?thesis unfolding d'
    by (rule db_ok_change_todos[OF assms(2) owner_apply_updates _ set_update_first])
       (simp add: assms(3))
qed

lemma mongo_findOneAndDelete_ok:
  assumes "mongo_findOneAndDelete i userId d = (r, d')" and "db_ok s d"
  shows "db_ok s d'"
proof -
  have d': "d' = d\<lparr>todos := remove_first (\<lambda>x. tid x = i \<and> owner x = Some userId) (todos d)\<rparr>"
    using assms(1) by (simp add: mongo_findOneAndDelete_def)
  have "set (remove_first (\<lambda>x. tid x = i \<and> owner x = Some userId) (todos d))
          \<subseteq> set (todos d) \<union> id ` {x \<in> set (todos d). False}"
    using set_remove_first by fastforce
  from db_ok_change_todos[OF assms(2) _ _ this] show ?thesis unfolding d' by simp
qed

lemma sqlite_updateTodo_ok:
  assumes "sqlite_updateTodo i userId up t d = (r, d')" and "db_ok s d"
    and "\<And>x. x \<in> set s \<Longrightarrow> owner x = None"
  shows "db_ok s d'"
proof -
  have d': "d' = d\<lparr>todos := update_where (\<lambda>x. tid x = i \<and> owner x = Some userId)
                                 (apply_updates up t) (todos d)\<rparr>"
    using assms(1) by (simp add: sqlite_updateTodo_def Let_def split: if_splits)
  show ?thesis unfolding d'
    by (rule db_ok_change_todos[OF assms(2) owner_apply_updates _ set_update_where])
       (simp add: assms(3))
qed

lemma sqlite_deleteTodo_ok:
  assumes "sqlite_deleteTodo i userId d = (r, d')" and "db_ok s d"
  shows "db_ok s d'"
proof -
  have d': "d' = d\<lparr>todos := filter (\<lambda>x. \<not> (tid x = i \<and> owner x = Some userId)) (todos d)\<rparr>"
    using assms(1) by (simp add: sqlite_deleteTodo_def)
  have "set (filter (\<lambda>x. \<not> (tid x = i \<and> owner x = Some userId)) (todos d))
          \<subseteq> set (todos d) \<union> id ` {x \<in> set (todos d). False}"
    by auto
  from db_ok_change_todos[OF assms(2) _ _ this] show ?thesis unfolding d' by simp
qed

lemma protect6_member:
  "protect6 e rq st = Granted u t \<Longrightarrow>
   u \<in> set (users (if mongo_ready6 st then mongo6 st else memory st))"
  by (auto simp: protect6_def canUseDB6_def mongo_findUserById_def memory_findUserById_def
        find_Some_iff split: if_splits verify_result.splits option.splits)

lemma protect7_member:
  "protect7 e rq st = Granted u t \<Longrightarrow>
   t = fst (canUseDB7 st) \<and>
   (if mongo_ready7 st then u \<in> set (users (mongo7 st))
    else \<exists>d. sqliteDB st = Some d \<and> u \<in> set (users d))"
  by (auto simp: protect7_def canUseDB7_def mongo_findUserById_def sqlite_findUserById_def
        find_Some_iff Let_def split: if_splits verify_result.splits option.splits)

lemma register6_inv: "inv6 st \<Longrightarrow> inv6 (snd (register6 e rq st))"
proof (cases "register_invalid ''All fields are required'' ''Passwords do not match''
             ''Password must be at least 6 characters'' ''Please enter a valid email address'' rq")
  case (Some msg)
  then show "inv6 st \<Longrightarrow> ?thesis" by (simp add: register6_def)
next
  case None
  assume i: "inv6 st"
  let ?em = "the (b_email rq)"
  show ?thesis
  proof (cases "mongo_ready6 st")
    case True
    show ?thesis
    proof (cases "mongo_createUser False True (Some (the (b_name rq))) ?em
                    (Some (bcrypt_hash e (the (b_password rq)))) (now rq) (mongo6 st)")
      case (Inl err)
      with None True i show ?thesis by (simp add: register6_def canUseDB6_def Let_def)
    next
      case (Inr r)
      obtain u d where r: "r = (u, d)" by (cases r)
      from Inr r i have "db_ok [] d" using mongo_createUser_ok by (simp add: inv6_def)
      then have "db_ok [] (mongo_setLastLogin (uid u) (now rq) d)" by (rule mongo_setLastLogin_ok)
      with None True i Inr r show ?thesis
        by (simp add: register6_def canUseDB6_def Let_def inv6_def)
    qed
  next
    case False
    show ?thesis
    proof (cases "memory_findUserByEmail ?em (memory st)")
      case (Some a)
      with None False i show ?thesis by (simp add: register6_def canUseDB6_def Let_def)
    next
      case none: None
      then have "?em \<notin> email ` set (users (memory st))"
        unfolding memory_findUserByEmail_def by (rule find_None_email)
      with i have "db_ok memoryTodos
          ((memory st)\<lparr>users := users (memory st) @
              [\<lparr>uid = next_uid (memory st), name = the (b_name rq), email = ?em,
                password = bcrypt_hash e (the (b_password rq)), role = ''user'', isActive = True,
                createdAt = now rq, lastLogin = Some (now rq)\<rparr>],
            next_uid := Suc (next_uid (memory st))\<rparr>)"
        by (intro db_ok_add_user) (simp_all add: inv6_def)
      with None False i none show ?thesis
        by (simp add: register6_def canUseDB6_def Let_def inv6_def)
    qed
  qed
qed

lemma login6_inv: "inv6 st \<Longrightarrow> inv6 (snd (login6 e rq st))"
proof -
  assume i: "inv6 st"
  have m: "db_ok [] (mongo_setLastLogin j t (mongo6 st))" for j t
    using i by (simp add: inv6_def mongo_setLastLogin_ok)
  have f: "db_ok memoryTodos ((memory st)\<lparr>users :=
             update_first P (\<lambda>v. v\<lparr>lastLogin := Some t\<rparr>) (users (memory st))\<rparr>)" for P t
    using i by (intro db_ok_touch_first) (simp_all add: inv6_def)
  show ?thesis using i m f
    by (simp add: login6_def Let_def inv6_def split: option.splits)
qed

lemma create_user_inv: "inv6 st \<Longrightarrow> inv6 (snd (create_user a rq st))"
proof -
  assume i: "inv6 st"
  have "db_ok [] d" if "mongo_createUser False a nm em None t (mongo6 st) = Inr (u, d)" for nm em t u d
    using that i mongo_createUser_ok by (simp add: inv6_def)
  then show ?thesis using i
    by (auto simp: create_user_def inv6_def split: sum.splits)
qed

lemma create_todo6_inv:
  assumes "inv6 st" and "protect6 e rq st = Granted u t"
  shows "inv6 (snd (create_todo6 u rq st))"
proof (cases "mongo_ready6 st")
  case True
  with protect6_member[OF assms(2)] have u: "u \<in> set (users (mongo6 st))" by simp
  have "db_ok [] d"
    if "mongo_createTodo False (new_todo 0 tsk prio (Some (uid u)) n) n' (mongo6 st) = Inr (x, d)"
    for tsk prio n n' x d
    using that assms(1) u by (intro mongo_createTodo_ok[OF that]) (simp_all add: inv6_def new_todo_def)
  then show ?thesis using assms(1) True
    by (auto simp: create_todo6_def canUseDB6_def inv6_def split: sum.splits)
next
  case False
  with protect6_member[OF assms(2)] have u: "u \<in> set (users (memory st))" by simp
  have "db_ok memoryTodos ((memory st)\<lparr>todos := todos (memory st) @
           [new_todo i tsk prio (Some (uid u)) n], next_tid := k\<rparr>)" for i tsk prio n k
    using assms(1) u by (intro db_ok_add_todo) (simp_all add: inv6_def new_todo_def)
  then show ?thesis using assms(1) False
    by (simp add: create_todo6_def canUseDB6_def inv6_def Let_def)
qed

lemma update_todo6_inv: "inv6 st \<Longrightarrow> inv6 (snd (update_todo6 u rq st))"
proof -
  assume i: "inv6 st"
  have m: "db_ok [] d"
    if "mongo_findOneAndUpdate False j k up t (mongo6 st) = Inr (r, d)" for j k up t r d
    using that i by (intro mongo_findOneAndUpdate_ok[OF that]) (simp_all add: inv6_def)
  have f: "db_ok memoryTodos ((memory st)\<lparr>todos :=
             update_first (\<lambda>t. tid t = j \<and> owner t = Some k) (apply_updates up n)
               (todos (memory st))\<rparr>)" for j k up n
    using i
    by (intro db_ok_change_todos[OF _ owner_apply_updates _ set_update_first])
       (auto simp: inv6_def dest: seeds_unowned)
  show ?thesis using i m f
    by (auto simp: update_todo6_def canUseDB6_def inv6_def split: sum.splits option.splits)
qed

lemma delete_todo6_inv: "inv6 st \<Longrightarrow> inv6 (snd (delete_todo6 u rq st))"
proof -
  assume i: "inv6 st"
  have m: "db_ok [] d" if "mongo_findOneAndDelete j k (mongo6 st) = (r, d)" for j k r d
    using that i by (intro mongo_findOneAndDelete_ok[OF that]) (simp_all add: inv6_def)
  have "set (remove_first P (todos (memory st)))
          \<subseteq> set (todos (memory st)) \<union> id ` {x \<in> set (todos (memory st)). False}" for P
    using set_remove_first by fastforce
  from db_ok_change_todos[OF _ _ _ this, of memoryTodos]
  have f: "db_ok memoryTodos ((memory st)\<lparr>todos := remove_first P (todos (memory st))\<rparr>)" for P
    using i by (simp add: inv6_def)
  show ?thesis using i m f
    by (auto simp: delete_todo6_def canUseDB6_def inv6_def split: prod.splits option.splits)
qed

lemma serve6_inv: "inv6 st \<Longrightarrow> inv6 (snd (serve6 e r rq st))"
proof (cases r)
  case CreateTodo6
  then show "inv6 st \<Longrightarrow> ?thesis"
    by (auto simp: serve6_def protected6_def create_todo6_inv split: guard.splits)
qed (simp_all add: serve6_def protected6_def register6_inv login6_inv create_user_inv
       update_todo6_inv delete_todo6_inv list_todos6_def get_todo6_def public_todos6_def
       my_todos6_def Let_def split: guard.splits option.splits)

lemma inv6_initial: "inv6 (initial6 c)"
  by (simp add: inv6_def initial6_def db_ok_def empty_db_def)

lemma reachable6_inv: "reachable6 e st \<Longrightarrow> inv6 st"
proof (induction rule: reachable6.induct)
  case (start6 connected)
  show ?case by (rule inv6_initial)
next
  case (request6 st r rq)
  then show ?case by (simp add: serve6_inv)
next
  case (connection6 st up)
  then show ?case by (simp add: inv6_def)
qed

lemma inv7_sqlite: "inv7 st \<Longrightarrow> sqliteDB st = Some d \<Longrightarrow> db_ok [] d"
  by (simp add: inv7_def)

lemma inv7_mongo: "inv7 st \<Longrightarrow> db_ok [] (mongo7 st)"
  by (simp add: inv7_def)

lemma inv7_set_sqlite: "inv7 st \<Longrightarrow> db_ok [] d \<Longrightarrow> inv7 (st\<lparr>sqliteDB := Some d\<rparr>)"
  by (simp add: inv7_def)

lemma inv7_set_mongo: "inv7 st \<Longrightarrow> db_ok [] d \<Longrightarrow> inv7 (st\<lparr>mongo7 := d\<rparr>)"
  by (simp add: inv7_def)

lemma register7_inv: "inv7 st \<Longrightarrow> inv7 (snd (register7 e rq st))"
proof -
  assume i: "inv7 st"
  have m: "inv7 (st\<lparr>mongo7 := d\<rparr>)"
    if "mongo_createUser True True nm em h t (mongo7 st) = Inr (u, d)" for nm em h t u d
    using i mongo_createUser_ok[OF that inv7_mongo[OF i]] by (rule inv7_set_mongo)
  have q: "inv7 (st\<lparr>sqliteDB := Some (sqlite_updateUserLastLogin j t
                                    (sqlite_updateUserLastLogin j' t' d))\<rparr>)"
    if "sqlite_createUser nm em h n (the (sqliteDB st)) = Inr (u, d)" "sqliteDB st \<noteq> None"
    for nm em h n u d j t j' t'
  proof -
    from that(2) obtain d0 where d0: "sqliteDB st = Some d0" by auto
    with that(1) have "db_ok [] d" using sqlite_createUser_ok inv7_sqlite[OF i d0] by simp
    then show ?thesis
      by (intro inv7_set_sqlite[OF i] sqlite_updateUserLastLogin_ok)
  qed
  show ?thesis using i m q
    by (auto simp: register7_def canUseDB7_def Let_def split: option.splits sum.splits if_splits)
qed

lemma login7_inv: "inv7 st \<Longrightarrow> inv7 (snd (login7 e rq st))"
proof -
  assume i: "inv7 st"
  have m: "inv7 (st\<lparr>mongo7 := mongo_setLastLogin j t (mongo7 st)\<rparr>)" for j t
    by (intro inv7_set_mongo[OF i] mongo_setLastLogin_ok inv7_mongo[OF i])
  have q: "inv7 (st\<lparr>sqliteDB := Some (sqlite_updateUserLastLogin j t (the (sqliteDB st)))\<rparr>)"
    if "sqliteDB st \<noteq> None" for j t
  proof -
    from that obtain d0 where d0: "sqliteDB st = Some d0" by auto
    show ?thesis unfolding d0 option.sel
      by (intro inv7_set_sqlite[OF i] sqlite_updateUserLastLogin_ok inv7_sqlite[OF i d0])
  qed
  show ?thesis using i m q
    by (auto simp: login7_def canUseDB7_def Let_def split: option.splits if_splits)
qed

lemma update_profile7_inv:
  assumes i: "inv7 st" and t: "t = Mongodb \<or> sqliteDB st \<noteq> None"
  shows "inv7 (snd (update_profile7 e u t rq st))"
proof -
  have m: "inv7 (st\<lparr>mongo7 := (mongo7 st)\<lparr>users :=
             update_where P (\<lambda>v. v\<lparr>name := nm\<rparr>) (users (mongo7 st))\<rparr>\<rparr>)" for P nm
    by (intro inv7_set_mongo[OF i] db_ok_touch_where inv7_mongo[OF i]) simp_all
  have q: "inv7 (st\<lparr>sqliteDB := Some (sqlite_updateUserName j nm (the (sqliteDB st)))\<rparr>)"
    if "sqliteDB st \<noteq> None" for j nm
  proof -
    from that obtain d0 where d0: "sqliteDB st = Some d0" by auto
    show ?thesis unfolding d0 option.sel
      by (intro inv7_set_sqlite[OF i] sqlite_updateUserName_ok inv7_sqlite[OF i d0])
  qed
  show ?thesis using i t m q
    by (auto simp: update_profile7_def Let_def split: option.splits if_splits)
qed

lemma create_todo7_inv:
  assumes i: "inv7 st" and p: "protect7 e' rq st = Granted u t"
  shows "inv7 (snd (create_todo7 e u t rq st))"
proof (cases "mongo_ready7 st")
  case True
  with protect7_member[OF p] have u: "u \<in> set (users (mongo7 st))" and t: "t = Mongodb"
    by (simp_all add: canUseDB7_def)
  have "inv7 (st\<lparr>mongo7 := d\<rparr>)"
    if "mongo_createTodo True (todo_of_request e u rq) n (mongo7 st) = Inr (x, d)" for n x d
    by (intro inv7_set_mongo[OF i] mongo_createTodo_ok[OF that inv7_mongo[OF i] u])
       (simp add: todo_of_request_def)
  then show ?thesis using i t
    by (auto simp: create_todo7_def split: sum.splits)
next
  case False
  with protect7_member[OF p] obtain d0 where d0: "sqliteDB st = Some d0"
    and u: "u \<in> set (users d0)" and t: "t = Sqlite"
    by (auto simp: canUseDB7_def)
  have "inv7 (st\<lparr>sqliteDB := Some d\<rparr>)"
    if "sqlite_createTodo (todo_of_request e u rq) n d0 = (x, d)" for n x d
    by (intro inv7_set_sqlite[OF i] sqlite_createTodo_ok[OF that inv7_sqlite[OF i d0] u])
       (simp add: todo_of_request_def)
  then show ?thesis using i t d0
    by (auto simp: create_todo7_def split: prod.splits)
qed

lemma update_todo7_inv:
  assumes i: "inv7 st" and t: "t = Mongodb \<or> sqliteDB st \<noteq> None"
  shows "inv7 (snd (update_todo7 e u t rq st))"
proof -
  have m: "inv7 (st\<lparr>mongo7 := d\<rparr>)"
    if "mongo_findOneAndUpdate True j k up n (mongo7 st) = Inr (r, d)" for j k up n r d
    by (intro inv7_set_mongo[OF i] mongo_findOneAndUpdate_ok[OF that inv7_mongo[OF i]]) simp
  have q: "inv7 (st\<lparr>sqliteDB := Some d\<rparr>)"
    if "sqlite_updateTodo j k up n (the (sqliteDB st)) = (r, d)" "sqliteDB st \<noteq> None"
    for j k up n r d
  proof -
    from that(2) obtain d0 where d0: "sqliteDB st = Some d0" by auto
    from that(1) have "sqlite_updateTodo j k up n d0 = (r, d)" by (simp add: d0)
    from sqlite_updateTodo_ok[OF this inv7_sqlite[OF i d0]] show ?thesis
      by (intro inv7_set_sqlite[OF i]) simp
  qed
  show ?thesis using i t m q
    by (auto simp: update_todo7_def split: sum.splits prod.splits option.splits promise.splits)
qed

lemma delete_todo7_inv:
  assumes i: "inv7 st" and t: "t = Mongodb \<or> sqliteDB st \<noteq> None"
  shows "inv7 (snd (delete_todo7 e u t rq st))"
proof -
  have m: "inv7 (st\<lparr>mongo7 := d\<rparr>)"
    if "mongo_findOneAndDelete j k (mongo7 st) = (r, d)" for j k r d
    by (intro inv7_set_mongo[OF i] mongo_findOneAndDelete_ok[OF that inv7_mongo[OF i]])
  have q: "inv7 (st\<lparr>sqliteDB := Some d\<rparr>)"
    if "sqlite_deleteTodo j k (the (sqliteDB st)) = (r, d)" "sqliteDB st \<noteq> None" for j k r d
  proof -
    from that(2) obtain d0 where d0: "sqliteDB st = Some d0" by auto
    from that(1) have "sqlite_deleteTodo j k d0 = (r, d)" by (simp add: d0)
    from sqlite_deleteTodo_ok[OF this inv7_sqlite[OF i d0]] show ?thesis
      by (intro inv7_set_sqlite[OF i])
  qed
  show ?thesis using i t m q
    by (auto simp: delete_todo7_def split: prod.splits)
qed

lemma protect7_backend:
  "protect7 e rq st = Granted u t \<Longrightarrow> t = Mongodb \<or> sqliteDB st \<noteq> None"
  using protect7_member[of e rq st u t] by (auto simp: canUseDB7_def split: if_splits)

lemma serve7_inv: "inv7 st \<Longrightarrow> inv7 (snd (serve7 e r rq st))"
proof (cases r)
  case CreateTodo7
  then show "inv7 st \<Longrightarrow> ?thesis"
    by (auto simp: serve7_def sent_def protected7_def create_todo7_inv split: guard.splits)
next
  case UpdateTodo7
  then show "inv7 st \<Longrightarrow> ?thesis"
    by (auto simp: serve7_def update_todo7_inv dest: protect7_backend split: guard.splits)
next
  case DeleteTodo7
  then show "inv7 st \<Longrightarrow> ?thesis"
    by (auto simp: serve7_def sent_def protected7_def delete_todo7_inv dest: protect7_backend
          split: guard.splits)
next
  case PutProfile7
  then show "inv7 st \<Longrightarrow> ?thesis"
    by (auto simp: serve7_def sent_def protected7_def update_profile7_inv dest: protect7_backend
          split: guard.splits)
qed (simp_all add: serve7_def sent_def protected7_def authorize_def register7_inv login7_inv
       profile7_def logout7_def list_todos7_def get_todo7_def stats7_def admin_users7_def
       admin_todos7_def Let_def split: guard.splits option.splits prod.splits)

lemma inv7_initial: "inv7 (initial7 c)"
  by (simp add: inv7_def initial7_def db_ok_def empty_db_def)

lemma reachable7_inv: "reachable7 e st \<Longrightarrow> inv7 st"
proof (induction rule: reachable7.induct)
  case (start7 connected)
  show ?case by (rule inv7_initial)
next
  case (request7 st r rq)
  then show ?case by (simp add: serve7_inv)
next
  case (connection7 st up)
  then show ?case by (simp add: inv7_def)
qed

lemma register_invalid_None:
  "register_invalid m1 m2 m3 m4 rq = None \<longleftrightarrow> well_formed_registration rq"
  by (auto simp: register_invalid_def well_formed_registration_def)

lemma register_valid:
  "well_formed_registration rq \<Longrightarrow> register_invalid m1 m2 m3 m4 rq = None"
  by (simp add: register_invalid_None)

lemma find_email_iff: "find (\<lambda>u. email u = x) us \<noteq> None \<longleftrightarrow> x \<in> email ` set us"
  by (auto simp: find_None_iff)

lemma register6_duplicate_memory:
  "well_formed_registration rq \<Longrightarrow> \<not> mongo_ready6 st \<Longrightarrow>
   the (b_email rq) \<in> email ` set (users (memory st)) \<Longrightarrow>
   register6 e rq st = (failure 409 ''User with this email already exists'', st)"
  using find_email_iff[of "the (b_email rq)" "users (memory st)"]
  by (simp add: register6_def register_valid canUseDB6_def memory_findUserByEmail_def Let_def)

lemma register6_duplicate_mongo:
  "well_formed_registration rq \<Longrightarrow> mongo_ready6 st \<Longrightarrow>
   mongo_email (the (b_email rq)) \<in> email ` set (users (mongo6 st)) \<Longrightarrow>
   register6 e rq st = (failure 409 ''User with this email already exists'', st)"
  using find_email_iff[of "mongo_email (the (b_email rq))" "users (mongo6 st)"]
  by (simp add: register6_def register_valid canUseDB6_def mongo_findUserByEmail_def Let_def)

lemma register7_duplicate_mongo:
  "well_formed_registration rq \<Longrightarrow> mongo_ready7 st \<Longrightarrow>
   mongo_email (the (b_email rq)) \<in> email ` set (users (mongo7 st)) \<Longrightarrow>
   register7 e rq st = (failure 409 ''User with this email already exists.'', st)"
  using find_email_iff[of "mongo_email (the (b_email rq))" "users (mongo7 st)"]
  by (simp add: register7_def register_valid canUseDB7_def mongo_findUserByEmail_def Let_def)

lemma register7_duplicate_sqlite:
  assumes "well_formed_registration rq" "\<not> mongo_ready7 st" "sqliteDB st = Some d"
    and "the (b_email rq) \<in> email ` set (filter isActive (users d))"
  shows "register7 e rq st = (failure 409 ''User with this email already exists.'', st)"
proof -
  from assms(4) have "find (\<lambda>u. email u = the (b_email rq) \<and> isActive u) (users d) \<noteq> None"
    by (auto simp: find_None_iff)
  with assms(1-3) show ?thesis
    by (simp add: register7_def register_valid canUseDB7_def sqlite_findUserByEmail_def Let_def)
qed

lemma register7_duplicate_sqlite_any:
  assumes "well_formed_registration rq" "\<not> mongo_ready7 st" "sqliteDB st = Some d"
    and "the (b_email rq) \<in> email ` set (users d)"
  shows "snd (register7 e rq st) = st \<and>
         (fst (register7 e rq st) = failure 409 ''User with this email already exists.'' \<or>
          fst (register7 e rq st) = errorHandler e sqlite_duplicate_error)"
proof -
  from assms(4) have "sqlite_createUser nm (the (b_email rq)) h t d = Inl sqlite_duplicate_error"
    for nm h t by (auto simp: sqlite_createUser_def)
  with assms(1-3) show ?thesis
    by (simp add: register7_def register_valid canUseDB7_def Let_def)
qed

lemma register_malformed:
  "\<not> well_formed_registration rq \<Longrightarrow>
   status (fst (register6 e rq s6)) = 400 \<and> snd (register6 e rq s6) = s6 \<and>
   status (fst (register7 e rq s7)) = 400 \<and> snd (register7 e rq s7) = s7"
proof -
  assume "\<not> well_formed_registration rq"
  then have "register_invalid m1 m2 m3 m4 rq \<noteq> None" for m1 m2 m3 m4
    by (simp add: register_invalid_None)
  then obtain x y where
    "register_invalid ''All fields are required'' ''Passwords do not match''
       ''Password must be at least 6 characters'' ''Please enter a valid email address'' rq = Some x"
    "register_invalid ''All fields are required.'' ''Passwords do not match.''
       ''Password must be at least 6 characters.'' ''Please enter a valid email address.'' rq
       = Some y"
    by (meson option.exhaust)
  then show ?thesis
    by (simp add: register6_def register7_def failure_def reply_def)
qed

lemma create_user_duplicate:
  "mongo_ready6 st \<Longrightarrow> b_email rq = Some em \<Longrightarrow>
   mongo_email_setter a em \<in> email ` set (users (mongo6 st)) \<Longrightarrow>
   create_user a rq st = (failure 409 ''Email already registered'', st)"
  using find_email_iff[of "mongo_email_setter a em" "users (mongo6 st)"]
  by (simp add: create_user_def canUseDB6_def)

text \<open>
  Claim C2, as amended.  When requests are served one at a time, no two users of one
  backend (MongoDB, SQLite or the in-memory list) have equal email in any reachable state.
  A registration request that passes the field checks and whose email (after the schema's
  trimming and lower-casing on MongoDB) equals the email of an existing user is answered
  with status 409 and leaves the state unchanged; on SQLite the same holds in every
  reachable state, and in any state such a request leaves the users unchanged and is
  answered with 409 or with the rejected duplicate-key error.  A registration request that
  fails a field check is answered with status 400, whatever its email, and changes
  nothing.  \<^verbatim>\<open>POST /api/users\<close> with the email of an existing user is answered with 409.
\<close>

theorem email_unique:
  "(reachable6 e s6 \<longrightarrow>
      distinct (map email (users (memory s6))) \<and> distinct (map email (users (mongo6 s6)))) \<and>
   (reachable7 e s7 \<longrightarrow>
      distinct (map email (users (mongo7 s7))) \<and>
      (\<forall>d. sqliteDB s7 = Some d \<longrightarrow> distinct (map email (users d)))) \<and>
   (well_formed_registration rq \<and> \<not> mongo_ready6 s6 \<and>
      the (b_email rq) \<in> email ` set (users (memory s6))
    \<longrightarrow> register6 e rq s6 = (failure 409 ''User with this email already exists'', s6)) \<and>
   (well_formed_registration rq \<and> mongo_ready6 s6 \<and>
      mongo_email (the (b_email rq)) \<in> email ` set (users (mongo6 s6))
    \<longrightarrow> register6 e rq s6 = (failure 409 ''User with this email already exists'', s6)) \<and>
   (well_formed_registration rq \<and> mongo_ready7 s7 \<and>
      mongo_email (the (b_email rq)) \<in> email ` set (users (mongo7 s7))
    \<longrightarrow> register7 e rq s7 = (failure 409 ''User with this email already exists.'', s7)) \<and>
   (well_formed_registration rq \<and> reachable7 e s7 \<and> \<not> mongo_ready7 s7 \<and> sqliteDB s7 = Some d7 \<and>
      the (b_email rq) \<in> email ` set (users d7)
    \<longrightarrow> register7 e rq s7 = (failure 409 ''User with this email already exists.'', s7)) \<and>
   (well_formed_registration rq \<and> \<not> mongo_ready7 s7 \<and> sqliteDB s7 = Some d7 \<and>
      the (b_email rq) \<in> email ` set (users d7)
    \<longrightarrow> snd (register7 e rq s7) = s7 \<and>
        (fst (register7 e rq s7) = failure 409 ''User with this email already exists.'' \<or>
         fst (register7 e rq s7) = errorHandler e sqlite_duplicate_error)) \<and>
   (\<not> well_formed_registration rq
    \<longrightarrow> status (fst (register6 e rq s6)) = 400 \<and> snd (register6 e rq s6) = s6 \<and>
        status (fst (register7 e rq s7)) = 400 \<and> snd (register7 e rq s7) = s7) \<and>
   (mongo_ready6 s6 \<and> b_email rq = Some em \<and>
      mongo_email_setter a em \<in> email ` set (users (mongo6 s6))
    \<longrightarrow> create_user a rq s6 = (failure 409 ''Email already registered'', s6))"
proof (intro conjI impI allI)
  show "distinct (map email (users (memory s6)))" if "reachable6 e s6"
    using reachable6_inv[OF that] by (simp add: inv6_def db_ok_def)
  show "distinct (map email (users (mongo6 s6)))" if "reachable6 e s6"
    using reachable6_inv[OF that] by (simp add: inv6_def db_ok_def)
  show "distinct (map email (users (mongo7 s7)))" if "reachable7 e s7"
    using reachable7_inv[OF that] by (simp add: inv7_def db_ok_def)
  show "distinct (map email (users d))" if "reachable7 e s7" "sqliteDB s7 = Some d" for d
    using reachable7_inv[OF that(1)] that(2) by (simp add: inv7_def db_ok_def)
  show "register6 e rq s6 = (failure 409 ''User with this email already exists'', s6)"
    if "well_formed_registration rq \<and> \<not> mongo_ready6 s6 \<and>
        the (b_email rq) \<in> email ` set (users (memory s6))"
    using that by (elim conjE) (rule register6_duplicate_memory)
  show "register6 e rq s6 = (failure 409 ''User with this email already exists'', s6)"
    if "well_formed_registration rq \<and> mongo_ready6 s6 \<and>
        mongo_email (the (b_email rq)) \<in> email ` set (users (mongo6 s6))"
    using that by (elim conjE) (rule register6_duplicate_mongo)
  show "register7 e rq s7 = (failure 409 ''User with this email already exists.'', s7)"
    if "well_formed_registration rq \<and> mongo_ready7 s7 \<and>
        mongo_email (the (b_email rq)) \<in> email ` set (users (mongo7 s7))"
    using that by (elim conjE) (rule register7_duplicate_mongo)
  show "register7 e rq s7 = (failure 409 ''User with this email already exists.'', s7)"
    if a: "well_formed_registration rq \<and> reachable7 e s7 \<and> \<not> mongo_ready7 s7 \<and>
        sqliteDB s7 = Some d7 \<and> the (b_email rq) \<in> email ` set (users d7)"
  proof -
    from a have "inv7 s7" and d: "sqliteDB s7 = Some d7" using reachable7_inv by blast+
    then have "filter isActive (users d7) = users d7" by (simp add: inv7_def db_ok_def)
    with a show ?thesis by (intro register7_duplicate_sqlite[of rq s7 d7]) simp_all
  qed
  assume a: "well_formed_registration rq \<and> \<not> mongo_ready7 s7 \<and> sqliteDB s7 = Some d7 \<and>
        the (b_email rq) \<in> email ` set (users d7)"
  then have b: "snd (register7 e rq s7) = s7 \<and>
        (fst (register7 e rq s7) = failure 409 ''User with this email already exists.'' \<or>
         fst (register7 e rq s7) = errorHandler e sqlite_duplicate_error)"
    by (elim conjE) (rule register7_duplicate_sqlite_any)
  from b show "snd (register7 e rq s7) = s7" by simp
  from b show "fst (register7 e rq s7) = failure 409 ''User with this email already exists.'' \<or>
         fst (register7 e rq s7) = errorHandler e sqlite_duplicate_error" by simp
next
  assume "\<not> well_formed_registration rq"
  from register_malformed[OF this, of e s6 s7]
  show "status (fst (register6 e rq s6)) = 400" "snd (register6 e rq s6) = s6"
    "status (fst (register7 e rq s7)) = 400" "snd (register7 e rq s7) = s7" by simp_all
next
  show "create_user a rq s6 = (failure 409 ''Email already registered'', s6)"
    if "mongo_ready6 s6 \<and> b_email rq = Some em \<and>
        mongo_email_setter a em \<in> email ` set (users (mongo6 s6))"
    using that by (elim conjE) (rule create_user_duplicate)
qed

lemma create_todo6_owner:
  assumes "status (fst (create_todo6 u rq st)) = 201"
  shows "\<exists>x. owner x = Some (uid u) \<and>
           snd (create_todo6 u rq st)
             = (if mongo_ready6 st
                then st\<lparr>mongo6 := (mongo6 st)\<lparr>todos := todos (mongo6 st) @ [x],
                                              next_tid := Suc (next_tid (mongo6 st))\<rparr>\<rparr>
                else st\<lparr>memory := (memory st)\<lparr>todos := todos (memory st) @ [x],
                                              next_tid := Suc (next_tid (memory st))\<rparr>\<rparr>)"
proof (cases "mongo_ready6 st")
  case True
  let ?doc = "new_todo 0 (trim (the (b_task rq))) (priority_or_medium rq) (Some (uid u)) (now rq)"
  from assms True obtain x d where c: "mongo_createTodo False ?doc (now rq) (mongo6 st) = Inr (x, d)"
    by (cases "mongo_createTodo False ?doc (now rq) (mongo6 st)")
       (auto simp: create_todo6_def canUseDB6_def failure_def reply_def split: if_splits)
  from mongo_createTodo_result[OF c] have "owner x = Some (uid u)"
    and "d = (mongo6 st)\<lparr>todos := todos (mongo6 st) @ [x], next_tid := Suc (next_tid (mongo6 st))\<rparr>"
    by (simp_all add: new_todo_def)
  moreover from assms True c have "snd (create_todo6 u rq st) = st\<lparr>mongo6 := d\<rparr>"
    by (auto simp: create_todo6_def canUseDB6_def failure_def reply_def split: if_splits)
  ultimately show ?thesis using True by auto
next
  case False
  from assms have "\<not> task_rejected rq"
    by (auto simp: create_todo6_def failure_def reply_def)
  with False show ?thesis
    by (intro exI[of _ "new_todo (next_tid (memory st)) (trim (the (b_task rq)))
                          (priority_or_medium rq) (Some (uid u)) (now rq)"])
       (simp add: create_todo6_def canUseDB6_def new_todo_def Let_def)
qed

lemma create_todo7_owner:
  assumes "status (fst (create_todo7 e u t rq st)) = 201"
  shows "\<exists>x. owner x = Some (uid u) \<and>
           snd (create_todo7 e u t rq st)
             = (if t = Mongodb
                then st\<lparr>mongo7 := (mongo7 st)\<lparr>todos := todos (mongo7 st) @ [x],
                                              next_tid := Suc (next_tid (mongo7 st))\<rparr>\<rparr>
                else st\<lparr>sqliteDB := Some ((the (sqliteDB st))\<lparr>
                         todos := todos (the (sqliteDB st)) @ [x],
                         next_tid := Suc (next_tid (the (sqliteDB st)))\<rparr>)\<rparr>)"
proof (cases "t = Mongodb")
  case True
  let ?doc = "todo_of_request e u rq"
  from assms True obtain x d where c: "mongo_createTodo True ?doc (now rq) (mongo7 st) = Inr (x, d)"
    by (cases "mongo_createTodo True ?doc (now rq) (mongo7 st)")
       (auto simp: create_todo7_def failure_def reply_def errorHandler_def split: if_splits)
  from mongo_createTodo_result[OF c] have "owner x = Some (uid u)"
    and "d = (mongo7 st)\<lparr>todos := todos (mongo7 st) @ [x], next_tid := Suc (next_tid (mongo7 st))\<rparr>"
    by (simp_all add: todo_of_request_def)
  moreover from assms True c have "snd (create_todo7 e u t rq st) = st\<lparr>mongo7 := d\<rparr>"
    by (auto simp: create_todo7_def failure_def reply_def split: if_splits)
  ultimately show ?thesis using True by auto
next
  case False
  let ?doc = "todo_of_request e u rq"
  obtain x d where c: "sqlite_createTodo ?doc (now rq) (the (sqliteDB st)) = (x, d)"
    by (cases "sqlite_createTodo ?doc (now rq) (the (sqliteDB st))")
  from sqlite_createTodo_result[OF c] have "owner x = Some (uid u)"
    and "d = (the (sqliteDB st))\<lparr>todos := todos (the (sqliteDB st)) @ [x],
                                     next_tid := Suc (next_tid (the (sqliteDB st)))\<rparr>"
    by (simp_all add: todo_of_request_def)
  moreover from assms False c have "snd (create_todo7 e u t rq st) = st\<lparr>sqliteDB := Some d\<rparr>"
    by (auto simp: create_todo7_def failure_def reply_def split: if_splits)
  ultimately show ?thesis using False by auto
qed

lemma serve6_create:
  "protect6 e rq st = Granted u t \<Longrightarrow> serve6 e CreateTodo6 rq st = create_todo6 u rq st"
  by (simp add: serve6_def protected6_def)

lemma serve7_create:
  "protect7 e rq st = Granted u t \<Longrightarrow>
   serve7 e CreateTodo7 rq st = sent (create_todo7 e u t rq st)"
  by (simp add: serve7_def protected7_def)

text \<open>
  Claim C3, as amended.  When requests are served one at a time, in every reachable state
  every todo of the Day 6 in-memory list is one of the three seeded todos, which have no
  owner, or carries the id of an existing in-memory user; every todo in MongoDB (Day 6
  and Day 7) and in SQLite carries the id of an existing user of that backend.  Every
  successful \<^verbatim>\<open>POST /api/todos\<close> of Day 6 and Day 7 appends one todo whose owner is the
  authenticated requester, and changes nothing else but the id counter.
\<close>

theorem todo_ownership:
  "(reachable6 e s6 \<longrightarrow>
      (\<forall>t \<in> set (todos (memory s6)).
          t \<in> set memoryTodos \<or> (\<exists>u \<in> set (users (memory s6)). owner t = Some (uid u))) \<and>
      (\<forall>t \<in> set (todos (mongo6 s6)). \<exists>u \<in> set (users (mongo6 s6)). owner t = Some (uid u))) \<and>
   (reachable7 e s7 \<longrightarrow>
      (\<forall>t \<in> set (todos (mongo7 s7)). \<exists>u \<in> set (users (mongo7 s7)). owner t = Some (uid u)) \<and>
      (\<forall>d. sqliteDB s7 = Some d \<longrightarrow>
           (\<forall>t \<in> set (todos d). \<exists>u \<in> set (users d). owner t = Some (uid u)))) \<and>
   (protect6 e rq s6 = Granted u6 t6 \<and> status (fst (serve6 e CreateTodo6 rq s6)) = 201
    \<longrightarrow> (\<exists>x. owner x = Some (uid u6) \<and>
           snd (serve6 e CreateTodo6 rq s6)
             = (if mongo_ready6 s6
                then s6\<lparr>mongo6 := (mongo6 s6)\<lparr>todos := todos (mongo6 s6) @ [x],
                                              next_tid := Suc (next_tid (mongo6 s6))\<rparr>\<rparr>
                else s6\<lparr>memory := (memory s6)\<lparr>todos := todos (memory s6) @ [x],
                                              next_tid := Suc (next_tid (memory s6))\<rparr>\<rparr>))) \<and>
   (protect7 e rq s7 = Granted u7 t7 \<and>
      map_option status (fst (serve7 e CreateTodo7 rq s7)) = Some 201
    \<longrightarrow> (\<exists>x. owner x = Some (uid u7) \<and>
           snd (serve7 e CreateTodo7 rq s7)
             = (if t7 = Mongodb
                then s7\<lparr>mongo7 := (mongo7 s7)\<lparr>todos := todos (mongo7 s7) @ [x],
                                              next_tid := Suc (next_tid (mongo7 s7))\<rparr>\<rparr>
                else s7\<lparr>sqliteDB := Some ((the (sqliteDB s7))\<lparr>
                         todos := todos (the (sqliteDB s7)) @ [x],
                         next_tid := Suc (next_tid (the (sqliteDB s7)))\<rparr>)\<rparr>)))"
proof (intro conjI impI allI ballI)
  show "t \<in> set memoryTodos \<or> (\<exists>u \<in> set (users (memory s6)). owner t = Some (uid u))"
    if "reachable6 e s6" "t \<in> set (todos (memory s6))" for t
    using reachable6_inv[OF that(1)] that(2) by (simp add: inv6_def db_ok_def)
  show "\<exists>u \<in> set (users (mongo6 s6)). owner t = Some (uid u)"
    if "reachable6 e s6" "t \<in> set (todos (mongo6 s6))" for t
    using reachable6_inv[OF that(1)] that(2) by (simp add: inv6_def db_ok_def)
  show "\<exists>u \<in> set (users (mongo7 s7)). owner t = Some (uid u)"
    if "reachable7 e s7" "t \<in> set (todos (mongo7 s7))" for t
    using reachable7_inv[OF that(1)] that(2) by (simp add: inv7_def db_ok_def)
  show "\<exists>u \<in> set (users d). owner t = Some (uid u)"
    if "reachable7 e s7" "sqliteDB s7 = Some d" "t \<in> set (todos d)" for d t
    using reachable7_inv[OF that(1)] that(2,3) by (simp add: inv7_def db_ok_def)
  show "\<exists>x. owner x = Some (uid u6) \<and>
           snd (serve6 e CreateTodo6 rq s6)
             = (if mongo_ready6 s6
                then s6\<lparr>mongo6 := (mongo6 s6)\<lparr>todos := todos (mongo6 s6) @ [x],
                                              next_tid := Suc (next_tid (mongo6 s6))\<rparr>\<rparr>
                else s6\<lparr>memory := (memory s6)\<lparr>todos := todos (memory s6) @ [x],
                                              next_tid := Suc (next_tid (memory s6))\<rparr>\<rparr>)"
    if a: "protect6 e rq s6 = Granted u6 t6 \<and> status (fst (serve6 e CreateTodo6 rq s6)) = 201"
  proof -
    from a have p: "protect6 e rq s6 = Granted u6 t6" by simp
    from a have "status (fst (create_todo6 u6 rq s6)) = 201" by (simp add: serve6_create[OF p])
    then show ?thesis unfolding serve6_create[OF p] by (rule create_todo6_owner)
  qed
  show "\<exists>x. owner x = Some (uid u7) \<and>
           snd (serve7 e CreateTodo7 rq s7)
             = (if t7 = Mongodb
                then s7\<lparr>mongo7 := (mongo7 s7)\<lparr>todos := todos (mongo7 s7) @ [x],
                                              next_tid := Suc (next_tid (mongo7 s7))\<rparr>\<rparr>
                else s7\<lparr>sqliteDB := Some ((the (sqliteDB s7))\<lparr>
                         todos := todos (the (sqliteDB s7)) @ [x],
                         next_tid := Suc (next_tid (the (sqliteDB s7)))\<rparr>)\<rparr>)"
    if a: "protect7 e rq s7 = Granted u7 t7 \<and>
        map_option status (fst (serve7 e CreateTodo7 rq s7)) = Some 201"
  proof -
    from a have p: "protect7 e rq s7 = Granted u7 t7" by simp
    have s: "snd (serve7 e CreateTodo7 rq s7) = snd (create_todo7 e u7 t7 rq s7)"
      by (simp add: serve7_create[OF p] sent_def)
    from a have "status (fst (create_todo7 e u7 t7 rq s7)) = 201"
      by (simp add: serve7_create[OF p] sent_def)
    then show ?thesis unfolding s by (rule create_todo7_owner)
  qed
qed

lemma valid_email_alice: "isValidEmail ''alice@example.com''"
  unfolding isValidEmail_def
  by (intro conjI bexI[of _ 5] bexI[of _ 13]) (simp_all add: is_ws_def ws_chars_def)

lemma reg_alice_well_formed: "well_formed_registration reg_alice"
  using valid_email_alice
  by (simp add: well_formed_registration_def reg_alice_def register_request_def
        blank_request_def falsy_def)

lemma register6_alice:
  "snd (serve6 sample_env Register6 reg_alice (initial6 False)) = memory_registered"
  using reg_alice_well_formed
  by (simp add: serve6_def register6_def register_valid canUseDB6_def initial6_def
        memory_findUserByEmail_def memory_registered_def registered_def alice_def Let_def
        reg_alice_def register_request_def blank_request_def sample_env_def)

lemma register7_alice:
  "snd (serve7 sample_env Register7 reg_alice (initial7 False)) = sqlite_registered"
  using reg_alice_well_formed
  by (simp add: serve7_def sent_def register7_def register_valid canUseDB7_def initial7_def
        sqlite_findUserByEmail_def sqlite_createUser_def sqlite_updateUserLastLogin_def
        update_where_def empty_db_def
        sqlite_registered_def registered_def alice_def Let_def
        reg_alice_def register_request_def blank_request_def sample_env_def)

lemma reachable6_registered: "reachable6 sample_env memory_registered"
  using request6[where r = Register6 and rq = reg_alice, OF start6[of sample_env False]]
  by (simp add: register6_alice)

lemma reachable7_registered: "reachable7 sample_env sqlite_registered"
  using request7[where r = Register7 and rq = reg_alice, OF start7[of sample_env False]]
  by (simp add: register7_alice)

theorem email_unique_witness:
  "reachable6 sample_env memory_registered \<and>
   distinct (map email (users (memory memory_registered))) \<and>
   register6 sample_env reg_alice memory_registered
     = (failure 409 ''User with this email already exists'', memory_registered) \<and>
   reachable7 sample_env sqlite_registered \<and>
   register7 sample_env reg_alice sqlite_registered
     = (failure 409 ''User with this email already exists.'', sqlite_registered) \<and>
   status (fst (register6 sample_env
                  (register_request ''Alice'' ''alice@example.com'' ''secret1'' ''secret2'')
                  memory_registered)) = 400"
proof -
  have m: "\<not> mongo_ready6 memory_registered"
    "the (b_email reg_alice) \<in> email ` set (users (memory memory_registered))"
    by (simp_all add: memory_registered_def registered_def alice_def reg_alice_def
          register_request_def blank_request_def)
  have q: "\<not> mongo_ready7 sqlite_registered"
    "sqliteDB sqlite_registered
       = Some \<lparr>users = [registered], todos = [], next_uid = 2, next_tid = 1\<rparr>"
    "the (b_email reg_alice)
       \<in> email ` set (users \<lparr>users = [registered], todos = [], next_uid = 2, next_tid = 1\<rparr>)"
    by (simp_all add: sqlite_registered_def registered_def alice_def reg_alice_def
          register_request_def blank_request_def)
  have b: "\<not> well_formed_registration
             (register_request ''Alice'' ''alice@example.com'' ''secret1'' ''secret2'')"
    by (simp add: well_formed_registration_def register_request_def blank_request_def)
  note t1 = email_unique[of sample_env memory_registered sqlite_registered reg_alice
              "\<lparr>users = [registered], todos = [], next_uid = 2, next_tid = 1\<rparr>"]
  note t2 = email_unique[of sample_env memory_registered sqlite_registered
              "register_request ''Alice'' ''alice@example.com'' ''secret1'' ''secret2''"]
  from t1 t2 reachable6_registered reachable7_registered reg_alice_well_formed m q b
  show ?thesis by simp
qed

text \<open>
  The claim answers every registration with a known email by 409.  The field checks come
  first: with a confirmation that differs from the password the answer is 400.
\<close>

theorem register_duplicate_counterexample:
  "the (b_email (register_request ''Alice'' ''alice@example.com'' ''secret1'' ''secret2''))
     = email registered \<and>
   users (memory memory_registered) = [registered] \<and>
   register6 sample_env (register_request ''Alice'' ''alice@example.com'' ''secret1'' ''secret2'')
       memory_registered
     = (failure 400 ''Passwords do not match'', memory_registered) \<and>
   status (failure 400 ''Passwords do not match'') \<noteq> 409"
  by (simp add: register6_def register_invalid_def register_request_def blank_request_def
        falsy_def memory_registered_def registered_def alice_def failure_def reply_def)

lemma protect6_alice:
  "protect6 sample_env (post_request tsk) memory_registered = Granted registered NoDb"
  by (simp add: protect6_def post_request_def blank_request_def header_token6_def falsy_def
        sample_env_def sample_verify_def canUseDB6_def memory_findUserById_def
        memory_registered_def registered_def alice_def)

lemma protect7_alice:
  "protect7 sample_env (post_request tsk) sqlite_registered = Granted registered Sqlite"
  by (simp add: protect7_def post_request_def blank_request_def header_token7_def falsy_def
        sample_env_def sample_verify_def canUseDB7_def sqlite_findUserById_def
        sqlite_registered_def registered_def alice_def)

lemma create6_alice:
  "serve6 sample_env CreateTodo6 (post_request '' Buy milk '') memory_registered
     = (fst (serve6 sample_env CreateTodo6 (post_request '' Buy milk '') memory_registered),
        memory_with_todo)"
  apply (simp add: serve6_def protected6_def protect6_alice)
  apply (simp add: create_todo6_def task_rejected_def
        priority_or_medium_def canUseDB6_def Let_def
        post_request_def blank_request_def falsy_def trim_def is_ws_def ws_chars_def
        memory_registered_def memory_with_todo_def registered_def alice_def)
  done

lemma create7_alice:
  "serve7 sample_env CreateTodo7 (post_request '' Buy milk '') sqlite_registered
     = (fst (serve7 sample_env CreateTodo7 (post_request '' Buy milk '') sqlite_registered),
        sqlite_with_todo)"
  apply (simp add: serve7_def sent_def protected7_def protect7_alice)
  apply (simp add: create_todo7_def
        task_rejected_def sqlite_createTodo_def todo_of_request_def new_todo_def Let_def
        post_request_def blank_request_def falsy_def trim_def is_ws_def ws_chars_def
        sample_env_def sqlite_registered_def sqlite_with_todo_def registered_def alice_def)
  done

theorem todo_ownership_witness:
  "reachable6 sample_env memory_with_todo \<and>
   map owner (todos (memory memory_with_todo)) = [None, None, None, Some (uid registered)] \<and>
   users (memory memory_with_todo) = [registered] \<and>
   snd (serve6 sample_env CreateTodo6 (post_request '' Buy milk '') memory_registered)
     = memory_with_todo \<and>
   reachable7 sample_env sqlite_with_todo \<and>
   snd (serve7 sample_env CreateTodo7 (post_request '' Buy milk '') sqlite_registered)
     = sqlite_with_todo \<and>
   map (map owner \<circ> todos) (case sqliteDB sqlite_with_todo of None \<Rightarrow> [] | Some d \<Rightarrow> [d])
     = [[Some (uid registered)]]"
proof -
  have c6: "snd (serve6 sample_env CreateTodo6 (post_request '' Buy milk '') memory_registered)
      = memory_with_todo" using create6_alice by (metis snd_conv)
  have c7: "snd (serve7 sample_env CreateTodo7 (post_request '' Buy milk '') sqlite_registered)
      = sqlite_with_todo" using create7_alice by (metis snd_conv)
  have r6: "reachable6 sample_env memory_with_todo"
    using request6[where r = CreateTodo6 and rq = "post_request '' Buy milk ''",
                   OF reachable6_registered]
    by (simp add: c6)
  have r7: "reachable7 sample_env sqlite_with_todo"
    using request7[where r = CreateTodo7 and rq = "post_request '' Buy milk ''",
                   OF reachable7_registered]
    by (simp add: c7)
  have o: "map owner (todos (memory memory_with_todo)) = [None, None, None, Some (uid registered)]"
    "users (memory memory_with_todo) = [registered]"
    "map (map owner \<circ> todos) (case sqliteDB sqlite_with_todo of None \<Rightarrow> [] | Some d \<Rightarrow> [d])
       = [[Some (uid registered)]]"
    by (simp_all add: memory_with_todo_def sqlite_with_todo_def memoryTodos_def seed_todo_def
          new_todo_def registered_def alice_def)
  note t = todo_ownership[of sample_env memory_with_todo sqlite_with_todo
              "post_request '' Buy milk ''" registered NoDb registered Sqlite]
  from t r6 r7 c6 c7 o show ?thesis by simp
qed

text \<open>
  The claim gives every todo of every reachable state an owner.  The Day 6 server starts
  with three todos whose \<^verbatim>\<open>userId\<close> is \<^verbatim>\<open>null\<close>.
\<close>

theorem seeded_todos_counterexample:
  "reachable6 sample_env (initial6 False) \<and>
   map owner (todos (memory (initial6 False))) = [None, None, None]"
  using start6[of sample_env False]
  by (simp add: initial6_def memoryTodos_def seed_todo_def)

subsection \<open>Passwords in response bodies\<close>

lemma has_key_JObj_iff:
  "has_key k (JObj kvs) \<longleftrightarrow> (\<exists>p \<in> set kvs. fst p = k \<or> has_key k (snd p))"
  by (auto simp: list_ex_iff)

lemma has_key_JArr_iff: "has_key k (JArr xs) \<longleftrightarrow> (\<exists>x \<in> set xs. has_key k x)"
  by (auto simp: list_ex_iff)

declare has_key.simps(5,6) [simp del]

lemma has_key_Nil [simp]: "\<not> has_key k (JObj [])" "\<not> has_key k (JArr [])"
  by (simp_all add: has_key_JObj_iff has_key_JArr_iff)

lemma has_key_Cons [simp]:
  "has_key k (JObj ((k', v) # kvs)) \<longleftrightarrow> k' = k \<or> has_key k v \<or> has_key k (JObj kvs)"
  by (simp add: has_key_JObj_iff)

lemma has_key_append [simp]:
  "has_key k (JObj (a @ b)) \<longleftrightarrow> has_key k (JObj a) \<or> has_key k (JObj b)"
  by (auto simp: has_key_JObj_iff)

lemma has_key_JArr_map [simp]:
  "has_key k (JArr (map f xs)) \<longleftrightarrow> (\<exists>x \<in> set xs. has_key k (f x))"
  by (simp add: has_key_JArr_iff)

lemma has_key_js_delete:
  "has_key k (JObj (js_delete k' obj)) \<Longrightarrow> has_key k (JObj obj)"
  unfolding has_key_JObj_iff js_delete_def by fastforce

lemma has_key_js_delete_self:
  "(\<And>p. p \<in> set obj \<Longrightarrow> \<not> has_key k (snd p)) \<Longrightarrow> \<not> has_key k (JObj (js_delete k obj))"
  by (auto simp: has_key_JObj_iff js_delete_def)

lemma has_key_opt_field [simp]:
  "has_key k (JObj (opt_field k' f v))
     \<longleftrightarrow> (case v of None \<Rightarrow> False | Some x \<Rightarrow> k' = k \<or> has_key k (f x))"
  by (simp add: opt_field_def split: option.splits)

lemma has_key_nullable [simp]:
  "has_key k (nullable f v) \<longleftrightarrow> (case v of None \<Rightarrow> False | Some x \<Rightarrow> has_key k (f x))"
  by (simp add: nullable_def split: option.splits)

lemma pw_memory_user: "\<not> has_key ''password'' (JObj (js_delete ''password'' (memory_user_obj u)))"
  by (rule has_key_js_delete_self) (auto simp: memory_user_obj_def opt_field_def split: option.splits)

lemma pw_sqlite_user: "\<not> has_key ''password'' (JObj (js_delete ''password'' (sqlite_user_row u)))"
  by (rule has_key_js_delete_self) (auto simp: sqlite_user_row_def nullable_def split: option.splits)

lemma pw_sqlite_public: "\<not> has_key ''password'' (JObj (sqlite_user_public_row u))"
  by (simp add: sqlite_user_public_row_def split: option.splits)

lemma pw_mongo_user: "\<not> has_key ''password'' (JObj (js_delete ''password'' (mongo_user_obj a b u)))"
  by (rule has_key_js_delete_self)
     (auto simp: mongo_user_obj_def opt_field_def split: option.splits if_splits)

lemma pw_mongo_user_unselected: "\<not> has_key ''password'' (JObj (mongo_user_obj a False u))"
  by (simp add: mongo_user_obj_def split: option.splits)

lemma pw_user_toJSON: "\<not> has_key ''password'' (JObj (user_toJSON a b u))"
  unfolding user_toJSON_def by (rule pw_mongo_user)

lemma pw_memory_todo: "\<not> has_key ''password'' (JObj (memory_todo_obj a t))"
  by (simp add: memory_todo_obj_def split: option.splits)

lemma pw_mongo_todo: "\<not> has_key ''password'' (JObj (mongo_todo_obj a t))"
  by (simp add: mongo_todo_obj_def split: option.splits)

lemma pw_sqlite_todo: "\<not> has_key ''password'' (JObj (sqlite_todo_row t))"
  by (simp add: sqlite_todo_row_def split: option.splits)

lemma pw_sqlite_created: "\<not> has_key ''password'' (JObj (sqlite_created_obj a t))"
  by (simp add: sqlite_created_obj_def split: option.splits)

lemma pw_failure: "\<not> has_key ''password'' (body (failure c m))"
  by (simp add: failure_def reply_def)

lemma pw_errorHandler: "\<not> has_key ''password'' (body (errorHandler e err))"
  by (simp add: errorHandler_def reply_def)


lemma pw_auth_data: "has_key ''password'' (auth_data e obj tok) \<longleftrightarrow> has_key ''password'' (JObj obj)"
  by (simp add: auth_data_def)

lemma pw_requester: "\<not> has_key ''password'' (requester_obj u)"
  by (simp add: requester_obj_def)

lemmas pw_simps =
  pw_memory_user pw_sqlite_user pw_sqlite_public pw_mongo_user pw_mongo_user_unselected
  pw_user_toJSON pw_memory_todo pw_mongo_todo pw_sqlite_todo pw_sqlite_created pw_failure
  pw_errorHandler pw_auth_data pw_requester

lemma pw_reply: "has_key ''password'' (body (reply c kvs)) \<longleftrightarrow> has_key ''password'' (JObj kvs)"
  by (simp add: reply_def)

lemma pw_login6: "\<not> has_key ''password'' (body (fst (login6 e rq st)))"
  by (simp add: login6_def Let_def pw_simps pw_reply split: option.splits)

lemma pw_register6: "\<not> has_key ''password'' (body (fst (register6 e rq st)))"
  by (simp add: register6_def Let_def pw_simps pw_reply split: option.splits sum.splits)

lemma pw_profile6: "\<not> has_key ''password'' (body (profile6 e rq st))"
  by (simp add: profile6_def Let_def pw_simps pw_reply split: option.splits verify_result.splits)

lemma pw_create_user: "\<not> has_key ''password'' (body (fst (create_user a rq st)))"
  by (simp add: create_user_def Let_def pw_simps pw_reply split: option.splits sum.splits)

lemma pw_list_users: "\<not> has_key ''password'' (body (list_users st))"
  by (simp add: list_users_def Let_def pw_simps pw_reply)

lemma pw_create_todo6: "\<not> has_key ''password'' (body (fst (create_todo6 u rq st)))"
  by (simp add: create_todo6_def Let_def pw_simps pw_reply split: option.splits sum.splits)

lemma pw_update_todo6: "\<not> has_key ''password'' (body (fst (update_todo6 u rq st)))"
  by (simp add: update_todo6_def Let_def pw_simps pw_reply split: option.splits sum.splits)

lemma pw_delete_todo6: "\<not> has_key ''password'' (body (fst (delete_todo6 u rq st)))"
  by (simp add: delete_todo6_def Let_def pw_simps pw_reply split: option.splits prod.splits)

lemma pw_my_todos6: "\<not> has_key ''password'' (body (fst (my_todos6 u rq st)))"
  by (simp add: my_todos6_def Let_def pw_simps pw_reply)

lemma pw_list_todos6: "\<not> has_key ''password'' (body (fst (list_todos6 rq st)))"
  by (simp add: list_todos6_def Let_def pw_simps pw_reply)

lemma pw_get_todo6: "\<not> has_key ''password'' (body (fst (get_todo6 rq st)))"
  by (simp add: get_todo6_def Let_def pw_simps pw_reply split: option.splits)

lemma pw_public_todos6: "\<not> has_key ''password'' (body (fst (public_todos6 rq st)))"
  by (simp add: public_todos6_def Let_def pw_simps pw_reply)

lemma pw_protected6:
  "(\<And>u. \<not> has_key ''password'' (body (fst (h u rq st)))) \<Longrightarrow>
   \<not> has_key ''password'' (body (fst (protected6 e h rq st)))"
  by (simp add: protected6_def protect6_def pw_simps
        split: guard.splits verify_result.splits option.splits if_splits)

lemma pw_serve6: "\<not> has_key ''password'' (body (fst (serve6 e r rq st)))"
  by (cases r)
     (simp_all add: serve6_def pw_login6 pw_register6 pw_profile6 pw_create_user pw_list_users
        pw_create_todo6 pw_update_todo6 pw_delete_todo6 pw_my_todos6 pw_list_todos6 pw_get_todo6
        pw_public_todos6 pw_protected6 logout6_def health6_def pw_reply)


lemma pw_login7: "\<not> has_key ''password'' (body (fst (login7 e rq st)))"
proof -
  have a: "\<not> has_key ''password''
          (JObj (js_delete ''_id'' (js_delete ''password'' (mongo_user_obj True True u))))" for u
    using has_key_js_delete pw_mongo_user by blast
  show ?thesis
    by (simp add: login7_def Let_def pw_simps pw_reply a split: option.splits)
qed

lemma pw_register7: "\<not> has_key ''password'' (body (fst (register7 e rq st)))"
proof -
  have a: "\<not> has_key ''password''
          (JObj (js_delete ''password'' (mongo_user_obj True True u @ [(''id'', JNum (uid u))])))"
    for u
    by (rule has_key_js_delete_self)
       (auto simp: mongo_user_obj_def opt_field_def split: option.splits if_splits)
  have b: "\<not> has_key ''password''
          (JObj (js_delete ''password''
             [(''id'', JNum (uid u)), (''name'', JStr (name u)), (''email'', JStr (email u)),
              (''role'', JStr (role u)), (''isActive'', JBool True), (''createdAt'', JNum n)]))"
    for u n
    by (rule has_key_js_delete_self) auto
  show ?thesis
    by (simp add: register7_def Let_def pw_simps pw_reply a b split: option.splits sum.splits)
qed

lemma pw_req_user: "\<not> has_key ''password'' (JObj (req_user_obj t u))"
  by (simp add: req_user_obj_def pw_simps)

lemma pw_profile7: "\<not> has_key ''password'' (body (fst (profile7 e u t rq st)))"
  by (simp add: profile7_def pw_req_user pw_reply)

lemma pw_update_profile7: "\<not> has_key ''password'' (body (fst (update_profile7 e u t rq st)))"
  by (simp add: update_profile7_def Let_def pw_simps pw_reply split: option.splits)

lemma pw_logout7: "\<not> has_key ''password'' (body (fst (logout7 e u t rq st)))"
  by (simp add: logout7_def pw_reply)

lemma pw_create_todo7: "\<not> has_key ''password'' (body (fst (create_todo7 e u t rq st)))"
  by (simp add: create_todo7_def Let_def pw_simps pw_reply split: sum.splits prod.splits)

lemma pw_update_todo7:
  "pred_option (\<lambda>x. \<not> has_key ''password'' (body x)) (fst (update_todo7 e u t rq st))"
  by (simp add: update_todo7_def Let_def pw_simps pw_reply
        split: sum.splits prod.splits option.splits promise.splits)

lemma pw_delete_todo7: "\<not> has_key ''password'' (body (fst (delete_todo7 e u t rq st)))"
  by (simp add: delete_todo7_def Let_def pw_simps pw_reply split: prod.splits)

lemma pw_get_todo7: "\<not> has_key ''password'' (body (fst (get_todo7 e u t rq st)))"
proof -
  have a: "\<not> has_key ''password'' (JObj obj)"
    if "map_option (mongo_todo_obj True) x = Some obj \<or> map_option sqlite_todo_row y = Some obj"
    for x y obj
    using that pw_mongo_todo pw_sqlite_todo by auto
  show ?thesis
    by (auto simp: get_todo7_def pw_simps pw_reply split: option.splits if_splits dest: a[OF disjI1] a[OF disjI2])
qed

lemma pw_list_todos7: "\<not> has_key ''password'' (body (fst (list_todos7 e u t rq st)))"
  by (simp add: list_todos7_def Let_def pw_simps pw_reply)

lemma pw_stats7: "\<not> has_key ''password'' (body (fst (stats7 e u t rq st)))"
  by (simp add: stats7_def Let_def pw_reply)

lemma pw_admin_users7: "\<not> has_key ''password'' (body (fst (admin_users7 e u t rq st)))"
  by (simp add: admin_users7_def Let_def pw_simps pw_reply)

lemma pw_populated: "\<not> has_key ''password'' (mongo_populated us t)"
proof -
  have a: "\<not> has_key ''password'' (JObj (js_delete ''user'' (mongo_todo_obj True t)))"
    using has_key_js_delete pw_mongo_todo by blast
  show ?thesis by (simp add: mongo_populated_def a split: option.splits)
qed

lemma pw_joined: "\<not> has_key ''password'' (sqlite_joined us t)"
  by (simp add: sqlite_joined_def Let_def pw_simps split: option.splits)

lemma pw_admin_todos7: "\<not> has_key ''password'' (body (fst (admin_todos7 e u t rq st)))"
  by (simp add: admin_todos7_def Let_def pw_populated pw_joined pw_reply)

lemma pw_protect7: "protect7 e rq st = Refused r \<Longrightarrow> \<not> has_key ''password'' (body r)"
  by (auto simp: protect7_def pw_simps Let_def
        split: verify_result.splits option.splits if_splits)

lemma pw_protected7:
  "(\<And>u t. \<not> has_key ''password'' (body (fst (h u t rq st)))) \<Longrightarrow>
   \<not> has_key ''password'' (body (fst (protected7 e h rq st)))"
  using pw_protect7[of e rq st] by (simp add: protected7_def split: guard.splits)

lemma pw_authorize:
  "(\<And>u t. \<not> has_key ''password'' (body (fst (h u t rq st)))) \<Longrightarrow>
   \<not> has_key ''password'' (body (fst (authorize roles h u t rq st)))"
  by (simp add: authorize_def pw_simps)

lemma pw_serve7:
  "pred_option (\<lambda>x. \<not> has_key ''password'' (body x)) (fst (serve7 e r rq st))"
proof (cases r)
  case UpdateTodo7
  then show ?thesis
    using pw_protect7[of e rq st] pw_update_todo7[of e _ _ rq st]
    by (simp add: serve7_def split: guard.splits)
qed (simp_all add: serve7_def sent_def pw_login7 pw_register7 pw_protected7 pw_authorize
       pw_profile7 pw_update_profile7 pw_logout7 pw_create_todo7 pw_delete_todo7 pw_get_todo7
       pw_list_todos7 pw_stats7 pw_admin_users7 pw_admin_todos7 health7_def status7_def
       database_obj_def not_found7_def pw_failure pw_reply)

text \<open>
  Claim C4.  The password field is never serialised: whatever the request, the route and
  the contents of the stores, the response body of a Day 6 route (MongoDB or in-process
  lists) and of a Day 7 route (MongoDB or SQLite) has no property named \<^verbatim>\<open>password\<close> at any
  depth, so the stored hash of no user is sent.
\<close>

theorem password_never_serialised:
  "\<not> has_key ''password'' (body (fst (serve6 e r6 rq s6))) \<and>
   pred_option (\<lambda>x. \<not> has_key ''password'' (body x)) (fst (serve7 e r7 rq s7))"
  using pw_serve6 pw_serve7 by blast

lemmas eval_defs =
  blank_request_def post_request_def login_request_def header_token6_def header_token7_def
  falsy_def sample_env_def sample_verify_def canUseDB6_def canUseDB7_def
  memory_findUserById_def sqlite_findUserById_def mongo_findUserById_def
  memory_findUserByEmail_def sqlite_findUserByEmail_def mongo_findUserByEmail_def
  memory_registered_def sqlite_registered_def registered_def alice_def empty_db_def
  trim_def is_ws_def ws_chars_def

text \<open>
  A login of the sample user, whose stored hash is \<^verbatim>\<open>#secret1\<close>, succeeds on both servers
  and the body has no \<^verbatim>\<open>password\<close> property.
\<close>

theorem password_never_serialised_witness:
  "password registered = ''#secret1'' \<and>
   status (fst (serve6 sample_env Login6 (login_request ''alice@example.com'' ''secret1'')
                  memory_registered)) = 200 \<and>
   \<not> has_key ''password''
       (body (fst (serve6 sample_env Login6 (login_request ''alice@example.com'' ''secret1'')
                     memory_registered))) \<and>
   map_option status
       (fst (serve7 sample_env Login7 (login_request ''alice@example.com'' ''secret1'')
               sqlite_registered)) = Some 200 \<and>
   pred_option (\<lambda>x. \<not> has_key ''password'' (body x))
       (fst (serve7 sample_env Login7 (login_request ''alice@example.com'' ''secret1'')
               sqlite_registered))"
proof -
  have 1: "password registered = ''#secret1''" by (simp add: registered_def alice_def)
  have 2: "status (fst (serve6 sample_env Login6 (login_request ''alice@example.com'' ''secret1'')
                  memory_registered)) = 200"
    by (simp add: serve6_def login6_def reply_def Let_def eval_defs)
  have 3: "map_option status
       (fst (serve7 sample_env Login7 (login_request ''alice@example.com'' ''secret1'')
               sqlite_registered)) = Some 200"
    by (simp add: serve7_def sent_def login7_def reply_def Let_def eval_defs)
  note t = password_never_serialised[of sample_env Login6
             "login_request ''alice@example.com'' ''secret1''" memory_registered Login7
             sqlite_registered]
  from 1 2 3 t show ?thesis by simp
qed

subsection \<open>The response envelope\<close>

lemma env_failure [simp]: "enveloped b (failure c m)"
  by (simp add: enveloped_def field_def failure_def reply_def)

lemma env_error_reply [simp]:
  "enveloped b (reply c ((''success'', JBool False) # (''error'', JStr m) # rest))"
  by (simp add: enveloped_def field_def reply_def)

lemma env_errorHandler [simp]: "enveloped b (errorHandler e err)"
  by (simp add: enveloped_def field_def errorHandler_def reply_def)

lemma env_success_data [simp]:
  "enveloped b (reply c ((''success'', JBool True) # (''data'', d) # rest))"
  "enveloped b (reply c ((''success'', JBool True) # (k1, v1) # (''data'', d) # rest))"
  "enveloped b (reply c ((''success'', JBool True) # (k1, v1) # (k2, v2) # (''data'', d) # rest))"
  "enveloped b (reply c ((''success'', JBool True) # (k1, v1) # (k2, v2) # (k3, v3)
                           # (''data'', d) # rest))"
  by (simp_all add: enveloped_def field_def reply_def)

lemma env_success_plain [simp]: "enveloped False (reply c ((''success'', JBool True) # rest))"
  by (simp add: enveloped_def field_def reply_def)

lemma env_login6: "enveloped True (fst (login6 e rq st))"
  by (simp add: login6_def Let_def split: option.splits)

lemma env_register6: "enveloped True (fst (register6 e rq st))"
  by (simp add: register6_def Let_def split: option.splits sum.splits)

lemma env_profile6: "enveloped True (profile6 e rq st)"
  by (simp add: profile6_def Let_def split: option.splits verify_result.splits)

lemma env_create_user: "enveloped False (fst (create_user a rq st))"
  by (simp add: create_user_def Let_def split: option.splits sum.splits)

lemma env_list_users: "enveloped False (list_users st)"
  by (simp add: list_users_def Let_def)

lemma env_create_todo6: "enveloped True (fst (create_todo6 u rq st))"
  by (simp add: create_todo6_def Let_def split: option.splits sum.splits)

lemma env_update_todo6: "enveloped True (fst (update_todo6 u rq st))"
  by (simp add: update_todo6_def Let_def split: option.splits sum.splits)

lemma env_delete_todo6: "enveloped True (fst (delete_todo6 u rq st))"
  by (simp add: delete_todo6_def Let_def split: option.splits prod.splits)

lemma env_my_todos6: "enveloped True (fst (my_todos6 u rq st))"
  by (simp add: my_todos6_def Let_def)

lemma env_list_todos6: "enveloped True (fst (list_todos6 rq st))"
  by (simp add: list_todos6_def Let_def)

lemma env_get_todo6: "enveloped True (fst (get_todo6 rq st))"
  by (simp add: get_todo6_def Let_def split: option.splits)

lemma env_public_todos6: "enveloped True (fst (public_todos6 rq st))"
  by (simp add: public_todos6_def Let_def)

lemma env_protect6: "protect6 e rq st = Refused r \<Longrightarrow> enveloped b r"
  by (auto simp: protect6_def split: verify_result.splits option.splits if_splits)

lemma env_protected6:
  "(\<And>u. enveloped b (fst (h u rq st))) \<Longrightarrow> enveloped b (fst (protected6 e h rq st))"
  using env_protect6[of e rq st] by (simp add: protected6_def split: guard.splits)

lemma env_serve6:
  "r \<noteq> Health6 \<Longrightarrow>
   enveloped (r \<noteq> Logout6 \<and> r \<noteq> CreateUser6 \<and> r \<noteq> ListUsers6) (fst (serve6 e r rq st))"
  by (cases r)
     (simp_all add: serve6_def env_login6 env_register6 env_profile6 env_create_user
        env_list_users env_create_todo6 env_update_todo6 env_delete_todo6 env_my_todos6
        env_list_todos6 env_get_todo6 env_public_todos6 env_protected6 logout6_def)

lemma env_login7: "enveloped True (fst (login7 e rq st))"
  by (simp add: login7_def Let_def split: option.splits)

lemma env_register7: "enveloped True (fst (register7 e rq st))"
  by (simp add: register7_def Let_def split: option.splits sum.splits)

lemma env_profile7: "enveloped True (fst (profile7 e u t rq st))"
  by (simp add: profile7_def)

lemma find_update_where:
  assumes "find P xs = Some x" and "\<And>y. P (f y) = P y"
  shows "find P (update_where Q f xs) \<noteq> None"
proof -
  from assms(1) have "x \<in> set xs" "P x" by (auto simp: find_Some_iff)
  then have "(if Q x then f x else x) \<in> set (update_where Q f xs)"
    by (auto simp: update_where_def)
  moreover have "P (if Q x then f x else x)" using \<open>P x\<close> assms(2) by simp
  ultimately show ?thesis by (auto simp: find_None_iff)
qed

lemma env_update_profile7:
  assumes "t = Mongodb \<or> (\<exists>d. sqliteDB st = Some d \<and> sqlite_findUserById (uid u) d = Some u)"
  shows "enveloped True (fst (update_profile7 e u t rq st))"
proof (cases "t = Mongodb")
  case True
  then show ?thesis
    by (simp add: update_profile7_def Let_def split: option.splits)
next
  case False
  with assms obtain d where d: "sqliteDB st = Some d" "sqlite_findUserById (uid u) d = Some u"
    by blast
  have nn: "sqlite_findUserById (uid u) (sqlite_updateUserName (uid u) nm d) \<noteq> None" for nm
    using find_update_where[OF d(2)[unfolded sqlite_findUserById_def],
            of "\<lambda>v. v\<lparr>name := nm\<rparr>" "\<lambda>v. uid v = uid u"]
    by (simp add: sqlite_findUserById_def sqlite_updateUserName_def)
  from nn[of "name u"] obtain v1
    where v1: "sqlite_findUserById (uid u) (sqlite_updateUserName (uid u) (name u) d) = Some v1"
    by auto
  from nn[of "the (b_name rq)"] obtain v2
    where v2: "sqlite_findUserById (uid u) (sqlite_updateUserName (uid u) (the (b_name rq)) d)
                = Some v2"
    by auto
  show ?thesis using False d(1) v1 v2
    by (simp add: update_profile7_def Let_def opt_field_def)
qed

lemma env_logout7: "enveloped False (fst (logout7 e u t rq st))"
  by (simp add: logout7_def)

lemma env_create_todo7: "enveloped True (fst (create_todo7 e u t rq st))"
  by (simp add: create_todo7_def Let_def split: sum.splits prod.splits)

lemma env_update_todo7: "pred_option (enveloped True) (fst (update_todo7 e u t rq st))"
  by (simp add: update_todo7_def Let_def
        split: sum.splits prod.splits option.splits promise.splits)

lemma env_delete_todo7: "enveloped False (fst (delete_todo7 e u t rq st))"
  by (simp add: delete_todo7_def Let_def split: prod.splits)

lemma env_get_todo7: "enveloped True (fst (get_todo7 e u t rq st))"
  by (simp add: get_todo7_def split: option.splits)

lemma env_list_todos7: "enveloped True (fst (list_todos7 e u t rq st))"
  by (simp add: list_todos7_def Let_def)

lemma env_stats7: "enveloped True (fst (stats7 e u t rq st))"
  by (simp add: stats7_def Let_def)

lemma env_admin_users7: "enveloped True (fst (admin_users7 e u t rq st))"
  by (simp add: admin_users7_def Let_def)

lemma env_admin_todos7: "enveloped True (fst (admin_todos7 e u t rq st))"
  by (simp add: admin_todos7_def Let_def)

lemma env_protect7: "protect7 e rq st = Refused r \<Longrightarrow> enveloped b r"
  by (auto simp: protect7_def Let_def split: verify_result.splits option.splits if_splits)

lemma env_protected7:
  "(\<And>u t. enveloped b (fst (h u t rq st))) \<Longrightarrow> enveloped b (fst (protected7 e h rq st))"
  using env_protect7[of e rq st] by (simp add: protected7_def split: guard.splits)

lemma env_authorize:
  "(\<And>u t. enveloped b (fst (h u t rq st))) \<Longrightarrow> enveloped b (fst (authorize roles h u t rq st))"
  by (simp add: authorize_def)

lemma protect7_resolves:
  "protect7 e rq st = Granted u t \<Longrightarrow>
   t = Mongodb \<or> (\<exists>d. sqliteDB st = Some d \<and> sqlite_findUserById (uid u) d = Some u)"
  by (auto simp: protect7_def canUseDB7_def sqlite_findUserById_def find_Some_iff Let_def
        split: if_splits verify_result.splits option.splits)

lemma env_serve7:
  "pred_option (enveloped (r \<noteq> Logout7 \<and> r \<noteq> DeleteTodo7)) (fst (serve7 e r rq st))"
proof (cases r)
  case UpdateTodo7
  show ?thesis
  proof (cases "protect7 e rq st")
    case (Refused x)
    then show ?thesis using env_protect7[OF Refused] by (simp add: UpdateTodo7 serve7_def)
  next
    case (Granted u t)
    then show ?thesis using env_update_todo7[of e u t rq st] by (simp add: UpdateTodo7 serve7_def)
  qed
next
  case PutProfile7
  show ?thesis
  proof (cases "protect7 e rq st")
    case (Refused x)
    then show ?thesis using env_protect7[OF Refused]
      by (simp add: PutProfile7 serve7_def sent_def protected7_def)
  next
    case (Granted u t)
    from protect7_resolves[OF this] have "enveloped True (fst (update_profile7 e u t rq st))"
      by (rule env_update_profile7)
    then show ?thesis using Granted
      by (simp add: PutProfile7 serve7_def sent_def protected7_def)
  qed
qed (simp_all add: serve7_def sent_def env_login7 env_register7 env_protected7 env_authorize
       env_profile7 env_logout7 env_create_todo7 env_delete_todo7 env_get_todo7
       env_list_todos7 env_stats7 env_admin_users7 env_admin_todos7 health7_def status7_def
       not_found7_def)

text \<open>
  Claim C7, as amended.  Every response of the Day 6 routes other than \<^verbatim>\<open>GET /api/health\<close>,
  and every response of the Day 7 routes, has a boolean \<^verbatim>\<open>success\<close> property and, when it
  is \<^verbatim>\<open>false\<close>, a string \<^verbatim>\<open>error\<close> property.  When it is \<^verbatim>\<open>true\<close> the body has a \<^verbatim>\<open>data\<close>
  property, except on the logout routes of both servers, on \<^verbatim>\<open>DELETE /api/todos/:id\<close> of
  Day 7, and on \<^verbatim>\<open>POST /api/users\<close> and \<^verbatim>\<open>GET /api/users\<close>, which answer with \<^verbatim>\<open>user\<close> and
  \<^verbatim>\<open>users\<close>.
\<close>

theorem response_envelope:
  "(r6 \<noteq> Health6 \<longrightarrow>
      enveloped (r6 \<noteq> Logout6 \<and> r6 \<noteq> CreateUser6 \<and> r6 \<noteq> ListUsers6)
        (fst (serve6 e r6 rq s6))) \<and>
   pred_option (enveloped (r7 \<noteq> Logout7 \<and> r7 \<noteq> DeleteTodo7)) (fst (serve7 e r7 rq s7))"
  using env_serve6 env_serve7 by blast

text \<open>
  A successful and a refused login of Day 6, and a logout of Day 7, which is answered with
  status 200.
\<close>

theorem response_envelope_witness:
  "Login6 \<noteq> Health6 \<and>
   enveloped True
     (fst (serve6 sample_env Login6 (login_request ''alice@example.com'' ''secret1'')
             memory_registered)) \<and>
   field ''success''
     (fst (serve6 sample_env Login6 (login_request ''alice@example.com'' ''guess'')
             memory_registered)) = Some (JBool False) \<and>
   map_option status
     (fst (serve7 sample_env Logout7 (post_request ''x'') sqlite_registered)) = Some 200 \<and>
   pred_option (enveloped False)
     (fst (serve7 sample_env Logout7 (post_request ''x'') sqlite_registered))"
proof -
  have 2: "map_option status
     (fst (serve7 sample_env Logout7 (post_request ''x'') sqlite_registered)) = Some 200"
    by (simp add: serve7_def sent_def protected7_def protect7_def logout7_def reply_def
          eval_defs)
  have 1: "field ''success''
     (fst (serve6 sample_env Login6 (login_request ''alice@example.com'' ''guess'')
             memory_registered)) = Some (JBool False)"
    by (simp add: serve6_def login6_def failure_def reply_def field_def Let_def eval_defs)
  note t = response_envelope[of Login6 sample_env
             "login_request ''alice@example.com'' ''secret1''" memory_registered Logout7
             sqlite_registered]
  note u = response_envelope[of Login6 sample_env "post_request ''x''" memory_registered
             Logout7 sqlite_registered]
  from 1 2 t u show ?thesis by simp
qed

text \<open>
  The claim puts every response in the envelope.  \<^verbatim>\<open>GET /api/health\<close> of the Day 6 server
  answers with \<^verbatim>\<open>status\<close>, \<^verbatim>\<open>database\<close> and \<^verbatim>\<open>uptime\<close> and no \<^verbatim>\<open>success\<close> property, and the
  logout of Day 7 succeeds without a \<^verbatim>\<open>data\<close> property.
\<close>

theorem health6_envelope_counterexample:
  "fst (serve6 sample_env Health6 blank_request (initial6 True))
     = reply 200 [(''status'', JStr ''online''), (''database'', JStr ''connected''),
                  (''uptime'', JNum 100)] \<and>
   field ''success'' (fst (serve6 sample_env Health6 blank_request (initial6 True))) = None \<and>
   map_option (field ''success'')
     (fst (serve7 sample_env Logout7 (post_request ''x'') sqlite_registered))
     = Some (Some (JBool True)) \<and>
   map_option (field ''data'')
     (fst (serve7 sample_env Logout7 (post_request ''x'') sqlite_registered)) = Some None"
  by (simp add: serve6_def health6_def initial6_def field_def reply_def
        serve7_def sent_def protected7_def protect7_def logout7_def eval_defs)

subsection \<open>Dispatch between the backends\<close>
















lemma sqlite_same [simp]: "sqliteDB st = Some q \<Longrightarrow> st\<lparr>sqliteDB := Some q\<rparr> = st"
  by (cases st) simp



































end
